theory Spec2Isabelle
  imports Complex_Main "HOL-Library.AList" "HOL-Library.Multiset"
begin

section \<open>Errors and arrays\<close>

text \<open>
  Every \<^verbatim>\<open>raise\<close> of \<^verbatim>\<open>bayesfast/core/density.py\<close> and every exception of the
  Python runtime or of NumPy that the modelled code can meet is a value of \<open>error\<close>.
  The string of \<open>ValueError\<close> and \<open>RuntimeError\<close> is the message of the source; the
  two step failures carry the step index that the source formats into the message
  (\<^verbatim>\<open>'pipeline fun evaluation failed at step #{}.'\<close>).
\<close>

datatype error =
    ValueError string
  | RuntimeError string
  | FunStepFailed int
  | FunAndJacStepFailed int
  | KeyError string
  | IndexError
  | TypeError
  | AttributeError string
  | ZeroDivisionError
  | LinAlgError
  | UnboundLocalError string
  | ModuleError string

text \<open>
  A NumPy array of floats: its shape and its elements in row-major order. Numbers are
  the real numbers; rounding, infinities and NaN of IEEE arithmetic are outside the model.
\<close>

record ndarray =
  shape :: "nat list"
  elems :: "real list"

definition size_nd :: "ndarray \<Rightarrow> nat" where
  "size_nd a = prod_list (shape a)"

definition wf_nd :: "ndarray \<Rightarrow> bool" where
  "wf_nd a = (length (elems a) = prod_list (shape a))"

definition ones_like :: "ndarray \<Rightarrow> ndarray" where
  "ones_like x = \<lparr>shape = shape x, elems = replicate (prod_list (shape x)) 1\<rparr>"

definition zeros_like :: "ndarray \<Rightarrow> ndarray" where
  "zeros_like x = \<lparr>shape = shape x, elems = replicate (prod_list (shape x)) 0\<rparr>"

definition map_nd :: "(real \<Rightarrow> real) \<Rightarrow> ndarray \<Rightarrow> ndarray" where
  "map_nd f a = \<lparr>shape = shape a, elems = map f (elems a)\<rparr>"

text \<open>\<^verbatim>\<open>np.sum(a, axis=-1)\<close>: one sum per block of \<open>last (shape a)\<close> consecutive elements;
  NumPy accepts \<^verbatim>\<open>axis=-1\<close> on a 0-d array and returns its only element.\<close>

definition block :: "nat \<Rightarrow> nat \<Rightarrow> 'a list \<Rightarrow> 'a list" where
  "block i n xs = take n (drop (i * n) xs)"

definition sum_last :: "ndarray \<Rightarrow> ndarray" where
  "sum_last a =
     (if shape a = [] then a
      else \<lparr>shape = butlast (shape a),
            elems = map (\<lambda>i. sum_list (block i (last (shape a)) (elems a)))
                        [0..<prod_list (butlast (shape a))]\<rparr>)"

text \<open>
  NumPy broadcasting of a binary operation. The shapes are aligned at their last axes
  (the shorter one padded with leading ones); two extents are compatible when they are
  equal or one of them is 1. When the shapes are equal the operation is elementwise.
\<close>

definition pad_shape :: "nat \<Rightarrow> nat list \<Rightarrow> nat list" where
  "pad_shape k s = replicate (k - length s) 1 @ s"

fun bshape :: "nat list \<Rightarrow> nat list \<Rightarrow> nat list option" where
  "bshape [] [] = Some []"
| "bshape (a # as) (b # bs) =
     (if a = b \<or> b = 1 then map_option ((#) a) (bshape as bs)
      else if a = 1 then map_option ((#) b) (bshape as bs)
      else None)"
| "bshape _ _ = None"

fun belems :: "(real \<Rightarrow> real \<Rightarrow> real) \<Rightarrow> nat list \<Rightarrow> nat list \<Rightarrow> real list \<Rightarrow> real list \<Rightarrow> real list" where
  "belems f (a # as) (b # bs) xs ys =
     concat (map (\<lambda>i. belems f as bs
                         (block (if a = 1 then 0 else i) (prod_list as) xs)
                         (block (if b = 1 then 0 else i) (prod_list bs) ys))
                 [0..<(if a = 1 then b else a)])"
| "belems f _ _ xs ys = map2 f xs ys"

definition broadcast2 :: "(real \<Rightarrow> real \<Rightarrow> real) \<Rightarrow> ndarray \<Rightarrow> ndarray \<Rightarrow> error + ndarray" where
  "broadcast2 f a b =
     (if shape a = shape b then Inr \<lparr>shape = shape a, elems = map2 f (elems a) (elems b)\<rparr>
      else
        (let k = max (length (shape a)) (length (shape b));
             sa = pad_shape k (shape a);
             sb = pad_shape k (shape b)
         in case bshape sa sb of
              None \<Rightarrow> Inl (ValueError ''operands could not be broadcast together'')
            | Some s \<Rightarrow> Inr \<lparr>shape = s, elems = belems f sa sb (elems a) (elems b)\<rparr>))"

section \<open>The variable-transform layer (\<^verbatim>\<open>_PipelineBase\<close>)\<close>

text \<open>
  The compiled kernels \<^verbatim>\<open>_from_original_f\<close>, ... of \<^verbatim>\<open>transforms/_constraint\<close> are
  not part of the source at hand; they are parameters. A 1-d kernel gets the elements of
  \<open>x\<close>, the scales, the hard bounds and the length, and fills the output buffer; a 2-d
  kernel also gets the number of rows. The model returns the filled buffer.
\<close>

type_synonym scales = "(real \<times> real) list"
type_synonym bounds = "(bool \<times> bool) list"
type_synonym kernel1 = "real list \<Rightarrow> scales \<Rightarrow> bounds \<Rightarrow> nat \<Rightarrow> real list"
type_synonym kernel2 = "real list \<Rightarrow> scales \<Rightarrow> bounds \<Rightarrow> nat \<Rightarrow> nat \<Rightarrow> real list"

record kernels =
  from_original_f :: kernel1
  from_original_f2 :: kernel2
  from_original_j :: kernel1
  from_original_j2 :: kernel2
  from_original_jj :: kernel1
  from_original_jj2 :: kernel2
  to_original_f :: kernel1
  to_original_f2 :: kernel2
  to_original_j :: kernel1
  to_original_j2 :: kernel2
  to_original_jj :: kernel1
  to_original_jj2 :: kernel2

datatype hard_bounds = HBool bool | HArray bounds

record pipeline_base =
  var_scales :: "scales option"
  hard_bounds :: hard_bounds

text \<open>The argument \<^verbatim>\<open>out\<close>: the object \<^verbatim>\<open>False\<close>, the object \<^verbatim>\<open>True\<close>, an array, or
  anything else.\<close>

datatype out_arg = OutFalse | OutTrue | OutArray ndarray | OutOther

text \<open>
  \<^verbatim>\<open>_constraint(self, x, out, f, f2, k)\<close>. The result is what the call returns:
  \<open>Some\<close> array, or \<open>None\<close> where the source ends with a bare \<^verbatim>\<open>return\<close>. Without
  scales the source only rebinds its local names \<^verbatim>\<open>x\<close> and \<^verbatim>\<open>out\<close>, so no array of
  the caller changes. With scales and \<^verbatim>\<open>out\<close> not \<^verbatim>\<open>True\<close> the kernel writes into a
  buffer of the caller; that write is not part of the returned value and is not modelled.
\<close>

definition constraint ::
  "'a pipeline_base_scheme \<Rightarrow> ndarray \<Rightarrow> out_arg \<Rightarrow> kernel1 \<Rightarrow> kernel2 \<Rightarrow> int \<Rightarrow> error + ndarray option" where
  "constraint self x out f f2 k =
     (case var_scales self of
        None \<Rightarrow>
          (if k \<noteq> 0 \<and> k \<noteq> 1 \<and> k \<noteq> 2 then Inl (RuntimeError ''unexpected value for k.'')
           else
             (let out' = (if k = 0 then x else if k = 1 then ones_like x else zeros_like x)
              in case out of
                   OutFalse \<Rightarrow> Inr None
                 | OutTrue \<Rightarrow> Inr (Some out')
                 | OutArray o_arr \<Rightarrow>
                     (if shape x = shape o_arr then Inr None
                      else Inl (ValueError ''invalid value for out.''))
                 | OutOther \<Rightarrow> Inl (ValueError ''invalid value for out.'')))
      | Some sc \<Rightarrow>
          (case (case out of
                   OutFalse \<Rightarrow> Inr False
                 | OutTrue \<Rightarrow> Inr True
                 | OutArray o_arr \<Rightarrow>
                     (if shape x = shape o_arr then Inr False
                      else Inl (ValueError ''invalid value for out.''))
                 | OutOther \<Rightarrow> Inl (ValueError ''invalid value for out.'')) of
             Inl e \<Rightarrow> Inl e
           | Inr ret \<Rightarrow>
               (if shape x = [] then Inl IndexError
                else
                  (let n = last (shape x);
                       hb = (case hard_bounds self of
                               HBool b \<Rightarrow> replicate n (b, b)
                             | HArray h \<Rightarrow> h)
                   in if length (shape x) = 1 then
                        Inr (if ret then Some \<lparr>shape = shape x, elems = f (elems x) sc hb n\<rparr>
                             else None)
                      else if length (shape x) = 2 then
                        Inr (if ret
                             then Some \<lparr>shape = shape x,
                                        elems = f2 (elems x) sc hb n (hd (shape x))\<rparr>
                             else None)
                      else if n = 0 then
                        Inl (ValueError ''cannot reshape array of size 0'')
                      else
                        Inr (if ret
                             then Some \<lparr>shape = shape x,
                                        elems = f2 (elems x) sc hb n
                                                  (prod_list (butlast (shape x)))\<rparr>
                             else None)))))"

definition from_original :: "kernels \<Rightarrow> 'a pipeline_base_scheme \<Rightarrow> ndarray \<Rightarrow> out_arg \<Rightarrow> error + ndarray option" where
  "from_original K self x out = constraint self x out (from_original_f K) (from_original_f2 K) 0"

definition from_original_grad :: "kernels \<Rightarrow> 'a pipeline_base_scheme \<Rightarrow> ndarray \<Rightarrow> out_arg \<Rightarrow> error + ndarray option" where
  "from_original_grad K self x out = constraint self x out (from_original_j K) (from_original_j2 K) 1"

definition from_original_grad2 :: "kernels \<Rightarrow> 'a pipeline_base_scheme \<Rightarrow> ndarray \<Rightarrow> out_arg \<Rightarrow> error + ndarray option" where
  "from_original_grad2 K self x out = constraint self x out (from_original_jj K) (from_original_jj2 K) 2"

definition to_original :: "kernels \<Rightarrow> 'a pipeline_base_scheme \<Rightarrow> ndarray \<Rightarrow> out_arg \<Rightarrow> error + ndarray option" where
  "to_original K self x out = constraint self x out (to_original_f K) (to_original_f2 K) 0"

definition to_original_grad :: "kernels \<Rightarrow> 'a pipeline_base_scheme \<Rightarrow> ndarray \<Rightarrow> out_arg \<Rightarrow> error + ndarray option" where
  "to_original_grad K self x out = constraint self x out (to_original_j K) (to_original_j2 K) 1"

definition to_original_grad2 :: "kernels \<Rightarrow> 'a pipeline_base_scheme \<Rightarrow> ndarray \<Rightarrow> out_arg \<Rightarrow> error + ndarray option" where
  "to_original_grad2 K self x out = constraint self x out (to_original_jj K) (to_original_jj2 K) 2"

text \<open>
  \<^verbatim>\<open>_get_diff(self, x=None, x_trans=None)\<close>; the transforms are called with their default
  \<^verbatim>\<open>out=True\<close>. A transform that returned \<^verbatim>\<open>None\<close> would make \<^verbatim>\<open>np.abs\<close> fail.
\<close>

definition log_abs_sum :: "ndarray \<Rightarrow> ndarray" where
  "log_abs_sum g = sum_last (map_nd (\<lambda>v. ln \<bar>v\<bar>) g)"

definition get_diff :: "kernels \<Rightarrow> 'a pipeline_base_scheme \<Rightarrow> ndarray option \<Rightarrow> ndarray option \<Rightarrow> error + ndarray" where
  "get_diff K self x x_trans =
     (case x of
        Some xo \<Rightarrow>
          (case from_original_grad K self xo OutTrue of
             Inl e \<Rightarrow> Inl e
           | Inr None \<Rightarrow> Inl TypeError
           | Inr (Some g) \<Rightarrow> Inr (map_nd uminus (log_abs_sum g)))
      | None \<Rightarrow>
          (case x_trans of
             Some xt \<Rightarrow>
               (case to_original_grad K self xt OutTrue of
                  Inl e \<Rightarrow> Inl e
                | Inr None \<Rightarrow> Inl TypeError
                | Inr (Some g) \<Rightarrow> Inr (log_abs_sum g))
           | None \<Rightarrow> Inl (ValueError ''x and x_trans cannot both be None.'')))"

text \<open>\<^verbatim>\<open>to_original_density(self, density, x_trans=None, x=None)\<close> and
  \<^verbatim>\<open>from_original_density(self, density, x=None, x_trans=None)\<close>.\<close>

definition to_original_density ::
  "kernels \<Rightarrow> 'a pipeline_base_scheme \<Rightarrow> ndarray \<Rightarrow> ndarray option \<Rightarrow> ndarray option \<Rightarrow> error + ndarray" where
  "to_original_density K self density x_trans x =
     (case get_diff K self x x_trans of
        Inl e \<Rightarrow> Inl e
      | Inr diff \<Rightarrow>
          (if size_nd density \<noteq> size_nd diff
           then Inl (ValueError ''the shape of density is inconsistent with the shape of x_trans or x.'')
           else broadcast2 (-) density diff))"

definition from_original_density ::
  "kernels \<Rightarrow> 'a pipeline_base_scheme \<Rightarrow> ndarray \<Rightarrow> ndarray option \<Rightarrow> ndarray option \<Rightarrow> error + ndarray" where
  "from_original_density K self density x x_trans =
     (case get_diff K self x x_trans of
        Inl e \<Rightarrow> Inl e
      | Inr diff \<Rightarrow>
          (if size_nd density \<noteq> size_nd diff
           then Inl (ValueError ''the shape of density is inconsistent with the shape of x or x_trans.'')
           else broadcast2 (+) density diff))"


section \<open>Names, stores and matrices\<close>

text \<open>\<^verbatim>\<open>'{}'.format(k)\<close> for a natural number and for an integer: its decimal digits.\<close>

definition digit_char :: "nat \<Rightarrow> char" where
  "digit_char d = ''0123456789'' ! d"

fun str_nat :: "nat \<Rightarrow> string" where
  "str_nat n = (if n < 10 then [digit_char n] else str_nat (n div 10) @ [digit_char (n mod 10)])"

declare str_nat.simps [simp del]

definition str_int :: "int \<Rightarrow> string" where
  "str_int i = (if i < 0 then ''-'' @ str_nat (nat (- i)) else str_nat (nat i))"

definition digit_val :: "char \<Rightarrow> nat" where
  "digit_val c = of_char c - 48"

definition nat_of_str :: "string \<Rightarrow> nat" where
  "nat_of_str s = foldl (\<lambda>a c. 10 * a + digit_val c) 0 s"

text \<open>\<^verbatim>\<open>n + '-Copy{}'.format(k)\<close>\<close>

definition copy_name :: "string \<Rightarrow> nat \<Rightarrow> string" where
  "copy_name n k = n @ ''-Copy'' @ str_nat k"

lemma digit_val_char: "d < 10 \<Longrightarrow> digit_val (digit_char d) = d"
proof -
  assume "d < 10"
  then have "d \<in> {0,1,2,3,4,5,6,7,8,9}" by auto
  then show ?thesis by (auto simp: digit_val_def digit_char_def)
qed

lemma nat_of_str_nat: "nat_of_str (str_nat n) = n"
proof (induction n rule: str_nat.induct)
  case (1 n)
  show ?case
  proof (cases "n < 10")
    case True
    then show ?thesis by (simp add: str_nat.simps[of n] nat_of_str_def digit_val_char)
  next
    case False
    with 1 have "nat_of_str (str_nat (n div 10)) = n div 10" by simp
    with False show ?thesis
      by (simp add: str_nat.simps[of n] nat_of_str_def digit_val_char)
  qed
qed

lemma str_nat_inj: "str_nat a = str_nat b \<Longrightarrow> a = b"
  by (metis nat_of_str_nat)

lemma copy_name_inj: "copy_name n a = copy_name n b \<Longrightarrow> a = b"
  by (simp add: copy_name_def str_nat_inj)

lemma finite_copy_hits: "finite {j. copy_name n j \<in> set keys}"
proof -
  have "inj (copy_name n)" by (rule injI) (rule copy_name_inj)
  then have "finite (copy_name n -` set keys)" by (intro finite_vimageI) auto
  then show ?thesis by (simp add: vimage_def)
qed

text \<open>
  The search of the copy directive for a free name:
  \<^verbatim>\<open>k = 1; while True: nn = n + '-Copy{}'.format(k); if nn in d: k += 1 else: break\<close>.
  \<open>keys\<close> are the names bound in the dictionaries that the source looks into. The loop
  ends because the names \<open>copy_name n k\<close> differ for different \<open>k\<close> and the keys are
  finitely many.
\<close>

function copy_search :: "string list \<Rightarrow> string \<Rightarrow> nat \<Rightarrow> string" where
  "copy_search keys n k =
     (if copy_name n k \<in> set keys then copy_search keys n (k + 1) else copy_name n k)"
  by pat_completeness auto
termination
proof (relation "measure (\<lambda>(keys, n, k). card {j. k \<le> j \<and> copy_name n j \<in> set keys})")
  show "wf (measure (\<lambda>(keys, n, k). card {j. k \<le> j \<and> copy_name n j \<in> set keys}))" by simp
next
  fix keys :: "string list" and n :: string and k :: nat
  assume hit: "copy_name n k \<in> set keys"
  have fin: "finite {j. k \<le> j \<and> copy_name n j \<in> set keys}"
    by (rule finite_subset[OF _ finite_copy_hits[of n keys]]) auto
  have "k \<in> {j. k \<le> j \<and> copy_name n j \<in> set keys}" using hit by simp
  moreover have "k \<notin> {j. k + 1 \<le> j \<and> copy_name n j \<in> set keys}" by simp
  moreover have "{j. k + 1 \<le> j \<and> copy_name n j \<in> set keys} \<subseteq> {j. k \<le> j \<and> copy_name n j \<in> set keys}"
    by auto
  ultimately have "{j. k + 1 \<le> j \<and> copy_name n j \<in> set keys} \<subset> {j. k \<le> j \<and> copy_name n j \<in> set keys}"
    by blast
  then have "card {j. k + 1 \<le> j \<and> copy_name n j \<in> set keys} < card {j. k \<le> j \<and> copy_name n j \<in> set keys}"
    using fin by (rule psubset_card_mono[rotated])
  then show "((keys, n, k + 1), (keys, n, k)) \<in> measure (\<lambda>(keys, n, k). card {j. k \<le> j \<and> copy_name n j \<in> set keys})"
    by simp
qed

declare copy_search.simps [simp del]

text \<open>
  The values that stages exchange are 1-d float arrays (\<open>vec\<close>); a Jacobian is a 2-d float
  array: its number of columns and its rows. Every NumPy array is rectangular
  (\<open>wf_matrix\<close>).
\<close>

type_synonym vec = "real list"

record matrix =
  ncols :: nat
  rows :: "real list list"

definition wf_matrix :: "matrix \<Rightarrow> bool" where
  "wf_matrix M = list_all (\<lambda>r. length r = ncols M) (rows M)"

text \<open>\<^verbatim>\<open>np.eye(n)\<close>, \<^verbatim>\<open>np.diag(v)\<close> of a 1-d array, the row slice \<^verbatim>\<open>j[a:b]\<close> and the
  slice \<^verbatim>\<open>x[a:b]\<close> (bounds are clipped, as Python does).\<close>

definition eye :: "nat \<Rightarrow> matrix" where
  "eye n = \<lparr>ncols = n, rows = map (\<lambda>i. map (\<lambda>j. if i = j then 1 else 0) [0..<n]) [0..<n]\<rparr>"

definition diag :: "vec \<Rightarrow> matrix" where
  "diag v = \<lparr>ncols = length v,
             rows = map (\<lambda>i. map (\<lambda>j. if i = j then v ! i else 0) [0..<length v]) [0..<length v]\<rparr>"

definition slice :: "nat \<Rightarrow> nat \<Rightarrow> 'a list \<Rightarrow> 'a list" where
  "slice a b xs = take (b - a) (drop a xs)"

definition slice_rows :: "nat \<Rightarrow> nat \<Rightarrow> matrix \<Rightarrow> matrix" where
  "slice_rows a b M = \<lparr>ncols = ncols M, rows = slice a b (rows M)\<rparr>"

text \<open>\<^verbatim>\<open>np.concatenate(ms, axis=0)\<close>: an empty list is refused, and so are arrays that
  differ in their number of columns.\<close>

definition concatenate0 :: "matrix list \<Rightarrow> error + matrix" where
  "concatenate0 ms =
     (case ms of
        [] \<Rightarrow> Inl (ValueError ''need at least one array to concatenate'')
      | m # _ \<Rightarrow>
          (if list_all (\<lambda>m'. ncols m' = ncols m) ms
           then Inr \<lparr>ncols = ncols m, rows = concat (map rows ms)\<rparr>
           else Inl (ValueError ''all the input array dimensions except for the concatenation axis must match exactly'')))"

text \<open>\<^verbatim>\<open>np.dot(A, B)\<close> of two 2-d arrays: the matrix product.\<close>

definition dot_row :: "real list \<Rightarrow> matrix \<Rightarrow> real list" where
  "dot_row r B = map (\<lambda>j. \<Sum>l\<leftarrow>[0..<length (rows B)]. r ! l * (rows B ! l) ! j) [0..<ncols B]"

definition dot :: "matrix \<Rightarrow> matrix \<Rightarrow> error + matrix" where
  "dot A B =
     (if ncols A = length (rows B)
      then Inr \<lparr>ncols = ncols B, rows = map (\<lambda>r. dot_row r B) (rows A)\<rparr>
      else Inl (ValueError ''shapes not aligned''))"

text \<open>
  \<^verbatim>\<open>VariableDict\<close> (\<^verbatim>\<open>utils/collections\<close>).
  Modelled from the spec: the class \<^verbatim>\<open>VariableDict\<close> is not part of the source at hand;
  the spec describes it as two parallel mappings, from names to values and from names to
  Jacobians. The source reads and writes both dictionaries directly, as \<^verbatim>\<open>_fun\<close> and
  \<^verbatim>\<open>_jac\<close>. A Python dictionary keeps its keys in the order of their first insertion,
  which an association list with \<open>AList.update\<close> and \<open>AList.delete\<close> does too.
\<close>

record var_dict =
  vd_fun :: "(string \<times> vec) list"
  vd_jac :: "(string \<times> matrix) list"

definition empty_dict :: var_dict where
  "empty_dict = \<lparr>vd_fun = [], vd_jac = []\<rparr>"

text \<open>
  Modelled from the spec: \<^verbatim>\<open>VariableDict.__setitem__\<close> with a pair binds the value and the
  Jacobian under the name; \<^verbatim>\<open>VariableDict.__getitem__\<close> with one name returns the pair of
  value and Jacobian, and with a collection of names the store restricted to these names
  (``a keyed subset'').
\<close>

definition vd_set :: "string \<Rightarrow> vec \<times> matrix \<Rightarrow> var_dict \<Rightarrow> var_dict" where
  "vd_set n p vd = \<lparr>vd_fun = AList.update n (fst p) (vd_fun vd),
                    vd_jac = AList.update n (snd p) (vd_jac vd)\<rparr>"

definition lookup :: "(string \<times> 'a) list \<Rightarrow> string \<Rightarrow> error + 'a" where
  "lookup d n = (case map_of d n of None \<Rightarrow> Inl (KeyError n) | Some v \<Rightarrow> Inr v)"

definition vd_get_pair :: "var_dict \<Rightarrow> string \<Rightarrow> error + (vec \<times> matrix)" where
  "vd_get_pair vd n =
     (case lookup (vd_fun vd) n of
        Inl e \<Rightarrow> Inl e
      | Inr v \<Rightarrow> (case lookup (vd_jac vd) n of Inl e \<Rightarrow> Inl e | Inr j \<Rightarrow> Inr (v, j)))"

definition vd_subset :: "var_dict \<Rightarrow> string list \<Rightarrow> error + var_dict" where
  "vd_subset vd ns =
     (case filter (\<lambda>n. map_of (vd_fun vd) n = None) ns of
        n # _ \<Rightarrow> Inl (KeyError n)
      | [] \<Rightarrow> Inr \<lparr>vd_fun = map (\<lambda>n. (n, the (map_of (vd_fun vd) n))) (remdups ns),
                  vd_jac = filter (\<lambda>p. fst p \<in> set ns) (vd_jac vd)\<rparr>)"

text \<open>Python indexing of a list: a negative index counts from the end.\<close>

definition py_index :: "'a list \<Rightarrow> int \<Rightarrow> error + 'a" where
  "py_index xs i =
     (if 0 \<le> i \<and> i < int (length xs) then Inr (xs ! nat i)
      else if i < 0 \<and> - int (length xs) \<le> i then Inr (xs ! nat (int (length xs) + i))
      else Inl IndexError)"

section \<open>Modules, surrogates and the pipeline\<close>

text \<open>
  The classes \<^verbatim>\<open>Module\<close> and \<^verbatim>\<open>Surrogate\<close> (\<^verbatim>\<open>core/module\<close>) are external collaborators:
  the pipeline reads a stage's five lists of names and calls its \<^verbatim>\<open>fun\<close> or
  \<^verbatim>\<open>fun_and_jac\<close>, which returns the output blocks (and the local Jacobians) or raises.
\<close>

record module =
  input_vars :: "string list"
  output_vars :: "string list"
  copy_vars :: "string list"
  paste_vars :: "string list"
  delete_vars :: "string list"
  module_fun :: "vec list \<Rightarrow> error + vec list"
  module_fun_and_jac :: "vec list \<Rightarrow> error + (vec list \<times> matrix list)"

record surrogate =
  stage :: module
  scope :: "int \<times> int"

type_synonym recipe = "(int \<times> int \<times> int) list"

record pipeline = pipeline_base +
  module_list :: "module list"
  surrogate_list :: "surrogate list"
  surrogate_recipe :: recipe
  pipeline_input_vars :: "string list"
  input_cum :: "nat list option"

definition n_module :: "'a pipeline_scheme \<Rightarrow> nat" where
  "n_module P = length (module_list P)"

definition n_surrogate :: "'a pipeline_scheme \<Rightarrow> nat" where
  "n_surrogate P = length (surrogate_list P)"

definition has_surrogate :: "'a pipeline_scheme \<Rightarrow> bool" where
  "has_surrogate P = (n_surrogate P > 0)"

subsection \<open>The surrogate recipe\<close>







subsection \<open>Options of a call\<close>

text \<open>
  The selector \<^verbatim>\<open>extract_vars\<close>: \<^verbatim>\<open>None\<close>, one name, or a collection of names. The
  steps \<^verbatim>\<open>start\<close> and \<^verbatim>\<open>stop\<close> are \<^verbatim>\<open>None\<close> or integers.
\<close>

datatype selector = ExNone | ExName string | ExNames "string list"

record options =
  use_surrogate :: bool
  original_space :: bool
  start :: "int option"
  stop :: "int option"
  extract_vars :: selector

text \<open>\<^verbatim>\<open>_step_check(self, step, tag)\<close>: the remainder by a module count of zero raises,
  and the bare \<^verbatim>\<open>except\<close> turns that into the \<^verbatim>\<open>ValueError\<close>.\<close>

definition step_check :: "'a pipeline_scheme \<Rightarrow> int option \<Rightarrow> string \<Rightarrow> error + int" where
  "step_check self step tag =
     (case step of
        None \<Rightarrow>
          (if tag = ''start'' then Inr 0
           else if tag = ''stop'' then Inr (int (n_module self) - 1)
           else Inl (RuntimeError ''unexpected value for tag.''))
      | Some s \<Rightarrow>
          (if n_module self = 0
           then Inl (ValueError (tag @ '' should be an int or None, instead of '' @ str_int s @ ''.''))
           else Inr (s mod int (n_module self))))"

text \<open>
  \<^verbatim>\<open>_options_check(self, start, stop, extract_vars)\<close>. \<^verbatim>\<open>Module._var_check\<close> is not part
  of the source at hand; its use here, on a collection of names with the arguments
  \<^verbatim>\<open>('extract', False, 'remove')\<close>, is the parameter \<open>var_check\<close>.
\<close>

type_synonym var_check = "string list \<Rightarrow> error + string list"

definition options_check ::
  "'a pipeline_scheme \<Rightarrow> var_check \<Rightarrow> int option \<Rightarrow> int option \<Rightarrow> selector
     \<Rightarrow> error + (int \<times> int \<times> selector)" where
  "options_check self vc st sp ex =
     (case step_check self st ''start'' of
        Inl e \<Rightarrow> Inl e
      | Inr st' \<Rightarrow>
          (case step_check self sp ''stop'' of
             Inl e \<Rightarrow> Inl e
           | Inr sp' \<Rightarrow>
               (if st' > sp' then Inl (ValueError ''start should be no larger than stop.'')
                else
                  (case ex of
                     ExNames ns \<Rightarrow>
                       (case vc ns of Inl e \<Rightarrow> Inl e | Inr ns' \<Rightarrow> Inr (st', sp', ExNames ns'))
                   | _ \<Rightarrow> Inr (st', sp', ex)))))"

text \<open>The tuple \<^verbatim>\<open>conf\<close> that the recursive calls get: the options with the checked
  values in place of the given ones.\<close>

definition conf :: "options \<Rightarrow> int \<times> int \<times> selector \<Rightarrow> options" where
  "conf opts c =
     \<lparr>use_surrogate = use_surrogate opts, original_space = original_space opts,
      start = Some (fst c), stop = Some (fst (snd c)), extract_vars = snd (snd c)\<rparr>"

subsection \<open>Seeding the store from a coordinate vector\<close>

definition as_1d :: "vec \<Rightarrow> ndarray" where
  "as_1d x = \<lparr>shape = [length x], elems = x\<rparr>"

text \<open>The transforms are called with their default \<^verbatim>\<open>out=True\<close> and return an array.\<close>

definition returned :: "error + ndarray option \<Rightarrow> error + vec" where
  "returned r = (case r of Inl e \<Rightarrow> Inl e | Inr None \<Rightarrow> Inl TypeError | Inr (Some a) \<Rightarrow> Inr (elems a))"

fun bind_inputs_fun :: "nat list \<Rightarrow> vec \<Rightarrow> nat \<Rightarrow> string list \<Rightarrow> var_dict \<Rightarrow> error + var_dict" where
  "bind_inputs_fun cum x i [] vd = Inr vd"
| "bind_inputs_fun cum x i (n # ns) vd =
     (if i + 1 < length cum
      then bind_inputs_fun cum x (i + 1) ns
             (vd\<lparr>vd_fun := AList.update n (slice (cum ! i) (cum ! (i + 1)) x) (vd_fun vd)\<rparr>)
      else Inl IndexError)"

definition seed_fun :: "kernels \<Rightarrow> 'a pipeline_scheme \<Rightarrow> bool \<Rightarrow> vec \<Rightarrow> error + var_dict" where
  "seed_fun K self orig x =
     (case (if orig then Inr x else returned (to_original K self (as_1d x) OutTrue)) of
        Inl e \<Rightarrow> Inl e
      | Inr x' \<Rightarrow>
          (case input_cum self of
             None \<Rightarrow>
               (case pipeline_input_vars self of
                  [] \<Rightarrow> Inl IndexError
                | n # _ \<Rightarrow> Inr \<lparr>vd_fun = [(n, x')], vd_jac = []\<rparr>)
           | Some cum \<Rightarrow> bind_inputs_fun cum x' 0 (pipeline_input_vars self) empty_dict))"

fun bind_inputs_jac ::
  "nat list \<Rightarrow> vec \<Rightarrow> matrix \<Rightarrow> nat \<Rightarrow> string list \<Rightarrow> var_dict \<Rightarrow> error + var_dict" where
  "bind_inputs_jac cum x j i [] vd = Inr vd"
| "bind_inputs_jac cum x j i (n # ns) vd =
     (if i + 1 < length cum
      then bind_inputs_jac cum x j (i + 1) ns
             \<lparr>vd_fun = AList.update n (slice (cum ! i) (cum ! (i + 1)) x) (vd_fun vd),
              vd_jac = AList.update n (slice_rows (cum ! i) (cum ! (i + 1)) j) (vd_jac vd)\<rparr>
      else Inl IndexError)"

definition seed_jac :: "kernels \<Rightarrow> 'a pipeline_scheme \<Rightarrow> bool \<Rightarrow> vec \<Rightarrow> error + var_dict" where
  "seed_jac K self orig x =
     (case (if orig then Inr (eye (length x), x)
            else (case returned (to_original_grad K self (as_1d x) OutTrue) of
                    Inl e \<Rightarrow> Inl e
                  | Inr g \<Rightarrow>
                      (case returned (to_original K self (as_1d x) OutTrue) of
                         Inl e \<Rightarrow> Inl e
                       | Inr x' \<Rightarrow> Inr (diag g, x')))) of
        Inl e \<Rightarrow> Inl e
      | Inr (j, x') \<Rightarrow>
          (case input_cum self of
             None \<Rightarrow>
               (case pipeline_input_vars self of
                  [] \<Rightarrow> Inl IndexError
                | n # _ \<Rightarrow> Inr \<lparr>vd_fun = [(n, x')], vd_jac = [(n, j)]\<rparr>)
           | Some cum \<Rightarrow> bind_inputs_jac cum x' j 0 (pipeline_input_vars self) empty_dict))"

subsection \<open>One stage on the store\<close>

text \<open>
  Each part of a step returns the store as it has left it and the exception it raised,
  if any: the store is mutated in place, so what was written before a failure stays.
\<close>

fun gather :: "(string \<times> 'a) list \<Rightarrow> string list \<Rightarrow> error + 'a list" where
  "gather d [] = Inr []"
| "gather d (n # ns) =
     (case lookup d n of
        Inl e \<Rightarrow> Inl e
      | Inr v \<Rightarrow> (case gather d ns of Inl e \<Rightarrow> Inl e | Inr vs \<Rightarrow> Inr (v # vs)))"

text \<open>\<^verbatim>\<open>for j, n in enumerate(_module._output_vars): var_dict._fun[n] = _output[j]\<close>\<close>

fun bind_outputs_fun :: "string list \<Rightarrow> vec list \<Rightarrow> nat \<Rightarrow> var_dict \<Rightarrow> var_dict \<times> error option" where
  "bind_outputs_fun [] out j vd = (vd, None)"
| "bind_outputs_fun (n # ns) out j vd =
     (if j < length out
      then bind_outputs_fun ns out (j + 1) (vd\<lparr>vd_fun := AList.update n (out ! j) (vd_fun vd)\<rparr>)
      else (vd, Some IndexError))"

text \<open>The copy directives in value mode: the paste name when \<^verbatim>\<open>_paste_vars[j]\<close> exists,
  else the first free name \<^verbatim>\<open>n-Copy<k>\<close>; the name is chosen before \<open>n\<close> is read.\<close>

fun copy_fun :: "string list \<Rightarrow> string list \<Rightarrow> nat \<Rightarrow> var_dict \<Rightarrow> var_dict \<times> error option" where
  "copy_fun [] paste j vd = (vd, None)"
| "copy_fun (n # ns) paste j vd =
     (let nn = (if j < length paste then paste ! j
                else copy_search (map fst (vd_fun vd)) n 1)
      in case lookup (vd_fun vd) n of
           Inl e \<Rightarrow> (vd, Some e)
         | Inr v \<Rightarrow> copy_fun ns paste (j + 1) (vd\<lparr>vd_fun := AList.update nn v (vd_fun vd)\<rparr>))"

text \<open>\<^verbatim>\<open>for n in _module._delete_vars: del var_dict._fun[n]\<close>\<close>

fun delete_fun :: "string list \<Rightarrow> var_dict \<Rightarrow> var_dict \<times> error option" where
  "delete_fun [] vd = (vd, None)"
| "delete_fun (n # ns) vd =
     (if map_of (vd_fun vd) n = None then (vd, Some (KeyError n))
      else delete_fun ns (vd\<lparr>vd_fun := AList.delete n (vd_fun vd)\<rparr>))"

definition run_stage_fun :: "module \<Rightarrow> var_dict \<Rightarrow> var_dict \<times> error option" where
  "run_stage_fun m vd =
     (case gather (vd_fun vd) (input_vars m) of
        Inl e \<Rightarrow> (vd, Some e)
      | Inr inp \<Rightarrow>
          (case module_fun m inp of
             Inl e \<Rightarrow> (vd, Some e)
           | Inr out \<Rightarrow>
               (case bind_outputs_fun (output_vars m) out 0 vd of
                  (vd1, Some e) \<Rightarrow> (vd1, Some e)
                | (vd1, None) \<Rightarrow>
                    (case copy_fun (copy_vars m) (paste_vars m) 0 vd1 of
                       (vd2, Some e) \<Rightarrow> (vd2, Some e)
                     | (vd2, None) \<Rightarrow> delete_fun (delete_vars m) vd2))))"

text \<open>
  Jacobian mode. \<^verbatim>\<open>var_dict._fun[n] = _output[j]\<close> and then
  \<^verbatim>\<open>var_dict._jac[n] = np.dot(_output_jac[j], _input_jac)\<close>, where \<^verbatim>\<open>_input_jac\<close> was
  concatenated before the call of the stage.
\<close>

fun bind_outputs_jac ::
  "string list \<Rightarrow> vec list \<Rightarrow> matrix list \<Rightarrow> matrix \<Rightarrow> nat \<Rightarrow> var_dict \<Rightarrow> var_dict \<times> error option" where
  "bind_outputs_jac [] out ojac ijac j vd = (vd, None)"
| "bind_outputs_jac (n # ns) out ojac ijac j vd =
     (if j < length out then
        (let vd1 = vd\<lparr>vd_fun := AList.update n (out ! j) (vd_fun vd)\<rparr>
         in if j < length ojac then
              (case dot (ojac ! j) ijac of
                 Inl e \<Rightarrow> (vd1, Some e)
               | Inr J \<Rightarrow>
                   bind_outputs_jac ns out ojac ijac (j + 1)
                     (vd1\<lparr>vd_jac := AList.update n J (vd_jac vd1)\<rparr>))
            else (vd1, Some IndexError))
      else (vd, Some IndexError))"

text \<open>\<^verbatim>\<open>var_dict[nn] = (np.copy(var_dict._fun[n]), np.copy(var_dict._jac[n]))\<close>, with the
  free name searched in both dictionaries.\<close>

fun copy_jac :: "string list \<Rightarrow> string list \<Rightarrow> nat \<Rightarrow> var_dict \<Rightarrow> var_dict \<times> error option" where
  "copy_jac [] paste j vd = (vd, None)"
| "copy_jac (n # ns) paste j vd =
     (let nn = (if j < length paste then paste ! j
                else copy_search (map fst (vd_fun vd) @ map fst (vd_jac vd)) n 1)
      in case vd_get_pair vd n of
           Inl e \<Rightarrow> (vd, Some e)
         | Inr p \<Rightarrow> copy_jac ns paste (j + 1) (vd_set nn p vd))"

text \<open>\<^verbatim>\<open>for n in _module._delete_vars: del var_dict._fun[n], var_dict._jac[n]\<close>: the
  value goes first, then the Jacobian.\<close>

fun delete_jac :: "string list \<Rightarrow> var_dict \<Rightarrow> var_dict \<times> error option" where
  "delete_jac [] vd = (vd, None)"
| "delete_jac (n # ns) vd =
     (if map_of (vd_fun vd) n = None then (vd, Some (KeyError n))
      else
        (let vd1 = vd\<lparr>vd_fun := AList.delete n (vd_fun vd)\<rparr>
         in if map_of (vd_jac vd1) n = None then (vd1, Some (KeyError n))
            else delete_jac ns (vd1\<lparr>vd_jac := AList.delete n (vd_jac vd1)\<rparr>)))"

definition run_stage_jac :: "module \<Rightarrow> var_dict \<Rightarrow> var_dict \<times> error option" where
  "run_stage_jac m vd =
     (case gather (vd_fun vd) (input_vars m) of
        Inl e \<Rightarrow> (vd, Some e)
      | Inr inp \<Rightarrow>
          (case gather (vd_jac vd) (input_vars m) of
             Inl e \<Rightarrow> (vd, Some e)
           | Inr js \<Rightarrow>
               (case concatenate0 js of
                  Inl e \<Rightarrow> (vd, Some e)
                | Inr ijac \<Rightarrow>
                    (case module_fun_and_jac m inp of
                       Inl e \<Rightarrow> (vd, Some e)
                     | Inr (out, ojac) \<Rightarrow>
                         (case bind_outputs_jac (output_vars m) out ojac ijac 0 vd of
                            (vd1, Some e) \<Rightarrow> (vd1, Some e)
                          | (vd1, None) \<Rightarrow>
                              (case copy_jac (copy_vars m) (paste_vars m) 0 vd1 of
                                 (vd2, Some e) \<Rightarrow> (vd2, Some e)
                               | (vd2, None) \<Rightarrow> delete_jac (delete_vars m) vd2))))))"

definition run_stage :: "bool \<Rightarrow> module \<Rightarrow> var_dict \<Rightarrow> var_dict \<times> error option" where
  "run_stage jac_mode m vd = (if jac_mode then run_stage_jac m vd else run_stage_fun m vd)"

subsection \<open>The loop over the steps\<close>

text \<open>
  The choice of the stage at cursor \<open>i\<close>: the module at \<open>i\<close>, or the surrogate whose scope
  starts at \<open>i\<close>. The result is the stage, the advance \<^verbatim>\<open>di\<close> of the cursor, and the new
  values of \<^verbatim>\<open>si\<close> and \<^verbatim>\<open>use_surrogate\<close>.
\<close>

definition select_stage ::
  "'a pipeline_scheme \<Rightarrow> int \<Rightarrow> nat \<Rightarrow> bool \<Rightarrow> error + (module \<times> int \<times> nat \<times> bool)" where
  "select_stage self i si us =
     (if us \<and> has_surrogate self then
        (if si < length (surrogate_recipe self) then
           (let r = surrogate_recipe self ! si in
            if i < fst (snd r) then
              (case py_index (module_list self) i of
                 Inl e \<Rightarrow> Inl e
               | Inr m \<Rightarrow> Inr (m, 1, si, us))
            else if i = fst (snd r) then
              (case py_index (surrogate_list self) (fst r) of
                 Inl e \<Rightarrow> Inl e
               | Inr su \<Rightarrow>
                   (if int si = int (n_surrogate self) - 1
                    then Inr (stage su, snd (snd r), si, False)
                    else Inr (stage su, snd (snd r), si + 1, us)))
            else Inl (RuntimeError ''unexpected value for i and si.''))
         else Inl IndexError)
      else
        (case py_index (module_list self) i of
           Inl e \<Rightarrow> Inl e
         | Inr m \<Rightarrow> Inr (m, 1, si, us)))"

definition step_failed :: "bool \<Rightarrow> int \<Rightarrow> error" where
  "step_failed jac_mode i = (if jac_mode then FunAndJacStepFailed i else FunStepFailed i)"

lemma select_stage_progress:
  assumes "select_stage self i si us = Inr (m, di, si', us')"
  shows "(di = 1 \<and> si' = si \<and> us' = us) \<or>
         (us \<and> si < length (surrogate_recipe self) \<and> (us' \<longrightarrow> si' = si + 1))"
  using assms
  by (auto simp: select_stage_def Let_def split: if_splits sum.splits)

text \<open>
  \<^verbatim>\<open>while i <= stop: try: ... except: raise RuntimeError(... step #i) ; i += di\<close>.
  A surrogate may advance the cursor by any integer, yet the loop ends: every surrogate
  row is used at most once, and every other step advances the cursor by one.
\<close>

function steps ::
  "'a pipeline_scheme \<Rightarrow> bool \<Rightarrow> int \<Rightarrow> int \<Rightarrow> nat \<Rightarrow> bool \<Rightarrow> var_dict \<Rightarrow> var_dict \<times> error option" where
  "steps self jac_mode sp i si us vd =
     (if i \<le> sp then
        (case select_stage self i si us of
           Inl e \<Rightarrow> (vd, Some (step_failed jac_mode i))
         | Inr (m, di, si', us') \<Rightarrow>
             (case run_stage jac_mode m vd of
                (vd', Some e) \<Rightarrow> (vd', Some (step_failed jac_mode i))
              | (vd', None) \<Rightarrow> steps self jac_mode sp (i + di) si' us' vd'))
      else (vd, None))"
  by pat_completeness auto
termination
proof (relation "measures [\<lambda>(self, jac_mode, sp, i, si, us, vd).
                              if us then length (surrogate_recipe self) - si else 0,
                           \<lambda>(self, jac_mode, sp, i, si, us, vd). nat (sp - i + 1)]")
  show "wf (measures [\<lambda>(self :: 'a pipeline_scheme, jac_mode :: bool, sp :: int, i :: int,
                          si :: nat, us :: bool, vd :: var_dict).
                              if us then length (surrogate_recipe self) - si else 0,
                           \<lambda>(self, jac_mode, sp, i, si, us, vd). nat (sp - i + 1)])"
    by simp
next
  fix self :: "'a pipeline_scheme" and jac_mode :: bool and sp i :: int and si :: nat
    and us :: bool and vd vd' :: var_dict and sel m rest di rest' si' us' res r
  assume "i \<le> sp" and "select_stage self i si us = Inr sel" and "(m, rest) = sel"
    and "(di, rest') = rest" and "(si', us') = rest'"
  then have "select_stage self i si us = Inr (m, di, si', us')" by auto
  from select_stage_progress[OF this] \<open>i \<le> sp\<close>
  show "((self, jac_mode, sp, i + di, si', us', vd'), (self, jac_mode, sp, i, si, us, vd))
          \<in> measures [\<lambda>(self, jac_mode, sp, i, si, us, vd).
                              if us then length (surrogate_recipe self) - si else 0,
                           \<lambda>(self, jac_mode, sp, i, si, us, vd). nat (sp - i + 1)]"
    by auto
qed

declare steps.simps [simp del]

text \<open>\<^verbatim>\<open>np.searchsorted(a, v)\<close>: the binary search for the leftmost insertion point.\<close>

function searchsorted_from :: "int list \<Rightarrow> int \<Rightarrow> nat \<Rightarrow> nat \<Rightarrow> nat" where
  "searchsorted_from a v lo hi =
     (if lo < hi then
        (if a ! (lo + (hi - lo) div 2) < v
         then searchsorted_from a v (lo + (hi - lo) div 2 + 1) hi
         else searchsorted_from a v lo (lo + (hi - lo) div 2))
      else lo)"
  by pat_completeness auto
termination
  by (relation "measure (\<lambda>(a, v, lo, hi). hi - lo)") auto

declare searchsorted_from.simps [simp del]

definition searchsorted :: "int list \<Rightarrow> int \<Rightarrow> nat" where
  "searchsorted a v = searchsorted_from a v 0 (length a)"

text \<open>The part of \<^verbatim>\<open>fun\<close> and of \<^verbatim>\<open>fun_and_jac\<close> from the lookup of the first
  surrogate row to the end of the loop.\<close>

definition run_steps ::
  "'a pipeline_scheme \<Rightarrow> bool \<Rightarrow> bool \<Rightarrow> int \<Rightarrow> int \<Rightarrow> var_dict \<Rightarrow> var_dict \<times> error option" where
  "run_steps self jac_mode us st sp vd =
     (if us \<and> has_surrogate self then
        (let si = searchsorted (map (\<lambda>r. fst (snd r)) (surrogate_recipe self)) st
         in steps self jac_mode sp st si (si \<noteq> n_surrogate self) vd)
      else steps self jac_mode sp st 0 us vd)"

subsection \<open>Inputs and results of an evaluation\<close>

text \<open>
  What the evaluation entry points accept: a \<^verbatim>\<open>VariableDict\<close>; a float array of one
  or more dimensions (a vector, or the stack of its sub-arrays along the first axis); a
  1-d object array, whose elements are stores, float vectors or anything else; or a 1-d
  array of another kind (integers, say).
\<close>

datatype farray = FVec vec | FStack "farray list"

datatype single = SDict var_dict | SVec vec | SOther

datatype pinput = InDict var_dict | InFloat farray | InObjects "single list" | InOther

text \<open>
  What they return: a store (all of it, or the subset of a collection of names); the
  value of one name; the pair of value and Jacobian of one name; the array
  \<^verbatim>\<open>np.asarray([...])\<close> of the results of a batch; the pair of arrays
  \<^verbatim>\<open>(result_f, result_j)\<close> of a batch, given by the leading shape and the blocks of the
  batch elements in order; the object array of the results of a batch, given by its
  shape and its elements in order; and, from \<^verbatim>\<open>jac\<close>, the Jacobian of one name or the array
  \<^verbatim>\<open>result_j\<close> of a batch.
\<close>

datatype result =
    RDict var_dict
  | RValue vec
  | RPair vec matrix
  | RArray "result list"
  | RStacked "nat list" "vec list" "matrix list"
  | RObjects "nat list" "result list"
  | RJac matrix
  | RJacStacked "nat list" "matrix list"

definition extract_fun :: "var_dict \<Rightarrow> selector \<Rightarrow> error + result" where
  "extract_fun vd ex =
     (case ex of
        ExNone \<Rightarrow> Inr (RDict vd)
      | ExName n \<Rightarrow> (case lookup (vd_fun vd) n of Inl e \<Rightarrow> Inl e | Inr v \<Rightarrow> Inr (RValue v))
      | ExNames ns \<Rightarrow> (case vd_subset vd ns of Inl e \<Rightarrow> Inl e | Inr s \<Rightarrow> Inr (RDict s)))"

definition extract_jac :: "var_dict \<Rightarrow> selector \<Rightarrow> error + result" where
  "extract_jac vd ex =
     (case ex of
        ExNone \<Rightarrow> Inr (RDict vd)
      | ExName n \<Rightarrow> (case vd_get_pair vd n of Inl e \<Rightarrow> Inl e | Inr p \<Rightarrow> Inr (RPair (fst p) (snd p)))
      | ExNames ns \<Rightarrow> (case vd_subset vd ns of Inl e \<Rightarrow> Inl e | Inr s \<Rightarrow> Inr (RDict s)))"

text \<open>
  The evaluation proper, on a store: the loop and the extraction. The first component
  is the store as the call leaves it (the store of the caller, when the caller passed
  one and did not ask for a copy).
\<close>

definition eval_dict ::
  "'a pipeline_scheme \<Rightarrow> bool \<Rightarrow> bool \<Rightarrow> int \<times> int \<times> selector \<Rightarrow> var_dict
     \<Rightarrow> var_dict \<times> (error + result)" where
  "eval_dict self jac_mode us c vd =
     (case run_steps self jac_mode us (fst c) (fst (snd c)) vd of
        (vd', Some e) \<Rightarrow> (vd', Inl e)
      | (vd', None) \<Rightarrow>
          (vd', if jac_mode then extract_jac vd' (snd (snd c)) else extract_fun vd' (snd (snd c))))"

text \<open>A list comprehension over calls raises what its first failing call raises.\<close>

fun all_results :: "(error + 'a) list \<Rightarrow> error + 'a list" where
  "all_results [] = Inr []"
| "all_results (r # rs) =
     (case r of
        Inl e \<Rightarrow> Inl e
      | Inr v \<Rightarrow> (case all_results rs of Inl e \<Rightarrow> Inl e | Inr vs \<Rightarrow> Inr (v # vs)))"

subsection \<open>\<^verbatim>\<open>Pipeline.fun\<close>\<close>

text \<open>
  \<^verbatim>\<open>fun(self, x, use_surrogate, original_space, start, stop, extract_vars, copy_x)\<close>.
  \<^verbatim>\<open>copy_x\<close> only decides whether the caller's object is mutated; it does not change
  what is returned, and the recursive calls run without it.
\<close>

fun fun_float :: "kernels \<Rightarrow> var_check \<Rightarrow> 'a pipeline_scheme \<Rightarrow> options \<Rightarrow> farray \<Rightarrow> error + result" where
  "fun_float K vc self opts (FVec x) =
     (case options_check self vc (start opts) (stop opts) (extract_vars opts) of
        Inl e \<Rightarrow> Inl e
      | Inr c \<Rightarrow>
          (case seed_fun K self (original_space opts) x of
             Inl e \<Rightarrow> Inl e
           | Inr vd \<Rightarrow> snd (eval_dict self False (use_surrogate opts) c vd)))"
| "fun_float K vc self opts (FStack xs) =
     (case options_check self vc (start opts) (stop opts) (extract_vars opts) of
        Inl e \<Rightarrow> Inl e
      | Inr c \<Rightarrow>
          (case all_results (map (fun_float K vc self (conf opts c)) xs) of
             Inl e \<Rightarrow> Inl e
           | Inr rs \<Rightarrow> Inr (RArray rs)))"

definition fun_dict ::
  "var_check \<Rightarrow> 'a pipeline_scheme \<Rightarrow> options \<Rightarrow> bool \<Rightarrow> var_dict \<Rightarrow> var_dict \<times> (error + result)" where
  "fun_dict vc self opts copy_x vd =
     (case options_check self vc (start opts) (stop opts) (extract_vars opts) of
        Inl e \<Rightarrow> (vd, Inl e)
      | Inr c \<Rightarrow>
          (let r = eval_dict self False (use_surrogate opts) c vd
           in if copy_x then (vd, snd r) else r))"

definition fun_single :: "kernels \<Rightarrow> var_check \<Rightarrow> 'a pipeline_scheme \<Rightarrow> options \<Rightarrow> single \<Rightarrow> error + result" where
  "fun_single K vc self opts s =
     (case s of
        SDict vd \<Rightarrow> snd (fun_dict vc self opts False vd)
      | SVec x \<Rightarrow> fun_float K vc self opts (FVec x)
      | SOther \<Rightarrow>
          (case options_check self vc (start opts) (stop opts) (extract_vars opts) of
             Inl e \<Rightarrow> Inl e
           | Inr c \<Rightarrow> Inl (ValueError ''invalid input for fun.'')))"

definition pipeline_fun :: "kernels \<Rightarrow> var_check \<Rightarrow> 'a pipeline_scheme \<Rightarrow> pinput \<Rightarrow> options \<Rightarrow> error + result" where
  "pipeline_fun K vc self x opts =
     (case options_check self vc (start opts) (stop opts) (extract_vars opts) of
        Inl e \<Rightarrow> Inl e
      | Inr c \<Rightarrow>
          (case x of
             InDict vd \<Rightarrow> snd (fun_dict vc self opts False vd)
           | InFloat a \<Rightarrow> fun_float K vc self opts a
           | InObjects es \<Rightarrow>
               (case all_results (map (fun_single K vc self (conf opts c)) es) of
                  Inl e \<Rightarrow> Inl e
                | Inr rs \<Rightarrow> Inr (RArray rs))
           | InOther \<Rightarrow> Inl (ValueError ''invalid input for fun.'')))"

subsection \<open>\<^verbatim>\<open>Pipeline.fun_and_jac\<close>\<close>

definition fun_and_jac_vec ::
  "kernels \<Rightarrow> var_check \<Rightarrow> 'a pipeline_scheme \<Rightarrow> options \<Rightarrow> vec \<Rightarrow> error + result" where
  "fun_and_jac_vec K vc self opts x =
     (case options_check self vc (start opts) (stop opts) (extract_vars opts) of
        Inl e \<Rightarrow> Inl e
      | Inr c \<Rightarrow>
          (case seed_jac K self (original_space opts) x of
             Inl e \<Rightarrow> Inl e
           | Inr vd \<Rightarrow> snd (eval_dict self True (use_surrogate opts) c vd)))"

definition fun_and_jac_dict ::
  "var_check \<Rightarrow> 'a pipeline_scheme \<Rightarrow> options \<Rightarrow> bool \<Rightarrow> var_dict \<Rightarrow> var_dict \<times> (error + result)" where
  "fun_and_jac_dict vc self opts copy_x vd =
     (case options_check self vc (start opts) (stop opts) (extract_vars opts) of
        Inl e \<Rightarrow> (vd, Inl e)
      | Inr c \<Rightarrow>
          (let r = eval_dict self True (use_surrogate opts) c vd
           in if copy_x then (vd, snd r) else r))"

text \<open>An array of a kind other than float or object reaches the loop of the batch with
  \<^verbatim>\<open>x_f\<close> and \<^verbatim>\<open>size\<close> unassigned: the \<^verbatim>\<open>ValueError\<close> is built and not raised.\<close>

definition fun_and_jac_single ::
  "kernels \<Rightarrow> var_check \<Rightarrow> 'a pipeline_scheme \<Rightarrow> options \<Rightarrow> single \<Rightarrow> error + result" where
  "fun_and_jac_single K vc self opts s =
     (case s of
        SDict vd \<Rightarrow> snd (fun_and_jac_dict vc self opts False vd)
      | SVec x \<Rightarrow> fun_and_jac_vec K vc self opts x
      | SOther \<Rightarrow>
          (case options_check self vc (start opts) (stop opts) (extract_vars opts) of
             Inl e \<Rightarrow> Inl e
           | Inr c \<Rightarrow> Inl (UnboundLocalError ''x_f'')))"

text \<open>
  The assignments \<^verbatim>\<open>result_f[i] = _faj[0]\<close> and \<^verbatim>\<open>result_j[i] = _faj[1]\<close> into the
  arrays allocated with the shapes of the first element's value and Jacobian: NumPy
  broadcasts what is assigned to the shape of the slot, or raises.
\<close>

definition assign_list :: "nat \<Rightarrow> 'a list \<Rightarrow> 'a list option" where
  "assign_list n xs =
     (if length xs = n then Some xs
      else if length xs = 1 then Some (replicate n (hd xs))
      else None)"

definition assign_vec :: "nat \<Rightarrow> vec \<Rightarrow> error + vec" where
  "assign_vec n v =
     (case assign_list n v of
        None \<Rightarrow> Inl (ValueError ''could not broadcast input array'')
      | Some v' \<Rightarrow> Inr v')"

definition assign_matrix :: "nat \<Rightarrow> nat \<Rightarrow> matrix \<Rightarrow> error + matrix" where
  "assign_matrix r c M =
     (case assign_list r (rows M) of
        None \<Rightarrow> Inl (ValueError ''could not broadcast input array'')
      | Some rs \<Rightarrow>
          (if ncols M = c then Inr \<lparr>ncols = c, rows = rs\<rparr>
           else if ncols M = 1 then Inr \<lparr>ncols = c, rows = map (\<lambda>row. replicate c (hd row)) rs\<rparr>
           else Inl (ValueError ''could not broadcast input array'')))"

fun fill_results ::
  "nat \<Rightarrow> nat \<Rightarrow> nat \<Rightarrow> (error + result) list \<Rightarrow> error + (vec list \<times> matrix list)" where
  "fill_results n r c [] = Inr ([], [])"
| "fill_results n r c (q # qs) =
     (case q of
        Inl e \<Rightarrow> Inl e
      | Inr (RPair f j) \<Rightarrow>
          (case assign_vec n f of
             Inl e \<Rightarrow> Inl e
           | Inr f' \<Rightarrow>
               (case assign_matrix r c j of
                  Inl e \<Rightarrow> Inl e
                | Inr j' \<Rightarrow>
                    (case fill_results n r c qs of
                       Inl e \<Rightarrow> Inl e
                     | Inr (fs, js) \<Rightarrow> Inr (f' # fs, j' # js))))
      | Inr _ \<Rightarrow> Inl TypeError)"

text \<open>The loop over the flattened batch \<^verbatim>\<open>x_f\<close>; \<open>sh\<close> is the leading shape that the
  results are reshaped to.\<close>

definition fun_and_jac_batch ::
  "kernels \<Rightarrow> var_check \<Rightarrow> 'a pipeline_scheme \<Rightarrow> options \<Rightarrow> nat list \<Rightarrow> single list \<Rightarrow> error + result" where
  "fun_and_jac_batch K vc self opts sh es =
     (case extract_vars opts of
        ExName n \<Rightarrow>
          (case es of
             [] \<Rightarrow> Inl IndexError
           | e0 # rest \<Rightarrow>
               (case fun_and_jac_single K vc self opts e0 of
                  Inl e \<Rightarrow> Inl e
                | Inr (RPair f0 j0) \<Rightarrow>
                    (case fill_results (length f0) (length (rows j0)) (ncols j0)
                            (map (fun_and_jac_single K vc self opts) rest) of
                       Inl e \<Rightarrow> Inl e
                     | Inr (fs, js) \<Rightarrow> Inr (RStacked sh (f0 # fs) (j0 # js)))
                | Inr _ \<Rightarrow> Inl TypeError))
      | _ \<Rightarrow>
          (case all_results (map (fun_and_jac_single K vc self opts) es) of
             Inl e \<Rightarrow> Inl e
           | Inr rs \<Rightarrow> Inr (RObjects sh rs)))"

fun leaves :: "farray \<Rightarrow> vec list" where
  "leaves (FVec x) = [x]"
| "leaves (FStack xs) = concat (map leaves xs)"

fun lead_shape :: "farray \<Rightarrow> nat list" where
  "lead_shape (FVec x) = []"
| "lead_shape (FStack xs) = length xs # (case xs of [] \<Rightarrow> [] | a # _ \<Rightarrow> lead_shape a)"

text \<open>
  \<^verbatim>\<open>fun_and_jac(self, x, use_surrogate, original_space, start, stop, extract_vars, copy_x)\<close>.
  A float array of more than one dimension is flattened to its vectors
  (\<^verbatim>\<open>x.reshape((size, -1))\<close>, which NumPy refuses when there is none); an object array to
  its elements.
\<close>

definition pipeline_fun_and_jac ::
  "kernels \<Rightarrow> var_check \<Rightarrow> 'a pipeline_scheme \<Rightarrow> pinput \<Rightarrow> options \<Rightarrow> error + result" where
  "pipeline_fun_and_jac K vc self x opts =
     (case options_check self vc (start opts) (stop opts) (extract_vars opts) of
        Inl e \<Rightarrow> Inl e
      | Inr c \<Rightarrow>
          (case x of
             InDict vd \<Rightarrow> snd (fun_and_jac_dict vc self opts False vd)
           | InFloat (FVec v) \<Rightarrow> fun_and_jac_vec K vc self opts v
           | InFloat (FStack xs) \<Rightarrow>
               (if leaves (FStack xs) = []
                then Inl (ValueError ''cannot reshape array of size 0'')
                else fun_and_jac_batch K vc self (conf opts c) (lead_shape (FStack xs))
                       (map SVec (leaves (FStack xs))))
           | InObjects es \<Rightarrow> fun_and_jac_batch K vc self (conf opts c) [length es] es
           | InOther \<Rightarrow> Inl (UnboundLocalError ''x_f'')))"

text \<open>\<^verbatim>\<open>jac\<close>: the second component when one name is selected, else all of the result.\<close>

definition pipeline_jac ::
  "kernels \<Rightarrow> var_check \<Rightarrow> 'a pipeline_scheme \<Rightarrow> pinput \<Rightarrow> options \<Rightarrow> error + result" where
  "pipeline_jac K vc self x opts =
     (case pipeline_fun_and_jac K vc self x opts of
        Inl e \<Rightarrow> Inl e
      | Inr r \<Rightarrow>
          (case extract_vars opts of
             ExName n \<Rightarrow>
               (case r of
                  RPair f j \<Rightarrow> Inr (RJac j)
                | RStacked sh fs js \<Rightarrow> Inr (RJacStacked sh js)
                | _ \<Rightarrow> Inl TypeError)
           | _ \<Rightarrow> Inr r))"

section \<open>The density specialization (\<^verbatim>\<open>Density\<close>)\<close>

text \<open>
  The attributes \<^verbatim>\<open>_mu\<close>, \<^verbatim>\<open>_hess\<close>, \<^verbatim>\<open>_alpha\<close>, \<^verbatim>\<open>_alpha2\<close> and \<^verbatim>\<open>_gamma\<close> do not
  exist until they are assigned; reading an absent one raises \<^verbatim>\<open>AttributeError\<close>.
\<close>

record density = pipeline +
  density_name :: string
  use_decay :: bool
  mu :: "vec option"
  hess :: "matrix option"
  alpha :: "real option"
  alpha2 :: "real option"
  gamma :: "real option"

text \<open>
  \<^verbatim>\<open>x_o - self._mu\<close> for 1-d arrays, and
  \<^verbatim>\<open>np.einsum('...i,ij,...j', d, hess, d)\<close> for a 1-d \<open>d\<close>: the sum of
  \<open>d\<^sub>i hess\<^sub>i\<^sub>j d\<^sub>j\<close>. NumPy broadcasts an extent of 1 against any other extent.
\<close>

definition bdim :: "nat \<Rightarrow> nat \<Rightarrow> nat option" where
  "bdim a b = (if a = b then Some a else if a = 1 then Some b else if b = 1 then Some a else None)"

definition bix :: "nat \<Rightarrow> nat \<Rightarrow> nat" where
  "bix a i = (if a = 1 then 0 else i)"

definition sub_vec :: "vec \<Rightarrow> vec \<Rightarrow> error + vec" where
  "sub_vec x m =
     (case bdim (length x) (length m) of
        None \<Rightarrow> Inl (ValueError ''operands could not be broadcast together'')
      | Some n \<Rightarrow> Inr (map (\<lambda>i. x ! bix (length x) i - m ! bix (length m) i) [0..<n]))"

definition mahalanobis :: "vec \<Rightarrow> matrix \<Rightarrow> error + real" where
  "mahalanobis d H =
     (case bdim (length d) (length (rows H)) of
        None \<Rightarrow> Inl (ValueError ''einsum: operands could not be broadcast together'')
      | Some I \<Rightarrow>
          (case bdim (ncols H) (length d) of
             None \<Rightarrow> Inl (ValueError ''einsum: operands could not be broadcast together'')
           | Some J \<Rightarrow>
               Inr (\<Sum>i\<leftarrow>[0..<I]. \<Sum>j\<leftarrow>[0..<J].
                      d ! bix (length d) i
                      * (rows H ! bix (length (rows H)) i) ! bix (ncols H) j
                      * d ! bix (length d) j)))"

text \<open>\<^verbatim>\<open>np.dot(d, hess)\<close> of a 1-d and a 2-d array.\<close>

definition vec_dot :: "vec \<Rightarrow> matrix \<Rightarrow> error + vec" where
  "vec_dot d H =
     (if length d = length (rows H) then Inr (dot_row d H)
      else Inl (ValueError ''shapes not aligned''))"

text \<open>The part shared by \<^verbatim>\<open>logp\<close>, \<^verbatim>\<open>grad\<close> and \<^verbatim>\<open>logp_and_grad\<close>:
  \<^verbatim>\<open>x_o\<close>, the difference \<^verbatim>\<open>x_o - self._mu\<close> and \<^verbatim>\<open>beta2\<close>.\<close>

definition decay_terms ::
  "kernels \<Rightarrow> 'a density_scheme \<Rightarrow> vec \<Rightarrow> bool \<Rightarrow> error + (vec \<times> real)" where
  "decay_terms K self x orig =
     (case (if orig then Inr x else returned (to_original K self (as_1d x) OutTrue)) of
        Inl e \<Rightarrow> Inl e
      | Inr x_o \<Rightarrow>
          (case mu self of
             None \<Rightarrow> Inl (AttributeError ''_mu'')
           | Some m \<Rightarrow>
               (case sub_vec x_o m of
                  Inl e \<Rightarrow> Inl e
                | Inr d \<Rightarrow>
                    (case hess self of
                       None \<Rightarrow> Inl (AttributeError ''_hess'')
                     | Some H \<Rightarrow>
                         (case mahalanobis d H of
                            Inl e \<Rightarrow> Inl e
                          | Inr beta2 \<Rightarrow> Inr (d, beta2))))))"

text \<open>\<^verbatim>\<open>self._gamma * np.clip(beta2 - self._alpha2, 0, np.inf)\<close>\<close>

definition decay_penalty :: "real \<Rightarrow> real \<Rightarrow> real \<Rightarrow> real" where
  "decay_penalty g beta2 a2 = g * max 0 (beta2 - a2)"

definition logp_decay :: "kernels \<Rightarrow> 'a density_scheme \<Rightarrow> vec \<Rightarrow> bool \<Rightarrow> real \<Rightarrow> error + real" where
  "logp_decay K self x orig l =
     (case decay_terms K self x orig of
        Inl e \<Rightarrow> Inl e
      | Inr (d, beta2) \<Rightarrow>
          (case gamma self of
             None \<Rightarrow> Inl (AttributeError ''_gamma'')
           | Some g \<Rightarrow>
               (case alpha2 self of
                  None \<Rightarrow> Inl (AttributeError ''_alpha2'')
                | Some a2 \<Rightarrow> Inr (l - decay_penalty g beta2 a2))))"

text \<open>\<^verbatim>\<open>2 * self._gamma * np.dot(x_o - self._mu, self._hess) * (beta2 > self._alpha2)[..., np.newaxis]\<close>\<close>

definition decay_grad_term :: "real \<Rightarrow> vec \<Rightarrow> real \<Rightarrow> real \<Rightarrow> vec" where
  "decay_grad_term g dh beta2 a2 = map (\<lambda>t. 2 * g * t * (if beta2 > a2 then 1 else 0)) dh"

text \<open>An in-place \<^verbatim>\<open>a -= b\<close> or \<^verbatim>\<open>a += b\<close> on 1-d arrays: \<open>b\<close> is broadcast to the shape
  of \<open>a\<close>.\<close>

definition inplace :: "(real \<Rightarrow> real \<Rightarrow> real) \<Rightarrow> vec \<Rightarrow> vec \<Rightarrow> error + vec" where
  "inplace f a b =
     (case assign_list (length a) b of
        None \<Rightarrow> Inl (ValueError ''operands could not be broadcast together'')
      | Some b' \<Rightarrow> Inr (map2 f a b'))"

definition grad_decay :: "kernels \<Rightarrow> 'a density_scheme \<Rightarrow> vec \<Rightarrow> bool \<Rightarrow> vec \<Rightarrow> error + vec" where
  "grad_decay K self x orig gr =
     (case decay_terms K self x orig of
        Inl e \<Rightarrow> Inl e
      | Inr (d, beta2) \<Rightarrow>
          (case gamma self of
             None \<Rightarrow> Inl (AttributeError ''_gamma'')
           | Some g \<Rightarrow>
               (case hess self of
                  None \<Rightarrow> Inl (AttributeError ''_hess'')
                | Some H \<Rightarrow>
                    (case vec_dot d H of
                       Inl e \<Rightarrow> Inl e
                     | Inr dh \<Rightarrow>
                         (case alpha2 self of
                            None \<Rightarrow> Inl (AttributeError ''_alpha2'')
                          | Some a2 \<Rightarrow> inplace (-) gr (decay_grad_term g dh beta2 a2))))))"

text \<open>The corrections of the transformed space: \<^verbatim>\<open>_logp += self._get_diff(x_trans=x)\<close>
  and \<^verbatim>\<open>_grad += self.to_original_grad2(x) / self.to_original_grad(x)\<close>.\<close>

definition logp_transformed :: "kernels \<Rightarrow> 'a density_scheme \<Rightarrow> vec \<Rightarrow> real \<Rightarrow> error + real" where
  "logp_transformed K self x l =
     (case get_diff K self None (Some (as_1d x)) of
        Inl e \<Rightarrow> Inl e
      | Inr diff \<Rightarrow> (case elems diff of [] \<Rightarrow> Inl IndexError | t # _ \<Rightarrow> Inr (l + t)))"

definition grad_transformed :: "kernels \<Rightarrow> 'a density_scheme \<Rightarrow> vec \<Rightarrow> vec \<Rightarrow> error + vec" where
  "grad_transformed K self x gr =
     (case returned (to_original_grad2 K self (as_1d x) OutTrue) of
        Inl e \<Rightarrow> Inl e
      | Inr g2 \<Rightarrow>
          (case returned (to_original_grad K self (as_1d x) OutTrue) of
             Inl e \<Rightarrow> Inl e
           | Inr g1 \<Rightarrow>
               (if length g2 = length g1 then inplace (+) gr (map2 (/) g2 g1)
                else Inl (ValueError ''operands could not be broadcast together''))))"

text \<open>
  \<^verbatim>\<open>logp\<close>, \<^verbatim>\<open>grad\<close> and \<^verbatim>\<open>logp_and_grad\<close> on one coordinate vector \<open>x\<close>; on a batch
  the source does the same along the last axis. \<open>raw\<close> is the first element
  \<^verbatim>\<open>[..., 0]\<close> of the value of the density name, \<open>raw_row\<close> the first row
  \<^verbatim>\<open>[..., 0, :]\<close> of its Jacobian.
\<close>

definition density_options :: "'a density_scheme \<Rightarrow> bool \<Rightarrow> bool \<Rightarrow> int option \<Rightarrow> int option \<Rightarrow> options" where
  "density_options self us orig st sp =
     \<lparr>use_surrogate = us, original_space = orig, start = st, stop = sp,
      extract_vars = ExName (density_name self)\<rparr>"

definition raw :: "result \<Rightarrow> error + real" where
  "raw r = (case r of
              RValue v \<Rightarrow> (case v of [] \<Rightarrow> Inl IndexError | l # _ \<Rightarrow> Inr l)
            | RPair v j \<Rightarrow> (case v of [] \<Rightarrow> Inl IndexError | l # _ \<Rightarrow> Inr l)
            | _ \<Rightarrow> Inl TypeError)"

definition raw_row :: "result \<Rightarrow> error + vec" where
  "raw_row r = (case r of
                  RPair v j \<Rightarrow> (case rows j of [] \<Rightarrow> Inl IndexError | row # _ \<Rightarrow> Inr row)
                | RJac j \<Rightarrow> (case rows j of [] \<Rightarrow> Inl IndexError | row # _ \<Rightarrow> Inr row)
                | _ \<Rightarrow> Inl TypeError)"

definition density_logp ::
  "kernels \<Rightarrow> var_check \<Rightarrow> 'a density_scheme \<Rightarrow> vec \<Rightarrow> bool \<Rightarrow> bool \<Rightarrow> int option \<Rightarrow> int option
     \<Rightarrow> error + real" where
  "density_logp K vc self x us orig st sp =
     (case pipeline_fun K vc self (InFloat (FVec x)) (density_options self us orig st sp) of
        Inl e \<Rightarrow> Inl e
      | Inr r \<Rightarrow>
          (case raw r of
             Inl e \<Rightarrow> Inl e
           | Inr l \<Rightarrow>
               (case (if use_decay self \<and> us then logp_decay K self x orig l else Inr l) of
                  Inl e \<Rightarrow> Inl e
                | Inr l' \<Rightarrow> (if orig then Inr l' else logp_transformed K self x l'))))"

definition density_grad ::
  "kernels \<Rightarrow> var_check \<Rightarrow> 'a density_scheme \<Rightarrow> vec \<Rightarrow> bool \<Rightarrow> bool \<Rightarrow> int option \<Rightarrow> int option
     \<Rightarrow> error + vec" where
  "density_grad K vc self x us orig st sp =
     (case pipeline_jac K vc self (InFloat (FVec x)) (density_options self us orig st sp) of
        Inl e \<Rightarrow> Inl e
      | Inr r \<Rightarrow>
          (case raw_row r of
             Inl e \<Rightarrow> Inl e
           | Inr gr \<Rightarrow>
               (case (if use_decay self \<and> us then grad_decay K self x orig gr else Inr gr) of
                  Inl e \<Rightarrow> Inl e
                | Inr gr' \<Rightarrow> (if orig then Inr gr' else grad_transformed K self x gr'))))"

definition density_logp_and_grad ::
  "kernels \<Rightarrow> var_check \<Rightarrow> 'a density_scheme \<Rightarrow> vec \<Rightarrow> bool \<Rightarrow> bool \<Rightarrow> int option \<Rightarrow> int option
     \<Rightarrow> error + (real \<times> vec)" where
  "density_logp_and_grad K vc self x us orig st sp =
     (case pipeline_fun_and_jac K vc self (InFloat (FVec x)) (density_options self us orig st sp) of
        Inl e \<Rightarrow> Inl e
      | Inr r \<Rightarrow>
          (case raw r of
             Inl e \<Rightarrow> Inl e
           | Inr l \<Rightarrow>
               (case raw_row r of
                  Inl e \<Rightarrow> Inl e
                | Inr gr \<Rightarrow>
                    (case (if use_decay self \<and> us
                           then (case logp_decay K self x orig l of
                                   Inl e \<Rightarrow> Inl e
                                 | Inr l' \<Rightarrow>
                                     (case grad_decay K self x orig gr of
                                        Inl e \<Rightarrow> Inl e
                                      | Inr gr' \<Rightarrow> Inr (l', gr')))
                           else Inr (l, gr)) of
                       Inl e \<Rightarrow> Inl e
                     | Inr (l', gr') \<Rightarrow>
                         (if orig then Inr (l', gr')
                          else (case logp_transformed K self x l' of
                                  Inl e \<Rightarrow> Inl e
                                | Inr l'' \<Rightarrow>
                                    (case grad_transformed K self x gr' of
                                       Inl e \<Rightarrow> Inl e
                                     | Inr gr'' \<Rightarrow> Inr (l'', gr''))))))))"

subsection \<open>\<^verbatim>\<open>set_decay\<close> and \<^verbatim>\<open>fit\<close>\<close>

text \<open>
  An argument that is \<^verbatim>\<open>None\<close>, a number, or something that \<^verbatim>\<open>float\<close> refuses. The
  setters of \<^verbatim>\<open>alpha\<close> and \<^verbatim>\<open>gamma\<close> turn every failure into their \<^verbatim>\<open>ValueError\<close>.
\<close>

datatype pyarg = PyNone | PyFloat real | PyBad

definition set_alpha :: "pyarg \<Rightarrow> 'a density_scheme \<Rightarrow> 'a density_scheme \<times> error option" where
  "set_alpha a self =
     (case a of
        PyFloat v \<Rightarrow>
          (if v > 0 then (self\<lparr>alpha := Some v, alpha2 := Some (v ^ 2)\<rparr>, None)
           else (self, Some (ValueError ''alpha should be a positive float.'')))
      | _ \<Rightarrow> (self, Some (ValueError ''alpha should be a positive float.'')))"

definition set_gamma :: "pyarg \<Rightarrow> 'a density_scheme \<Rightarrow> 'a density_scheme \<times> error option" where
  "set_gamma g self =
     (case g of
        PyFloat v \<Rightarrow>
          (if v > 0 then (self\<lparr>gamma := Some v\<rparr>, None)
           else (self, Some (ValueError ''gamma should be a positive float.'')))
      | _ \<Rightarrow> (self, Some (ValueError ''gamma should be a positive float.'')))"

text \<open>The functions of NumPy that \<^verbatim>\<open>set_decay\<close> calls and that are not defined here
  are parameters: the covariance of the sample rows, the matrix inverse (which raises on
  a singular matrix) and the percentile.\<close>

record numpy =
  np_cov :: "vec list \<Rightarrow> matrix"
  np_inv :: "matrix \<Rightarrow> error + matrix"
  np_percentile :: "vec \<Rightarrow> real \<Rightarrow> real"

text \<open>\<^verbatim>\<open>np.ascontiguousarray(x)\<close>, which has at least one dimension, followed by
  \<^verbatim>\<open>x.reshape((-1, x.shape[-1]))\<close>; and the rows of a 2-d array.\<close>

definition reshape_rows :: "ndarray \<Rightarrow> error + ndarray" where
  "reshape_rows x =
     (let sh = (if shape x = [] then [1] else shape x)
      in if last sh = 0 then Inl (ValueError ''cannot reshape array of size 0'')
         else Inr \<lparr>shape = [prod_list (butlast sh), last sh], elems = elems x\<rparr>)"

definition rows_of :: "ndarray \<Rightarrow> vec list" where
  "rows_of a = map (\<lambda>i. block i (last (shape a)) (elems a)) [0..<hd (shape a)]"

text \<open>\<^verbatim>\<open>np.mean(x_o, axis=0)\<close>\<close>

definition mean0 :: "nat \<Rightarrow> vec list \<Rightarrow> vec" where
  "mean0 n xs = map (\<lambda>j. (\<Sum>r\<leftarrow>xs. r ! j) / real (length xs)) [0..<n]"

text \<open>\<^verbatim>\<open>np.einsum('ij,jk,ik->i', x_o - mu, hess, x_o - mu)**0.5\<close>\<close>

fun betas :: "vec \<Rightarrow> matrix \<Rightarrow> vec list \<Rightarrow> error + vec" where
  "betas m H [] = Inr []"
| "betas m H (r # rs) =
     (case sub_vec r m of
        Inl e \<Rightarrow> Inl e
      | Inr d \<Rightarrow>
          (case mahalanobis d H of
             Inl e \<Rightarrow> Inl e
           | Inr b2 \<Rightarrow> (case betas m H rs of Inl e \<Rightarrow> Inl e | Inr bs \<Rightarrow> Inr (sqrt b2 # bs))))"

definition alpha_from_samples ::
  "numpy \<Rightarrow> pyarg \<Rightarrow> vec \<Rightarrow> matrix \<Rightarrow> vec list \<Rightarrow> 'a density_scheme \<Rightarrow> 'a density_scheme \<times> error option" where
  "alpha_from_samples NP alpha_p m H xs self =
     (case alpha_p of
        PyFloat p \<Rightarrow>
          (if p > 0 then
             (case betas m H xs of
                Inl e \<Rightarrow> (self, Some e)
              | Inr bs \<Rightarrow>
                  (if p < 100 then set_alpha (PyFloat (np_percentile NP bs p)) self
                   else
                     (case bs of
                        [] \<Rightarrow> (self, Some (ValueError ''zero-size array to reduction operation maximum''))
                      | b # bs' \<Rightarrow> set_alpha (PyFloat (fold max bs' b * p / 100)) self)))
           else (self, Some (ValueError ''alpha_p should be a positive float.'')))
      | _ \<Rightarrow> (self, Some (ValueError ''alpha_p should be a positive float.'')))"

text \<open>
  \<^verbatim>\<open>set_decay(self, x, original_space=True, alpha=None, alpha_p=150, gamma=None)\<close>. The
  result is the object as the call leaves it and what the call raised, if anything.
  \<open>decay_alpha\<close> is the block \<^verbatim>\<open>if alpha is None: ... else: self.alpha = alpha\<close> and
  \<open>decay_gamma\<close> the block \<^verbatim>\<open>if gamma is None: ... else: self.gamma = gamma\<close>.
\<close>

definition decay_alpha ::
  "numpy \<Rightarrow> pyarg \<Rightarrow> pyarg \<Rightarrow> vec \<Rightarrow> matrix \<Rightarrow> vec list \<Rightarrow> 'a density_scheme
     \<Rightarrow> 'a density_scheme \<times> error option" where
  "decay_alpha NP a alpha_p m H xs self =
     (if a = PyNone then
        (if alpha self = None \<or> alpha_p \<noteq> PyNone
         then alpha_from_samples NP alpha_p m H xs self
         else (self, None))
      else set_alpha a self)"

definition decay_gamma :: "pyarg \<Rightarrow> 'a density_scheme \<Rightarrow> 'a density_scheme \<times> error option" where
  "decay_gamma g self =
     (if g = PyNone then
        (if gamma self = None then (self\<lparr>gamma := Some (1 / 10)\<rparr>, None) else (self, None))
      else set_gamma g self)"

definition set_decay ::
  "numpy \<Rightarrow> kernels \<Rightarrow> 'a density_scheme \<Rightarrow> ndarray \<Rightarrow> bool \<Rightarrow> pyarg \<Rightarrow> pyarg \<Rightarrow> pyarg
     \<Rightarrow> 'a density_scheme \<times> error option" where
  "set_decay NP K self x orig a alpha_p g =
     (case reshape_rows x of
        Inl e \<Rightarrow> (self, Some e)
      | Inr x2 \<Rightarrow>
          (case (if orig then Inr x2
                 else (case to_original K self x2 OutTrue of
                         Inl e \<Rightarrow> Inl e
                       | Inr None \<Rightarrow> Inl TypeError
                       | Inr (Some y) \<Rightarrow> Inr y)) of
             Inl e \<Rightarrow> (self, Some e)
           | Inr x_o \<Rightarrow>
               (let xs = rows_of x_o;
                    m = mean0 (last (shape x_o)) xs;
                    self1 = self\<lparr>mu := Some m\<rparr>
                in case np_inv NP (np_cov NP xs) of
                     Inl e \<Rightarrow> (self1, Some e)
                   | Inr H \<Rightarrow>
                       (case decay_alpha NP a alpha_p m H xs (self1\<lparr>hess := Some H\<rparr>) of
                          (self3, Some e) \<Rightarrow> (self3, Some e)
                        | (self3, None) \<Rightarrow>
                            (case decay_gamma g self3 of
                               (self4, Some e) \<Rightarrow> (self4, Some e)
                             | (self4, None) \<Rightarrow> (self4\<lparr>use_decay := True\<rparr>, None))))))"

text \<open>
  \<^verbatim>\<open>_fit_var(cls, var_dicts, var_names)\<close>: for every store the concatenation of the values
  of the names.
\<close>

fun fit_var :: "var_dict list \<Rightarrow> string list \<Rightarrow> error + vec list" where
  "fit_var [] ns = Inr []"
| "fit_var (vd # vds) ns =
     (case gather (vd_fun vd) ns of
        Inl e \<Rightarrow> Inl e
      | Inr vs \<Rightarrow>
          (if vs = [] then Inl (ValueError ''need at least one array to concatenate'')
           else (case fit_var vds ns of Inl e \<Rightarrow> Inl e | Inr xs \<Rightarrow> Inr (concat vs # xs))))"

definition as_2d :: "vec list \<Rightarrow> ndarray" where
  "as_2d xs = (case xs of
                 [] \<Rightarrow> \<lparr>shape = [0], elems = []\<rparr>
               | r # _ \<Rightarrow> \<lparr>shape = [length xs, length r], elems = concat xs\<rparr>)"

text \<open>
  The keyword arguments \<^verbatim>\<open>decay_options\<close> that \<^verbatim>\<open>fit\<close> hands to \<^verbatim>\<open>set_decay\<close> (a key
  that \<^verbatim>\<open>set_decay\<close> does not take makes the call raise \<^verbatim>\<open>TypeError\<close>), and the
  argument \<^verbatim>\<open>fit_options\<close>: a dict, a collection of dicts, or something else. The
  rescaling by a surrogate's own scales and the call of its \<^verbatim>\<open>fit\<close> belong to the class
  \<^verbatim>\<open>Surrogate\<close>; they are the parameter \<open>su_fit\<close>, which gets the surrogate and the arrays
  \<open>x\<close>, \<open>y\<close> and \<open>logp\<close> and returns what the call raised, if anything.
\<close>

record decay_options =
  do_original_space :: bool
  do_alpha :: pyarg
  do_alpha_p :: pyarg
  do_gamma :: pyarg
  do_other_keys :: bool

datatype fit_options = FitDict | FitDicts nat | FitOther

type_synonym su_fit = "surrogate \<Rightarrow> vec list \<Rightarrow> vec list \<Rightarrow> vec list \<Rightarrow> error option"

fun fit_surrogates :: "su_fit \<Rightarrow> var_dict list \<Rightarrow> string \<Rightarrow> surrogate list \<Rightarrow> error option" where
  "fit_surrogates SF vds dn [] = None"
| "fit_surrogates SF vds dn (su # sus) =
     (case fit_var vds (input_vars (stage su)) of
        Inl e \<Rightarrow> Some e
      | Inr x \<Rightarrow>
          (case fit_var vds (output_vars (stage su)) of
             Inl e \<Rightarrow> Some e
           | Inr y \<Rightarrow>
               (case fit_var vds [dn] of
                  Inl e \<Rightarrow> Some e
                | Inr lp \<Rightarrow>
                    (case SF su x y lp of
                       Some e \<Rightarrow> Some e
                     | None \<Rightarrow> fit_surrogates SF vds dn sus))))"

text \<open>
  \<^verbatim>\<open>fit(self, var_dicts, use_decay=False, use_bound=None, use_mu_f=None,
  decay_options={}, fit_options={})\<close>. \<open>var_dicts\<close> is \<open>None\<close> when the argument is not an
  iterable of stores, \<open>dopts\<close> is \<open>None\<close> when \<^verbatim>\<open>decay_options\<close> is not a dict.
\<close>

definition density_fit ::
  "numpy \<Rightarrow> kernels \<Rightarrow> su_fit \<Rightarrow> 'a density_scheme \<Rightarrow> var_dict list option \<Rightarrow> bool
     \<Rightarrow> decay_options option \<Rightarrow> fit_options \<Rightarrow> 'a density_scheme \<times> error option" where
  "density_fit NP K SF self var_dicts decay dopts fopts =
     (case var_dicts of
        None \<Rightarrow> (self, Some (ValueError ''var_dicts should consist of VariableDict(s).''))
      | Some vds \<Rightarrow>
          (case dopts of
             None \<Rightarrow> (self, Some (ValueError ''decay_options should be a dict.''))
           | Some d \<Rightarrow>
               (if fopts = FitOther
                then (self, Some (ValueError ''fit_options should be a dict or consist of dict(s).''))
                else
                  (case (if decay then
                           (case fit_var vds (pipeline_input_vars self) of
                              Inl e \<Rightarrow> (self, Some e)
                            | Inr x \<Rightarrow>
                                (if do_other_keys d then (self, Some TypeError)
                                 else set_decay NP K self (as_2d x) (do_original_space d)
                                        (do_alpha d) (do_alpha_p d) (do_gamma d)))
                         else (self\<lparr>use_decay := False\<rparr>, None)) of
                     (self1, Some e) \<Rightarrow> (self1, Some e)
                   | (self1, None) \<Rightarrow>
                       (self1, fit_surrogates SF vds (density_name self1) (surrogate_list self1))))))"

section \<open>Example objects\<close>

text \<open>Concrete kernels, stages and pipelines on which the theorems below are instantiated.\<close>

definition unit_kernel1 :: kernel1 where
  "unit_kernel1 x sc hb n = x"

definition unit_kernel2 :: kernel2 where
  "unit_kernel2 x sc hb n m = x"

definition unit_kernels :: kernels where
  "unit_kernels =
     \<lparr>from_original_f = unit_kernel1, from_original_f2 = unit_kernel2,
      from_original_j = unit_kernel1, from_original_j2 = unit_kernel2,
      from_original_jj = unit_kernel1, from_original_jj2 = unit_kernel2,
      to_original_f = unit_kernel1, to_original_f2 = unit_kernel2,
      to_original_j = unit_kernel1, to_original_j2 = unit_kernel2,
      to_original_jj = unit_kernel1, to_original_jj2 = unit_kernel2\<rparr>"

definition no_scales :: pipeline_base where
  "no_scales = \<lparr>var_scales = None, hard_bounds = HBool False\<rparr>"

text \<open>The stage that returns its inputs, with identity Jacobians.\<close>

definition identity_module :: module where
  "identity_module =
     \<lparr>input_vars = [''__var__''], output_vars = [''__var__''], copy_vars = [],
      paste_vars = [], delete_vars = [],
      module_fun = (\<lambda>inp. Inr inp),
      module_fun_and_jac = (\<lambda>inp. Inr (inp, map (\<lambda>v. eye (length v)) inp))\<rparr>"

definition identity_surrogate :: "int \<Rightarrow> int \<Rightarrow> surrogate" where
  "identity_surrogate s e = \<lparr>stage = identity_module, scope = (s, e)\<rparr>"

definition identity_pipeline :: "nat \<Rightarrow> pipeline" where
  "identity_pipeline n =
     \<lparr>var_scales = None, hard_bounds = HBool False,
      module_list = replicate n identity_module, surrogate_list = [],
      surrogate_recipe = [], pipeline_input_vars = [''__var__''], input_cum = None\<rparr>"

text \<open>The stage that multiplies its input by a constant, and the two-stage pipeline
  \<open>y = 2 x\<close>, \<open>z = 3 y\<close>.\<close>

definition scale_module :: "string \<Rightarrow> string \<Rightarrow> real \<Rightarrow> module" where
  "scale_module a b c =
     \<lparr>input_vars = [a], output_vars = [b], copy_vars = [], paste_vars = [], delete_vars = [],
      module_fun = (\<lambda>inp. Inr (map (map (\<lambda>t. c * t)) inp)),
      module_fun_and_jac =
        (\<lambda>inp. Inr (map (map (\<lambda>t. c * t)) inp,
                      map (\<lambda>v. \<lparr>ncols = length v,
                                  rows = map (\<lambda>i. map (\<lambda>j. if i = j then c else 0) [0..<length v])
                                             [0..<length v]\<rparr>) inp))\<rparr>"

definition two_stage_pipeline :: pipeline where
  "two_stage_pipeline =
     \<lparr>var_scales = None, hard_bounds = HBool False,
      module_list = [scale_module ''x'' ''y'' 2, scale_module ''y'' ''z'' 3],
      surrogate_list = [], surrogate_recipe = [],
      pipeline_input_vars = [''x''], input_cum = None\<rparr>"

text \<open>A check of names that drops repetitions.\<close>

definition keep_names :: var_check where
  "keep_names ns = Inr (remdups ns)"

text \<open>A stage that binds \<open>y\<close> and then asks to delete a name that is not bound.\<close>

definition leaky_module :: module where
  "leaky_module =
     \<lparr>input_vars = [''x''], output_vars = [''y''], copy_vars = [], paste_vars = [],
      delete_vars = [''ghost''],
      module_fun = (\<lambda>inp. Inr inp),
      module_fun_and_jac = (\<lambda>inp. Inr (inp, map (\<lambda>v. eye (length v)) inp))\<rparr>"

definition leaky_pipeline :: pipeline where
  "leaky_pipeline =
     \<lparr>var_scales = None, hard_bounds = HBool False,
      module_list = [leaky_module], surrogate_list = [], surrogate_recipe = [],
      pipeline_input_vars = [''x''], input_cum = None\<rparr>"

text \<open>A stage that copies \<open>v\<close> twice without paste names and then deletes \<open>v\<close>.\<close>

definition copy_module :: module where
  "copy_module =
     \<lparr>input_vars = [''v''], output_vars = [''v''], copy_vars = [''v'', ''v''], paste_vars = [],
      delete_vars = [''v''],
      module_fun = (\<lambda>inp. Inr inp),
      module_fun_and_jac = (\<lambda>inp. Inr (inp, map (\<lambda>v. eye (length v)) inp))\<rparr>"

text \<open>
  A density of two coordinates whose only step is covered by a surrogate, with the decay
  switched on: \<open>mu = (0, 0)\<close>, \<open>hess = ((2, 1), (1, 2))\<close>, \<open>alpha = 1\<close>, \<open>gamma = 1/10\<close>.
\<close>

definition decay_density :: density where
  "decay_density =
     \<lparr>var_scales = None, hard_bounds = HBool False,
      module_list = [identity_module], surrogate_list = [identity_surrogate 0 1],
      surrogate_recipe = [(0, 0, 1)], pipeline_input_vars = [''__var__''], input_cum = None,
      density_name = ''__var__'', use_decay = True,
      mu = Some [0, 0], hess = Some \<lparr>ncols = 2, rows = [[2, 1], [1, 2]]\<rparr>,
      alpha = Some 1, alpha2 = Some 1, gamma = Some (1 / 10)\<rparr>"

text \<open>The functions of NumPy on which \<^verbatim>\<open>set_decay\<close> is instantiated: a covariance and an
  inverse that return the identity, and the percentile that returns the first value.\<close>

definition unit_numpy :: numpy where
  "unit_numpy =
     \<lparr>np_cov = (\<lambda>xs. eye (length (hd xs))), np_inv = (\<lambda>M. Inr M),
      np_percentile = (\<lambda>v p. hd v)\<rparr>"

definition no_su_fit :: su_fit where
  "no_su_fit su x y lp = None"

definition failing_su_fit :: su_fit where
  "failing_su_fit su x y lp = Some (ValueError ''fit failed'')"

section \<open>Notions of the specification\<close>





text \<open>Position \<open>k\<close> of a list of names is the last one that holds its name: with a name
  declared twice among the outputs of a stage, the later block is the one that stays bound.\<close>

definition last_occurrence :: "string list \<Rightarrow> nat \<Rightarrow> bool" where
  "last_occurrence ns k = (k < length ns \<and> ns ! k \<notin> set (drop (Suc k) ns))"


text \<open>
  For the batching property: an element of an object array seen as an input of its own;
  a check of names that returns a checked collection unchanged when it is checked again
  (the options of a recursive call are the checked ones); and, for the pair of stacked
  arrays, the batch elements whose value and Jacobian have the shapes of the slot.
\<close>

definition single_input :: "single \<Rightarrow> pinput" where
  "single_input s = (case s of SDict vd \<Rightarrow> InDict vd | SVec x \<Rightarrow> InFloat (FVec x) | SOther \<Rightarrow> InOther)"

definition idempotent_check :: "var_check \<Rightarrow> bool" where
  "idempotent_check vc = (\<forall>ns ns'. vc ns = Inr ns' \<longrightarrow> vc ns' = Inr ns')"

definition fits_slot :: "vec \<Rightarrow> matrix \<Rightarrow> vec \<Rightarrow> matrix \<Rightarrow> bool" where
  "fits_slot f0 j0 f j =
     (length f = length f0 \<and> length (rows j) = length (rows j0) \<and> ncols j = ncols j0)"

text \<open>The quadratic form \<open>d\<^sup>T H d\<close>, the product \<open>H d\<close> of a matrix and a vector, and
  symmetry of a square matrix.\<close>

definition quad_form :: "matrix \<Rightarrow> vec \<Rightarrow> real" where
  "quad_form H d =
     (\<Sum>i\<leftarrow>[0..<length d]. \<Sum>j\<leftarrow>[0..<length d]. d ! i * (rows H ! i) ! j * d ! j)"

definition mat_vec :: "matrix \<Rightarrow> vec \<Rightarrow> vec" where
  "mat_vec H d = map (\<lambda>r. \<Sum>j\<leftarrow>[0..<length d]. r ! j * d ! j) (rows H)"

definition symmetric :: "matrix \<Rightarrow> bool" where
  "symmetric H =
     (\<forall>i < length (rows H). \<forall>j < length (rows H). (rows H ! i) ! j = (rows H ! j) ! i)"

section \<open>The transform layer without scales\<close>

text \<open>
  C6. When \<^verbatim>\<open>var_scales\<close> is \<^verbatim>\<open>None\<close>, for every array \<open>x\<close> the calls
  \<^verbatim>\<open>from_original(x)\<close> and \<^verbatim>\<open>to_original(x)\<close> (with the default \<^verbatim>\<open>out=True\<close>) return
  \<open>x\<close>, \<^verbatim>\<open>from_original_grad(x)\<close> and \<^verbatim>\<open>to_original_grad(x)\<close> return an array of the
  shape of \<open>x\<close> whose elements are all 1, and \<^verbatim>\<open>from_original_grad2(x)\<close> and
  \<^verbatim>\<open>to_original_grad2(x)\<close> return an array of the shape of \<open>x\<close> whose elements are all 0.
\<close>

theorem no_scales_identity_ones_zeros:
  assumes "var_scales self = None"
  shows "from_original K self x OutTrue = Inr (Some x) \<and>
         to_original K self x OutTrue = Inr (Some x) \<and>
         from_original_grad K self x OutTrue =
           Inr (Some \<lparr>shape = shape x, elems = replicate (prod_list (shape x)) 1\<rparr>) \<and>
         to_original_grad K self x OutTrue =
           Inr (Some \<lparr>shape = shape x, elems = replicate (prod_list (shape x)) 1\<rparr>) \<and>
         from_original_grad2 K self x OutTrue =
           Inr (Some \<lparr>shape = shape x, elems = replicate (prod_list (shape x)) 0\<rparr>) \<and>
         to_original_grad2 K self x OutTrue =
           Inr (Some \<lparr>shape = shape x, elems = replicate (prod_list (shape x)) 0\<rparr>)"
  using assms
  by (simp add: from_original_def to_original_def from_original_grad_def to_original_grad_def
      from_original_grad2_def to_original_grad2_def constraint_def ones_like_def zeros_like_def)

theorem no_scales_identity_ones_zeros_witness:
  "var_scales no_scales = None \<and>
   from_original unit_kernels no_scales \<lparr>shape = [2], elems = [3, 4]\<rparr> OutTrue =
     Inr (Some \<lparr>shape = [2], elems = [3, 4]\<rparr>) \<and>
   to_original_grad unit_kernels no_scales \<lparr>shape = [2], elems = [3, 4]\<rparr> OutTrue =
     Inr (Some \<lparr>shape = [2], elems = [1, 1]\<rparr>) \<and>
   from_original_grad2 unit_kernels no_scales \<lparr>shape = [2], elems = [3, 4]\<rparr> OutTrue =
     Inr (Some \<lparr>shape = [2], elems = [0, 0]\<rparr>)"
proof -
  have h: "var_scales no_scales = None" by (simp add: no_scales_def)
  show ?thesis
    using h no_scales_identity_ones_zeros [OF h, of unit_kernels "\<lparr>shape = [2], elems = [3, 4]\<rparr>"]
    by (simp add: numeral_2_eq_2)
qed

section \<open>The log-Jacobian difference\<close>

text \<open>
  C8 as stated: it is an error to supply both coordinates to \<^verbatim>\<open>_get_diff\<close>. The source
  tests \<^verbatim>\<open>x is not None\<close> first and never looks at \<^verbatim>\<open>x_trans\<close> then: with both
  supplied the call returns the difference computed from \<open>x\<close>.
\<close>

theorem get_diff_both_supplied_counterexample:
  "get_diff unit_kernels no_scales (Some \<lparr>shape = [1], elems = [2]\<rparr>)
     (Some \<lparr>shape = [1], elems = [3]\<rparr>) = Inr \<lparr>shape = [], elems = [0]\<rparr>"
  by (simp add: get_diff_def no_scales_def from_original_grad_def constraint_def ones_like_def
      log_abs_sum_def sum_last_def map_nd_def block_def)

text \<open>
  C8, amended. \<^verbatim>\<open>_get_diff\<close> needs at least one of the two coordinates: with neither
  it raises \<^verbatim>\<open>ValueError('x and x_trans cannot both be None.')\<close>. With the original-space
  coordinate \<open>x\<close> supplied, the result is the one computed from \<open>x\<close> whatever \<open>x_trans\<close>
  is, so supplying both is not an error: \<open>x\<close> takes precedence and \<open>x_trans\<close> is ignored.
  With only \<open>x_trans\<close> supplied, the result is computed from \<open>x_trans\<close>.
\<close>

theorem get_diff_precedence:
  "get_diff K self None None = Inl (ValueError ''x and x_trans cannot both be None.'') \<and>
   get_diff K self (Some x) (Some xt) = get_diff K self (Some x) None \<and>
   get_diff K self (Some x) None =
     (case from_original_grad K self x OutTrue of
        Inl e \<Rightarrow> Inl e
      | Inr None \<Rightarrow> Inl TypeError
      | Inr (Some g) \<Rightarrow> Inr (map_nd uminus (log_abs_sum g))) \<and>
   get_diff K self None (Some xt) =
     (case to_original_grad K self xt OutTrue of
        Inl e \<Rightarrow> Inl e
      | Inr None \<Rightarrow> Inl TypeError
      | Inr (Some g) \<Rightarrow> Inr (log_abs_sum g))"
  by (simp add: get_diff_def)

section \<open>Density conversion between the spaces\<close>

lemma get_diff_wf: "get_diff K self x xt = Inr diff \<Longrightarrow> wf_nd diff"
  by (auto simp: get_diff_def from_original_grad_def to_original_grad_def constraint_def wf_nd_def
      log_abs_sum_def sum_last_def map_nd_def ones_like_def Let_def
      split: option.splits sum.splits if_splits out_arg.splits)

lemma map2_sub_add:
  "length (xs :: real list) = length ys \<Longrightarrow> map2 (+) (map2 (-) xs ys) ys = xs"
  by (induction xs ys rule: list_induct2) auto

text \<open>
  C9 as stated: for every density \<open>d\<close> whose element count matches the batch,
  converting to the original space and back returns \<open>d\<close>. A density of shape \<open>(2, 1)\<close>
  has the element count of a difference of shape \<open>(2)\<close>, so it passes the check
  \<^verbatim>\<open>density.size != diff.size\<close>; then \<^verbatim>\<open>density - diff\<close> broadcasts to shape \<open>(2, 2)\<close>,
  and the conversion back raises on that array of four elements.
\<close>

theorem density_roundtrip_counterexample:
  "size_nd \<lparr>shape = [2, 1], elems = [1, 2]\<rparr> = 2 \<and>
   get_diff unit_kernels no_scales (Some \<lparr>shape = [2, 1], elems = [0, 0]\<rparr>) None =
     Inr \<lparr>shape = [2], elems = [0, 0]\<rparr> \<and>
   to_original_density unit_kernels no_scales \<lparr>shape = [2, 1], elems = [1, 2]\<rparr> None
       (Some \<lparr>shape = [2, 1], elems = [0, 0]\<rparr>) =
     Inr \<lparr>shape = [2, 2], elems = [1, 1, 2, 2]\<rparr> \<and>
   from_original_density unit_kernels no_scales \<lparr>shape = [2, 2], elems = [1, 1, 2, 2]\<rparr>
       (Some \<lparr>shape = [2, 1], elems = [0, 0]\<rparr>) None =
     Inl (ValueError ''the shape of density is inconsistent with the shape of x or x_trans.'')"
proof -
  have up: "[0..<2] = [0, 1]" by (simp add: upt_rec)
  have d: "get_diff unit_kernels no_scales (Some \<lparr>shape = [2, 1], elems = [0, 0]\<rparr>) None =
             Inr \<lparr>shape = [2], elems = [0, 0]\<rparr>"
    by (simp add: get_diff_def no_scales_def from_original_grad_def constraint_def ones_like_def
        log_abs_sum_def sum_last_def map_nd_def block_def up)
  have s: "size_nd \<lparr>shape = [2, 1], elems = [1, 2]\<rparr> = 2" by (simp add: size_nd_def)
  have t: "to_original_density unit_kernels no_scales \<lparr>shape = [2, 1], elems = [1, 2]\<rparr> None
       (Some \<lparr>shape = [2, 1], elems = [0, 0]\<rparr>) =
     Inr \<lparr>shape = [2, 2], elems = [1, 1, 2, 2]\<rparr>"
    unfolding to_original_density_def d
    by (simp add: size_nd_def broadcast2_def pad_shape_def Let_def block_def up)
  have f: "from_original_density unit_kernels no_scales \<lparr>shape = [2, 2], elems = [1, 1, 2, 2]\<rparr>
       (Some \<lparr>shape = [2, 1], elems = [0, 0]\<rparr>) None =
     Inl (ValueError ''the shape of density is inconsistent with the shape of x or x_trans.'')"
    unfolding from_original_density_def d
    by (simp add: size_nd_def)
  from s d t f show ?thesis by (intro conjI)
qed

text \<open>
  C9, amended. For every log-density array \<open>d\<close> whose shape is the shape of the
  log-Jacobian difference of the coordinate batch \<open>x\<^sub>o\<close> (the shape of \<open>x\<^sub>o\<close> without its
  last axis), \<^verbatim>\<open>from_original_density(to_original_density(d, x=x_o), x=x_o)\<close> returns \<open>d\<close>:
  the same difference is first subtracted and then added. Both conversions first compare
  the element count of the density with that of the difference and raise a
  \<^verbatim>\<open>ValueError\<close> when they differ.
\<close>

theorem density_roundtrip:
  assumes "get_diff K self (Some x) None = Inr diff"
    and "wf_nd d" and "shape d = shape diff"
  shows "to_original_density K self d None (Some x) =
           Inr \<lparr>shape = shape d, elems = map2 (-) (elems d) (elems diff)\<rparr> \<and>
         from_original_density K self
             \<lparr>shape = shape d, elems = map2 (-) (elems d) (elems diff)\<rparr> (Some x) None = Inr d \<and>
         (\<forall>d'. size_nd d' \<noteq> size_nd diff \<longrightarrow>
            to_original_density K self d' None (Some x) =
              Inl (ValueError ''the shape of density is inconsistent with the shape of x_trans or x.'') \<and>
            from_original_density K self d' (Some x) None =
              Inl (ValueError ''the shape of density is inconsistent with the shape of x or x_trans.''))"
proof -
  from assms(1) have "wf_nd diff" by (rule get_diff_wf)
  with assms(2,3) have len: "length (elems d) = length (elems diff)"
    by (simp add: wf_nd_def)
  have rt: "\<lparr>shape = shape d, elems = map2 (+) (map2 (-) (elems d) (elems diff)) (elems diff)\<rparr> = d"
    by (simp add: map2_sub_add[OF len])
  show ?thesis
    using assms(1,3) rt
    by (simp add: to_original_density_def from_original_density_def size_nd_def broadcast2_def)
qed

theorem density_roundtrip_witness:
  "get_diff unit_kernels no_scales (Some \<lparr>shape = [2, 1], elems = [0, 0]\<rparr>) None =
     Inr \<lparr>shape = [2], elems = [0, 0]\<rparr> \<and>
   wf_nd \<lparr>shape = [2], elems = [1, 2]\<rparr> \<and>
   to_original_density unit_kernels no_scales \<lparr>shape = [2], elems = [1, 2]\<rparr> None
       (Some \<lparr>shape = [2, 1], elems = [0, 0]\<rparr>) = Inr \<lparr>shape = [2], elems = [1, 2]\<rparr> \<and>
   from_original_density unit_kernels no_scales \<lparr>shape = [2], elems = [1, 2]\<rparr>
       (Some \<lparr>shape = [2, 1], elems = [0, 0]\<rparr>) None = Inr \<lparr>shape = [2], elems = [1, 2]\<rparr> \<and>
   to_original_density unit_kernels no_scales \<lparr>shape = [3], elems = [1, 2, 3]\<rparr> None
       (Some \<lparr>shape = [2, 1], elems = [0, 0]\<rparr>) =
     Inl (ValueError ''the shape of density is inconsistent with the shape of x_trans or x.'')"
proof -
  have up: "[0..<2] = [0, 1]" by (simp add: upt_rec)
  have d: "get_diff unit_kernels no_scales (Some \<lparr>shape = [2, 1], elems = [0, 0]\<rparr>) None =
             Inr \<lparr>shape = [2], elems = [0, 0]\<rparr>"
    by (simp add: get_diff_def no_scales_def from_original_grad_def constraint_def ones_like_def
        log_abs_sum_def sum_last_def map_nd_def block_def up)
  have w: "wf_nd \<lparr>shape = [2], elems = [1, 2]\<rparr>" by (simp add: wf_nd_def)
  have s: "shape \<lparr>shape = [2], elems = [1, 2]\<rparr> = shape \<lparr>shape = [2], elems = [0, 0]\<rparr>" by simp
  have n: "size_nd \<lparr>shape = [3], elems = [1, 2, 3]\<rparr> \<noteq> size_nd \<lparr>shape = [2], elems = [0, 0]\<rparr>"
    by (simp add: size_nd_def)
  from density_roundtrip [OF d w s] n d w show ?thesis by simp
qed

section \<open>The surrogate recipe\<close>








section \<open>Lemmas about names, stores and matrices\<close>


lemma copy_name_neq: "copy_name v k \<noteq> v"
  by (simp add: copy_name_def)

lemma copy_name_1_2: "copy_name v 1 \<noteq> copy_name v 2"
  using copy_name_inj[of v 1 2] by auto

lemma copy_search_free: "copy_name n k \<notin> set keys \<Longrightarrow> copy_search keys n k = copy_name n k"
  by (simp add: copy_search.simps)

lemma copy_search_taken:
  "copy_name n k \<in> set keys \<Longrightarrow> copy_search keys n k = copy_search keys n (k + 1)"
  by (simp add: copy_search.simps[of keys n k])

lemma copy_search_spec:
  "\<exists>j\<ge>k. copy_search keys n k = copy_name n j \<and> copy_name n j \<notin> set keys \<and>
      (\<forall>i. k \<le> i \<and> i < j \<longrightarrow> copy_name n i \<in> set keys)"
proof (induction keys n k rule: copy_search.induct)
  case (1 keys n k)
  show ?case
  proof (cases "copy_name n k \<in> set keys")
    case False
    then show ?thesis by (auto simp: copy_search.simps[of keys n k] intro!: exI[of _ k])
  next
    case True
    with 1 obtain j where j: "k + 1 \<le> j" "copy_search keys n (k + 1) = copy_name n j"
      "copy_name n j \<notin> set keys" "\<forall>i. k + 1 \<le> i \<and> i < j \<longrightarrow> copy_name n i \<in> set keys"
      by blast
    have "\<forall>i. k \<le> i \<and> i < j \<longrightarrow> copy_name n i \<in> set keys"
    proof (intro allI impI)
      fix i assume "k \<le> i \<and> i < j"
      then show "copy_name n i \<in> set keys"
        using True j(4) by (cases "i = k") auto
    qed
    with j True show ?thesis
      by (auto simp: copy_search.simps[of keys n k] intro!: exI[of _ j])
  qed
qed

lemma keys_update: "set (map fst (AList.update k v al)) = insert k (set (map fst al))"
  using dom_update[of k v al] by auto

lemma lookup_Some: "lookup d n = Inr v \<longleftrightarrow> map_of d n = Some v"
  by (simp add: lookup_def split: option.split)

lemma lookup_None: "(\<exists>e. lookup d n = Inl e) \<longleftrightarrow> map_of d n = None"
  by (simp add: lookup_def split: option.split)

lemma map_of_None_keys: "map_of d n = None \<longleftrightarrow> n \<notin> set (map fst d)"
  by (simp add: map_of_eq_None_iff)

lemma copy_jac_single:
  "vd_get_pair vd n = Inr p \<Longrightarrow>
   copy_jac [n] [] 0 vd =
     (vd_set (copy_search (map fst (vd_fun vd) @ map fst (vd_jac vd)) n 1) p vd, None)"
  by (simp add: Let_def)

lemma copy_fun_single:
  "lookup (vd_fun vd) n = Inr x \<Longrightarrow>
   copy_fun [n] [] 0 vd =
     (vd\<lparr>vd_fun := AList.update (copy_search (map fst (vd_fun vd)) n 1) x (vd_fun vd)\<rparr>, None)"
  by (simp add: Let_def)

lemma copy_jac_step:
  "vd_get_pair vd n = Inr p \<Longrightarrow>
   copy_jac (n # ns) [] j vd =
     copy_jac ns [] (j + 1)
       (vd_set (copy_search (map fst (vd_fun vd) @ map fst (vd_jac vd)) n 1) p vd)"
  by (simp add: Let_def)

lemma copy_fun_step:
  "lookup (vd_fun vd) n = Inr x \<Longrightarrow>
   copy_fun (n # ns) [] j vd =
     copy_fun ns [] (j + 1)
       (vd\<lparr>vd_fun := AList.update (copy_search (map fst (vd_fun vd)) n 1) x (vd_fun vd)\<rparr>)"
  by (simp add: Let_def)

lemma copy_jac_twice:
  assumes fv: "map_of (vd_fun vd) v = Some x" and jv: "map_of (vd_jac vd) v = Some J"
    and free1: "copy_name v 1 \<notin> set (map fst (vd_fun vd) @ map fst (vd_jac vd))"
    and free2: "copy_name v 2 \<notin> set (map fst (vd_fun vd) @ map fst (vd_jac vd))"
  shows "copy_jac [v, v] [] 0 vd =
           (vd_set (copy_name v 2) (x, J) (vd_set (copy_name v 1) (x, J) vd), None)"
proof -
  let ?vd1 = "vd_set (copy_name v 1) (x, J) vd"
  have p: "vd_get_pair vd v = Inr (x, J)" using fv jv by (simp add: vd_get_pair_def lookup_def)
  have s1: "copy_search (map fst (vd_fun vd) @ map fst (vd_jac vd)) v 1 = copy_name v 1"
    using free1 by (rule copy_search_free)
  have p1: "vd_get_pair ?vd1 v = Inr (x, J)"
    using fv jv copy_name_neq[of v 1]
    by (simp add: vd_get_pair_def lookup_def vd_set_def update_conv')
  have in1: "copy_name v 1 \<in> set (map fst (vd_fun ?vd1) @ map fst (vd_jac ?vd1))"
    by (simp add: vd_set_def keys_update del: set_map)
  have out2: "copy_name v 2 \<notin> set (map fst (vd_fun ?vd1) @ map fst (vd_jac ?vd1))"
    using free2 copy_name_1_2[of v] by (simp add: vd_set_def keys_update del: set_map)
  have "copy_search (map fst (vd_fun ?vd1) @ map fst (vd_jac ?vd1)) v 1
          = copy_search (map fst (vd_fun ?vd1) @ map fst (vd_jac ?vd1)) v 2"
    using copy_search_taken[OF in1] by (simp only: one_add_one)
  also have "\<dots> = copy_name v 2" using out2 by (rule copy_search_free)
  finally have s2: "copy_search (map fst (vd_fun ?vd1) @ map fst (vd_jac ?vd1)) v 1 = copy_name v 2" .
  have "copy_jac [v, v] [] 0 vd =
          copy_jac [v] [] (0 + 1)
            (vd_set (copy_search (map fst (vd_fun vd) @ map fst (vd_jac vd)) v 1) (x, J) vd)"
    by (rule copy_jac_step[OF p])
  also have "\<dots> = copy_jac [v] [] (0 + 1) ?vd1" by (simp only: s1)
  also have "\<dots> = copy_jac [] [] (0 + 1 + 1)
            (vd_set (copy_search (map fst (vd_fun ?vd1) @ map fst (vd_jac ?vd1)) v 1) (x, J) ?vd1)"
    by (rule copy_jac_step[OF p1])
  also have "\<dots> = copy_jac [] [] (0 + 1 + 1) (vd_set (copy_name v 2) (x, J) ?vd1)"
    by (simp only: s2)
  also have "\<dots> = (vd_set (copy_name v 2) (x, J) ?vd1, None)" by simp
  finally show ?thesis .
qed

lemma copy_fun_twice:
  assumes fv: "map_of (vd_fun vd) v = Some x"
    and free1: "copy_name v 1 \<notin> set (map fst (vd_fun vd))"
    and free2: "copy_name v 2 \<notin> set (map fst (vd_fun vd))"
  shows "copy_fun [v, v] [] 0 vd =
           (vd\<lparr>vd_fun := AList.update (copy_name v 2) x
                            (AList.update (copy_name v 1) x (vd_fun vd))\<rparr>, None)"
proof -
  let ?f1 = "AList.update (copy_name v 1) x (vd_fun vd)"
  have s1: "copy_search (map fst (vd_fun vd)) v 1 = copy_name v 1"
    using free1 by (rule copy_search_free)
  have l: "lookup (vd_fun vd) v = Inr x" using fv by (simp add: lookup_def)
  have l1: "lookup ?f1 v = Inr x"
    using fv copy_name_neq[of v 1] by (simp add: lookup_def update_conv')
  have in1: "copy_name v 1 \<in> set (map fst ?f1)" by (simp add: keys_update del: set_map)
  have out2: "copy_name v 2 \<notin> set (map fst ?f1)"
    using free2 copy_name_1_2[of v] by (simp add: keys_update del: set_map)
  have "copy_search (map fst ?f1) v 1 = copy_search (map fst ?f1) v 2"
    using copy_search_taken[OF in1] by (simp only: one_add_one)
  also have "\<dots> = copy_name v 2" using out2 by (rule copy_search_free)
  finally have s2: "copy_search (map fst ?f1) v 1 = copy_name v 2" .
  have "copy_fun [v, v] [] 0 vd =
          copy_fun [v] [] (0 + 1)
            (vd\<lparr>vd_fun := AList.update (copy_search (map fst (vd_fun vd)) v 1) x (vd_fun vd)\<rparr>)"
    by (rule copy_fun_step[OF l])
  also have "\<dots> = copy_fun [v] [] (0 + 1) (vd\<lparr>vd_fun := ?f1\<rparr>)" by (simp only: s1)
  also have "\<dots> = copy_fun [] [] (0 + 1 + 1)
            ((vd\<lparr>vd_fun := ?f1\<rparr>)\<lparr>vd_fun := AList.update (copy_search (map fst ?f1) v 1) x ?f1\<rparr>)"
    using copy_fun_step[of "vd\<lparr>vd_fun := ?f1\<rparr>" v x "[]" "0 + 1"] l1 by simp
  also have "\<dots> = copy_fun [] [] (0 + 1 + 1)
            ((vd\<lparr>vd_fun := ?f1\<rparr>)\<lparr>vd_fun := AList.update (copy_name v 2) x ?f1\<rparr>)"
    by (simp only: s2)
  also have "\<dots> = (vd\<lparr>vd_fun := AList.update (copy_name v 2) x ?f1\<rparr>, None)" by simp
  finally show ?thesis .
qed


lemma bind_outputs_jac_other:
  "bind_outputs_jac ns out ojac ijac j vd = (vd', None) \<Longrightarrow> n \<notin> set ns \<Longrightarrow>
     map_of (vd_jac vd') n = map_of (vd_jac vd) n \<and> map_of (vd_fun vd') n = map_of (vd_fun vd) n"
proof (induction ns arbitrary: j vd)
  case Nil
  then show ?case by simp
next
  case (Cons a ns)
  then show ?case
    by (auto simp: Let_def update_conv' split: if_splits sum.splits)
qed

lemma bind_outputs_jac_last:
  "bind_outputs_jac ns out ojac ijac j vd = (vd', None) \<Longrightarrow> k < length ns \<Longrightarrow>
   (\<forall>k'. k < k' \<and> k' < length ns \<longrightarrow> ns ! k' \<noteq> ns ! k) \<Longrightarrow>
   \<exists>J. dot (ojac ! (j + k)) ijac = Inr J \<and> map_of (vd_jac vd') (ns ! k) = Some J \<and>
       map_of (vd_fun vd') (ns ! k) = Some (out ! (j + k))"
proof (induction ns arbitrary: j vd k)
  case Nil
  then show ?case by simp
next
  case (Cons a ns)
  from Cons.prems(1) obtain J0 where
    d: "dot (ojac ! j) ijac = Inr J0" and
    rest: "bind_outputs_jac ns out ojac ijac (j + 1)
             (vd\<lparr>vd_fun := AList.update a (out ! j) (vd_fun vd),
                 vd_jac := AList.update a J0 (vd_jac vd)\<rparr>) = (vd', None)"
    by (auto simp: Let_def split: if_splits sum.splits)
  show ?case
  proof (cases k)
    case 0
    have "a \<notin> set ns"
    proof
      assume "a \<in> set ns"
      then obtain m where "m < length ns" "ns ! m = a" by (auto simp: in_set_conv_nth)
      with Cons.prems(3) 0 show False by (auto dest: spec[of _ "Suc m"])
    qed
    from bind_outputs_jac_other[OF rest this] d 0 show ?thesis
      by (simp add: update_conv')
  next
    case (Suc k')
    have "\<forall>m. k' < m \<and> m < length ns \<longrightarrow> ns ! m \<noteq> ns ! k'"
    proof (intro allI impI)
      fix m assume "k' < m \<and> m < length ns"
      with Cons.prems(3) Suc show "ns ! m \<noteq> ns ! k'" by (auto dest: spec[of _ "Suc m"])
    qed
    with Cons.IH[OF rest, of k'] Cons.prems(2) Suc show ?thesis by simp
  qed
qed

lemma gather_nth:
  "gather d ns = Inr vs \<Longrightarrow> length vs = length ns \<and> (\<forall>k<length ns. map_of d (ns ! k) = Some (vs ! k))"
proof (induction ns arbitrary: vs)
  case Nil
  then show ?case by simp
next
  case (Cons a ns)
  then show ?case
    by (auto simp: lookup_def nth_Cons split: sum.splits option.splits nat.splits)
qed

lemma concatenate0_rows:
  "concatenate0 js = Inr M \<Longrightarrow> rows M = concat (map rows js) \<and> js \<noteq> [] \<and> ncols M = ncols (hd js)"
  by (auto simp: concatenate0_def split: list.splits if_splits)

lemma eye_entry: "l < n \<Longrightarrow> j < n \<Longrightarrow> rows (eye n) ! l ! j = (if l = j then 1 else 0)"
  by (simp add: eye_def)

lemma dot_row_eye: "length r = n \<Longrightarrow> dot_row r (eye n) = r"
proof -
  assume len: "length r = n"
  have "\<And>j. j < n \<Longrightarrow> (\<Sum>l\<leftarrow>[0..<n]. r ! l * rows (eye n) ! l ! j) = r ! j"
  proof -
    fix j assume j: "j < n"
    have "map (\<lambda>l. r ! l * rows (eye n) ! l ! j) [0..<n] = map (\<lambda>l. if l = j then r ! j else 0) [0..<n]"
      using j by (intro map_cong) (auto simp: eye_entry)
    then have "(\<Sum>l\<leftarrow>[0..<n]. r ! l * rows (eye n) ! l ! j) = (\<Sum>l\<leftarrow>[0..<n]. if l = j then r ! j else 0)"
      by (rule arg_cong[where f = sum_list])
    also have "\<dots> = (\<Sum>l\<in>{0..<n}. if l = j then r ! j else 0)"
      by (simp add: interv_sum_list_conv_sum_set_nat)
    also have "\<dots> = r ! j" using j by simp
    finally show "(\<Sum>l\<leftarrow>[0..<n]. r ! l * rows (eye n) ! l ! j) = r ! j" .
  qed
  then show ?thesis
    using len by (auto simp: dot_row_def list_eq_iff_nth_eq eye_def simp del: upt_Suc)
qed

lemma dot_eye: "wf_matrix A \<Longrightarrow> dot A (eye (ncols A)) = Inr A"
proof -
  assume wf: "wf_matrix A"
  have "map (\<lambda>r. dot_row r (eye (ncols A))) (rows A) = rows A"
    using wf by (intro map_idI) (auto simp: wf_matrix_def list_all_iff dot_row_eye)
  then show ?thesis by (simp add: dot_def eye_def)
qed

lemma steps_error_is_step_failure:
  "steps self jm sp i si us vd = (vd', Some e) \<Longrightarrow> \<exists>k\<le>sp. e = step_failed jm k"
proof (induction self jm sp i si us vd rule: steps.induct)
  case (1 self jm sp i si us vd)
  show ?case
  proof (cases "i \<le> sp")
    case False
    with "1.prems" show ?thesis by (simp add: steps.simps[of self jm sp i])
  next
    case True
    show ?thesis
    proof (cases "select_stage self i si us")
      case (Inl e')
      with True "1.prems" show ?thesis by (auto simp: steps.simps[of self jm sp i])
    next
      case (Inr sel)
      obtain m di si' us' where sel: "sel = (m, di, si', us')" by (cases sel) auto
      show ?thesis
      proof (cases "run_stage jm m vd")
        case (Pair vd1 r)
        show ?thesis
        proof (cases r)
          case None
          with True Inr sel Pair "1.prems"
          have "steps self jm sp (i + di) si' us' vd1 = (vd', Some e)"
            by (simp add: steps.simps[of self jm sp i])
          with "1.IH"[OF True Inr sel[symmetric] refl refl Pair[symmetric] None] show ?thesis
            by blast
        next
          case (Some e')
          with True Inr sel Pair "1.prems" show ?thesis
            by (auto simp: steps.simps[of self jm sp i])
        qed
      qed
    qed
  qed
qed

lemma gather_missing:
  "n \<in> set ns \<Longrightarrow> map_of d n = None \<Longrightarrow> \<exists>n'. gather d ns = Inl (KeyError n')"
proof (induction ns)
  case Nil
  then show ?case by simp
next
  case (Cons a ns)
  then show ?case
    by (auto simp: lookup_def split: sum.splits option.splits)
qed

section \<open>The chain rule of the Jacobian mode\<close>


lemma last_occurrence_iff:
  "last_occurrence ns k \<longleftrightarrow> (k < length ns \<and> (\<forall>k'. k < k' \<and> k' < length ns \<longrightarrow> ns ! k' \<noteq> ns ! k))"
proof -
  have "ns ! k \<in> set (drop (Suc k) ns) \<longleftrightarrow> (\<exists>k'. k < k' \<and> k' < length ns \<and> ns ! k' = ns ! k)"
  proof
    assume "ns ! k \<in> set (drop (Suc k) ns)"
    then obtain m where m: "m < length (drop (Suc k) ns)" "drop (Suc k) ns ! m = ns ! k"
      by (auto simp: in_set_conv_nth)
    then have "k < Suc k + m \<and> Suc k + m < length ns \<and> ns ! (Suc k + m) = ns ! k" by auto
    then show "\<exists>k'. k < k' \<and> k' < length ns \<and> ns ! k' = ns ! k" by blast
  next
    assume "\<exists>k'. k < k' \<and> k' < length ns \<and> ns ! k' = ns ! k"
    then obtain k' where k': "k < k'" "k' < length ns" "ns ! k' = ns ! k" by blast
    then have "k' - Suc k < length (drop (Suc k) ns)" "drop (Suc k) ns ! (k' - Suc k) = ns ! k"
      by auto
    then show "ns ! k \<in> set (drop (Suc k) ns)" by (metis nth_mem)
  qed
  then show ?thesis by (auto simp: last_occurrence_def)
qed

lemma run_stage_jac_success:
  assumes "run_stage_jac m vd = (vd', None)"
  shows "\<exists>inp js ijac out ojac vd1 vd2.
           gather (vd_fun vd) (input_vars m) = Inr inp \<and>
           gather (vd_jac vd) (input_vars m) = Inr js \<and>
           concatenate0 js = Inr ijac \<and>
           module_fun_and_jac m inp = Inr (out, ojac) \<and>
           bind_outputs_jac (output_vars m) out ojac ijac 0 vd = (vd1, None) \<and>
           copy_jac (copy_vars m) (paste_vars m) 0 vd1 = (vd2, None) \<and>
           delete_jac (delete_vars m) vd2 = (vd', None)"
  using assms
  by (auto simp: run_stage_jac_def split: sum.splits prod.splits option.splits)

text \<open>
  C1. In Jacobian mode every successful step gathers the values and the stored Jacobians
  of the stage's input names, concatenates these Jacobians in input-name order, calls the
  stage, and binds every declared output: the Jacobian stored for an output name is
  \<^verbatim>\<open>np.dot\<close> of that output block's local Jacobian with the concatenated input Jacobian.
  In particular, for a pipeline of two modules \<open>y = f(x)\<close>, \<open>z = g(y)\<close> evaluated in the
  original space, the Jacobian returned for \<open>z\<close> is the product of the local Jacobian of
  \<open>g\<close> with the local Jacobian of \<open>f\<close>.
\<close>

theorem chain_rule:
  "(run_stage_jac m vd = (vd', None) \<longrightarrow>
      (\<exists>inp js ijac out ojac vd1 vd2.
           gather (vd_fun vd) (input_vars m) = Inr inp \<and>
           gather (vd_jac vd) (input_vars m) = Inr js \<and>
           concatenate0 js = Inr ijac \<and>
           module_fun_and_jac m inp = Inr (out, ojac) \<and>
           bind_outputs_jac (output_vars m) out ojac ijac 0 vd = (vd1, None) \<and>
           copy_jac (copy_vars m) (paste_vars m) 0 vd1 = (vd2, None) \<and>
           delete_jac (delete_vars m) vd2 = (vd', None))) \<and>
   (gather (vd_jac vd) (input_vars m) = Inr js \<and> concatenate0 js = Inr ijac \<and>
    bind_outputs_jac (output_vars m) out ojac ijac 0 vd = (vd1, None) \<longrightarrow>
      length js = length (input_vars m) \<and>
      (\<forall>k. k < length (input_vars m) \<longrightarrow> map_of (vd_jac vd) (input_vars m ! k) = Some (js ! k)) \<and>
      rows ijac = concat (map rows js) \<and>
      (\<forall>k. last_occurrence (output_vars m) k \<longrightarrow>
         (\<exists>J. dot (ojac ! k) ijac = Inr J \<and>
              map_of (vd_jac vd1) (output_vars m ! k) = Some J \<and>
              map_of (vd_fun vd1) (output_vars m ! k) = Some (out ! k)))) \<and>
   (module_list self = [f, g] \<and> pipeline_input_vars self = nx # others \<and> input_cum self = None \<and>
    input_vars f = [nx] \<and> output_vars f = [ny] \<and> copy_vars f = [] \<and> delete_vars f = [] \<and>
    input_vars g = [ny] \<and> output_vars g = [nz] \<and> copy_vars g = [] \<and> delete_vars g = [] \<and>
    module_fun_and_jac f [x] = Inr ([y], [Jf]) \<and> module_fun_and_jac g [y] = Inr ([z], [Jg]) \<and>
    wf_matrix Jf \<and> ncols Jf = length x \<and> ncols Jg = length (rows Jf) \<longrightarrow>
      (\<exists>J. dot Jg Jf = Inr J \<and>
           pipeline_fun_and_jac K vc self (InFloat (FVec x))
             \<lparr>use_surrogate = False, original_space = True, start = None, stop = None,
              extract_vars = ExName nz\<rparr> = Inr (RPair z J)))"
proof (intro conjI impI)
  assume "run_stage_jac m vd = (vd', None)"
  then show "\<exists>inp js ijac out ojac vd1 vd2.
           gather (vd_fun vd) (input_vars m) = Inr inp \<and>
           gather (vd_jac vd) (input_vars m) = Inr js \<and>
           concatenate0 js = Inr ijac \<and>
           module_fun_and_jac m inp = Inr (out, ojac) \<and>
           bind_outputs_jac (output_vars m) out ojac ijac 0 vd = (vd1, None) \<and>
           copy_jac (copy_vars m) (paste_vars m) 0 vd1 = (vd2, None) \<and>
           delete_jac (delete_vars m) vd2 = (vd', None)"
    by (rule run_stage_jac_success)
next
  assume a: "gather (vd_jac vd) (input_vars m) = Inr js \<and> concatenate0 js = Inr ijac \<and>
    bind_outputs_jac (output_vars m) out ojac ijac 0 vd = (vd1, None)"
  from a gather_nth[of "vd_jac vd" "input_vars m" js]
  show "length js = length (input_vars m)" by simp
  from a gather_nth[of "vd_jac vd" "input_vars m" js]
  show "\<forall>k. k < length (input_vars m) \<longrightarrow> map_of (vd_jac vd) (input_vars m ! k) = Some (js ! k)"
    by simp
  from a concatenate0_rows[of js ijac] show "rows ijac = concat (map rows js)" by simp
  show "\<forall>k. last_occurrence (output_vars m) k \<longrightarrow>
         (\<exists>J. dot (ojac ! k) ijac = Inr J \<and>
              map_of (vd_jac vd1) (output_vars m ! k) = Some J \<and>
              map_of (vd_fun vd1) (output_vars m ! k) = Some (out ! k))"
  proof (intro allI impI)
    fix k assume "last_occurrence (output_vars m) k"
    then have k: "k < length (output_vars m)"
      "\<forall>k'. k < k' \<and> k' < length (output_vars m) \<longrightarrow> output_vars m ! k' \<noteq> output_vars m ! k"
      by (simp_all add: last_occurrence_iff)
    from a have b: "bind_outputs_jac (output_vars m) out ojac ijac 0 vd = (vd1, None)" by simp
    from bind_outputs_jac_last[OF b k]
    show "\<exists>J. dot (ojac ! k) ijac = Inr J \<and>
              map_of (vd_jac vd1) (output_vars m ! k) = Some J \<and>
              map_of (vd_fun vd1) (output_vars m ! k) = Some (out ! k)" by simp
  qed
next
  assume a: "module_list self = [f, g] \<and> pipeline_input_vars self = nx # others \<and> input_cum self = None \<and>
    input_vars f = [nx] \<and> output_vars f = [ny] \<and> copy_vars f = [] \<and> delete_vars f = [] \<and>
    input_vars g = [ny] \<and> output_vars g = [nz] \<and> copy_vars g = [] \<and> delete_vars g = [] \<and>
    module_fun_and_jac f [x] = Inr ([y], [Jf]) \<and> module_fun_and_jac g [y] = Inr ([z], [Jg]) \<and>
    wf_matrix Jf \<and> ncols Jf = length x \<and> ncols Jg = length (rows Jf)"
  let ?opts = "\<lparr>use_surrogate = False, original_space = True, start = None, stop = None,
              extract_vars = ExName nz\<rparr>"
  let ?J = "\<lparr>ncols = ncols Jf, rows = map (\<lambda>r. dot_row r Jf) (rows Jg)\<rparr>"
  let ?vd0 = "\<lparr>vd_fun = [(nx, x)], vd_jac = [(nx, eye (length x))]\<rparr>"
  let ?vd1 = "?vd0\<lparr>vd_fun := AList.update ny y (vd_fun ?vd0), vd_jac := AList.update ny Jf (vd_jac ?vd0)\<rparr>"
  let ?vd2 = "?vd1\<lparr>vd_fun := AList.update nz z (vd_fun ?vd1), vd_jac := AList.update nz ?J (vd_jac ?vd1)\<rparr>"
  have dJ: "dot Jg Jf = Inr ?J" using a by (simp add: dot_def)
  have oc: "options_check self vc None None (ExName nz) = Inr (0, 1, ExName nz)"
    using a by (simp add: options_check_def step_check_def n_module_def)
  have seed: "seed_jac K self True x = Inr ?vd0"
    using a by (simp add: seed_jac_def)
  have de: "dot Jf (eye (length x)) = Inr Jf" using a dot_eye[of Jf] by simp
  have cat0: "concatenate0 [eye (length x)] = Inr (eye (length x))"
    by (simp add: concatenate0_def eye_def)
  have cat1: "concatenate0 [Jf] = Inr Jf" by (simp add: concatenate0_def)
  have s0: "select_stage self 0 0 False = Inr (f, 1, 0, False)"
    using a by (simp add: select_stage_def py_index_def)
  have s1: "select_stage self 1 0 False = Inr (g, 1, 0, False)"
    using a by (simp add: select_stage_def py_index_def)
  have r0: "run_stage True f ?vd0 = (?vd1, None)"
    using a by (simp add: run_stage_def run_stage_jac_def lookup_def cat0 de)
  have r1: "run_stage True g ?vd1 = (?vd2, None)"
    using a by (simp add: run_stage_def run_stage_jac_def lookup_def update_conv' cat1 dJ)
  have st2: "steps self True 1 2 0 False ?vd2 = (?vd2, None)"
    by (simp add: steps.simps[of self True 1 2])
  have st1: "steps self True 1 1 0 False ?vd1 = (?vd2, None)"
    using s1 r1 st2 by (simp add: steps.simps[of self True 1 1])
  have st0: "steps self True 1 0 0 False ?vd0 = (?vd2, None)"
    using s0 r0 st1 by (simp add: steps.simps[of self True 1 0])
  have ex: "extract_jac ?vd2 (ExName nz) = Inr (RPair z ?J)"
    by (simp add: extract_jac_def vd_get_pair_def lookup_def update_conv')
  have "pipeline_fun_and_jac K vc self (InFloat (FVec x)) ?opts = Inr (RPair z ?J)"
    using oc seed st0 ex
    by (simp add: pipeline_fun_and_jac_def fun_and_jac_vec_def eval_dict_def run_steps_def)
  with dJ show "\<exists>J. dot Jg Jf = Inr J \<and>
           pipeline_fun_and_jac K vc self (InFloat (FVec x)) ?opts = Inr (RPair z J)"
    by blast
qed

theorem chain_rule_witness:
  "run_stage_jac (scale_module ''x'' ''y'' 2)
       \<lparr>vd_fun = [(''x'', [5])], vd_jac = [(''x'', eye 1)]\<rparr> =
     (\<lparr>vd_fun = [(''x'', [5]), (''y'', [10])],
       vd_jac = [(''x'', eye 1), (''y'', \<lparr>ncols = 1, rows = [[2]]\<rparr>)]\<rparr>, None) \<and>
   last_occurrence [''y''] 0 \<and>
   dot \<lparr>ncols = 1, rows = [[3]]\<rparr> \<lparr>ncols = 1, rows = [[2]]\<rparr> = Inr \<lparr>ncols = 1, rows = [[6]]\<rparr> \<and>
   pipeline_fun_and_jac unit_kernels keep_names two_stage_pipeline (InFloat (FVec [5]))
       \<lparr>use_surrogate = False, original_space = True, start = None, stop = None,
        extract_vars = ExName ''z''\<rparr> =
     Inr (RPair [30] \<lparr>ncols = 1, rows = [[6]]\<rparr>)"
proof -
  have r: "run_stage_jac (scale_module ''x'' ''y'' 2)
       \<lparr>vd_fun = [(''x'', [5])], vd_jac = [(''x'', eye 1)]\<rparr> =
     (\<lparr>vd_fun = [(''x'', [5]), (''y'', [10])],
       vd_jac = [(''x'', eye 1), (''y'', \<lparr>ncols = 1, rows = [[2]]\<rparr>)]\<rparr>, None)"
    by (simp add: run_stage_jac_def scale_module_def lookup_def concatenate0_def eye_def
        dot_def dot_row_def Let_def)
  have l: "last_occurrence [''y''] 0" by (simp add: last_occurrence_def)
  have d: "dot \<lparr>ncols = 1, rows = [[3]]\<rparr> \<lparr>ncols = 1, rows = [[2]]\<rparr> = Inr \<lparr>ncols = 1, rows = [[6]]\<rparr>"
    by (simp add: dot_def dot_row_def)
  have h: "module_list two_stage_pipeline = [scale_module ''x'' ''y'' 2, scale_module ''y'' ''z'' 3] \<and>
    pipeline_input_vars two_stage_pipeline = ''x'' # [] \<and> input_cum two_stage_pipeline = None \<and>
    input_vars (scale_module ''x'' ''y'' 2) = [''x''] \<and> output_vars (scale_module ''x'' ''y'' 2) = [''y''] \<and>
    copy_vars (scale_module ''x'' ''y'' 2) = [] \<and> delete_vars (scale_module ''x'' ''y'' 2) = [] \<and>
    input_vars (scale_module ''y'' ''z'' 3) = [''y''] \<and> output_vars (scale_module ''y'' ''z'' 3) = [''z''] \<and>
    copy_vars (scale_module ''y'' ''z'' 3) = [] \<and> delete_vars (scale_module ''y'' ''z'' 3) = [] \<and>
    module_fun_and_jac (scale_module ''x'' ''y'' 2) [[5]] = Inr ([[10]], [\<lparr>ncols = 1, rows = [[2]]\<rparr>]) \<and>
    module_fun_and_jac (scale_module ''y'' ''z'' 3) [[10]] = Inr ([[30]], [\<lparr>ncols = 1, rows = [[3]]\<rparr>]) \<and>
    wf_matrix \<lparr>ncols = 1, rows = [[2]]\<rparr> \<and> ncols \<lparr>ncols = 1, rows = [[2]]\<rparr> = length [5::real] \<and>
    ncols \<lparr>ncols = 1, rows = [[3]]\<rparr> = length (rows \<lparr>ncols = 1, rows = [[2]]\<rparr>)"
    by (simp add: two_stage_pipeline_def scale_module_def wf_matrix_def)
  from chain_rule[where self = two_stage_pipeline and f = "scale_module ''x'' ''y'' 2"
      and g = "scale_module ''y'' ''z'' 3" and nx = "''x''" and ny = "''y''" and nz = "''z''"
      and others = "[]" and x = "[5]" and y = "[10]" and z = "[30]"
      and Jf = "\<lparr>ncols = 1, rows = [[2]]\<rparr>" and Jg = "\<lparr>ncols = 1, rows = [[3]]\<rparr>"
      and K = unit_kernels and vc = keep_names, THEN conjunct2, THEN conjunct2, THEN mp, OF h]
  have p: "pipeline_fun_and_jac unit_kernels keep_names two_stage_pipeline (InFloat (FVec [5]))
       \<lparr>use_surrogate = False, original_space = True, start = None, stop = None,
        extract_vars = ExName ''z''\<rparr> =
     Inr (RPair [30] \<lparr>ncols = 1, rows = [[6]]\<rparr>)"
    using d by auto
  from r l d p show ?thesis by (intro conjI)
qed

section \<open>Copy and delete directives\<close>

lemma copy_name_1: "copy_name v 1 = v @ ''-Copy1''"
  by (simp add: copy_name_def str_nat.simps digit_char_def)

lemma copy_name_2: "copy_name v 2 = v @ ''-Copy2''"
  by (simp add: copy_name_def str_nat.simps digit_char_def)

text \<open>
  C5. A copy directive that names \<open>v\<close> and has no paste name binds the copy to the first
  name \<open>v-Copy<k>\<close>, \<open>k = 1, 2, ...\<close>, that is not bound in the store. So on a store where
  \<open>v\<close> is bound and neither \<open>v-Copy1\<close> nor \<open>v-Copy2\<close> is, copying \<open>v\<close> twice binds
  \<open>v-Copy1\<close> and then \<open>v-Copy2\<close>; in Jacobian mode to the value and to the Jacobian of
  \<open>v\<close>, in value mode to the value. A delete directive that names \<open>v\<close> then removes \<open>v\<close>
  (in Jacobian mode from both dictionaries) and leaves the two copies.
\<close>

theorem copy_delete_semantics:
  "(\<exists>k\<ge>1. copy_search keys v 1 = copy_name v k \<and> copy_name v k \<notin> set keys \<and>
           (\<forall>i. 1 \<le> i \<and> i < k \<longrightarrow> copy_name v i \<in> set keys)) \<and>
   copy_name v 1 = v @ ''-Copy1'' \<and> copy_name v 2 = v @ ''-Copy2'' \<and>
   (lookup (vd_fun vd) v = Inr x \<longrightarrow>
      copy_fun [v] [] 0 vd =
        (vd\<lparr>vd_fun := AList.update (copy_search (map fst (vd_fun vd)) v 1) x (vd_fun vd)\<rparr>, None)) \<and>
   (vd_get_pair vd v = Inr (x, J) \<longrightarrow>
      copy_jac [v] [] 0 vd =
        (vd_set (copy_search (map fst (vd_fun vd) @ map fst (vd_jac vd)) v 1) (x, J) vd, None)) \<and>
   (map_of (vd_fun vd) v = Some x \<and> map_of (vd_jac vd) v = Some J \<and>
    copy_name v 1 \<notin> set (map fst (vd_fun vd) @ map fst (vd_jac vd)) \<and>
    copy_name v 2 \<notin> set (map fst (vd_fun vd) @ map fst (vd_jac vd)) \<longrightarrow>
      (\<exists>vd' vd''. copy_jac [v, v] [] 0 vd = (vd', None) \<and> delete_jac [v] vd' = (vd'', None) \<and>
         map_of (vd_fun vd') (copy_name v 1) = Some x \<and> map_of (vd_jac vd') (copy_name v 1) = Some J \<and>
         map_of (vd_fun vd') (copy_name v 2) = Some x \<and> map_of (vd_jac vd') (copy_name v 2) = Some J \<and>
         map_of (vd_fun vd'') v = None \<and> map_of (vd_jac vd'') v = None \<and>
         map_of (vd_fun vd'') (copy_name v 1) = Some x \<and> map_of (vd_jac vd'') (copy_name v 1) = Some J \<and>
         map_of (vd_fun vd'') (copy_name v 2) = Some x \<and> map_of (vd_jac vd'') (copy_name v 2) = Some J)) \<and>
   (map_of (vd_fun vd) v = Some x \<and>
    copy_name v 1 \<notin> set (map fst (vd_fun vd)) \<and> copy_name v 2 \<notin> set (map fst (vd_fun vd)) \<longrightarrow>
      (\<exists>wd wd'. copy_fun [v, v] [] 0 vd = (wd, None) \<and> delete_fun [v] wd = (wd', None) \<and>
         map_of (vd_fun wd) (copy_name v 1) = Some x \<and> map_of (vd_fun wd) (copy_name v 2) = Some x \<and>
         map_of (vd_fun wd') v = None \<and>
         map_of (vd_fun wd') (copy_name v 1) = Some x \<and> map_of (vd_fun wd') (copy_name v 2) = Some x \<and>
         vd_jac wd' = vd_jac vd))"
proof (intro conjI impI)
  from copy_search_spec[of 1 keys v]
  show "\<exists>k\<ge>1. copy_search keys v 1 = copy_name v k \<and> copy_name v k \<notin> set keys \<and>
           (\<forall>i. 1 \<le> i \<and> i < k \<longrightarrow> copy_name v i \<in> set keys)" .
  show "copy_name v 1 = v @ ''-Copy1''" by (rule copy_name_1)
  show "copy_name v 2 = v @ ''-Copy2''" by (rule copy_name_2)
next
  assume "lookup (vd_fun vd) v = Inr x"
  then show "copy_fun [v] [] 0 vd =
        (vd\<lparr>vd_fun := AList.update (copy_search (map fst (vd_fun vd)) v 1) x (vd_fun vd)\<rparr>, None)"
    by (rule copy_fun_single)
next
  assume "vd_get_pair vd v = Inr (x, J)"
  then show "copy_jac [v] [] 0 vd =
        (vd_set (copy_search (map fst (vd_fun vd) @ map fst (vd_jac vd)) v 1) (x, J) vd, None)"
    by (rule copy_jac_single)
next
  assume a: "map_of (vd_fun vd) v = Some x \<and> map_of (vd_jac vd) v = Some J \<and>
    copy_name v 1 \<notin> set (map fst (vd_fun vd) @ map fst (vd_jac vd)) \<and>
    copy_name v 2 \<notin> set (map fst (vd_fun vd) @ map fst (vd_jac vd))"
  let ?vd' = "vd_set (copy_name v 2) (x, J) (vd_set (copy_name v 1) (x, J) vd)"
  let ?vd'' = "?vd'\<lparr>vd_fun := AList.delete v (vd_fun ?vd'), vd_jac := AList.delete v (vd_jac ?vd')\<rparr>"
  note ne = copy_name_neq[of v 1] copy_name_neq[of v 2] copy_name_1_2[of v]
  from a have c: "copy_jac [v, v] [] 0 vd = (?vd', None)" by (intro copy_jac_twice) simp_all
  have fv: "map_of (vd_fun ?vd') v = Some x" and jv: "map_of (vd_jac ?vd') v = Some J"
    using a ne by (simp_all add: vd_set_def update_conv')
  have d: "delete_jac [v] ?vd' = (?vd'', None)"
    using fv jv by (simp add: Let_def)
  have "map_of (vd_fun ?vd') (copy_name v 1) = Some x \<and> map_of (vd_jac ?vd') (copy_name v 1) = Some J \<and>
         map_of (vd_fun ?vd') (copy_name v 2) = Some x \<and> map_of (vd_jac ?vd') (copy_name v 2) = Some J \<and>
         map_of (vd_fun ?vd'') v = None \<and> map_of (vd_jac ?vd'') v = None \<and>
         map_of (vd_fun ?vd'') (copy_name v 1) = Some x \<and> map_of (vd_jac ?vd'') (copy_name v 1) = Some J \<and>
         map_of (vd_fun ?vd'') (copy_name v 2) = Some x \<and> map_of (vd_jac ?vd'') (copy_name v 2) = Some J"
    using ne by (simp add: vd_set_def update_conv' delete_conv')
  with c d show "\<exists>vd' vd''. copy_jac [v, v] [] 0 vd = (vd', None) \<and> delete_jac [v] vd' = (vd'', None) \<and>
         map_of (vd_fun vd') (copy_name v 1) = Some x \<and> map_of (vd_jac vd') (copy_name v 1) = Some J \<and>
         map_of (vd_fun vd') (copy_name v 2) = Some x \<and> map_of (vd_jac vd') (copy_name v 2) = Some J \<and>
         map_of (vd_fun vd'') v = None \<and> map_of (vd_jac vd'') v = None \<and>
         map_of (vd_fun vd'') (copy_name v 1) = Some x \<and> map_of (vd_jac vd'') (copy_name v 1) = Some J \<and>
         map_of (vd_fun vd'') (copy_name v 2) = Some x \<and> map_of (vd_jac vd'') (copy_name v 2) = Some J"
    by blast
next
  assume a: "map_of (vd_fun vd) v = Some x \<and>
    copy_name v 1 \<notin> set (map fst (vd_fun vd)) \<and> copy_name v 2 \<notin> set (map fst (vd_fun vd))"
  let ?f = "AList.update (copy_name v 2) x (AList.update (copy_name v 1) x (vd_fun vd))"
  let ?wd = "vd\<lparr>vd_fun := ?f\<rparr>"
  let ?wd' = "?wd\<lparr>vd_fun := AList.delete v ?f\<rparr>"
  note ne = copy_name_neq[of v 1] copy_name_neq[of v 2] copy_name_1_2[of v]
  from a have c: "copy_fun [v, v] [] 0 vd = (?wd, None)" by (intro copy_fun_twice) simp_all
  have fv: "map_of (vd_fun ?wd) v = Some x"
    using a ne by (simp add: update_conv')
  have d: "delete_fun [v] ?wd = (?wd', None)"
    using fv by simp
  have "map_of (vd_fun ?wd) (copy_name v 1) = Some x \<and> map_of (vd_fun ?wd) (copy_name v 2) = Some x \<and>
         map_of (vd_fun ?wd') v = None \<and>
         map_of (vd_fun ?wd') (copy_name v 1) = Some x \<and> map_of (vd_fun ?wd') (copy_name v 2) = Some x \<and>
         vd_jac ?wd' = vd_jac vd"
    using ne by (simp add: update_conv' delete_conv')
  with c d show "\<exists>wd wd'. copy_fun [v, v] [] 0 vd = (wd, None) \<and> delete_fun [v] wd = (wd', None) \<and>
         map_of (vd_fun wd) (copy_name v 1) = Some x \<and> map_of (vd_fun wd) (copy_name v 2) = Some x \<and>
         map_of (vd_fun wd') v = None \<and>
         map_of (vd_fun wd') (copy_name v 1) = Some x \<and> map_of (vd_fun wd') (copy_name v 2) = Some x \<and>
         vd_jac wd' = vd_jac vd"
    by blast
qed


lemma copy_search_first:
  "copy_name n 1 \<notin> set keys \<Longrightarrow> copy_search keys n (Suc 0) = copy_name n 1"
proof -
  assume "copy_name n 1 \<notin> set keys"
  then have "copy_search keys n 1 = copy_name n 1" by (rule copy_search_free)
  then show ?thesis by (simp only: One_nat_def)
qed

lemma copy_search_second:
  assumes "copy_name n 1 \<in> set keys" and "copy_name n 2 \<notin> set keys"
  shows "copy_search keys n (Suc 0) = copy_name n 2"
proof -
  have "copy_search keys n 1 = copy_search keys n (1 + 1)"
    using assms(1) by (rule copy_search_taken)
  also have "\<dots> = copy_search keys n 2" by (simp only: one_add_one)
  also have "\<dots> = copy_name n 2" using assms(2) by (rule copy_search_free)
  finally have "copy_search keys n 1 = copy_name n 2" .
  then show ?thesis by (simp only: One_nat_def)
qed

theorem copy_delete_semantics_witness:
  "run_stage_jac copy_module \<lparr>vd_fun = [(''v'', [7])], vd_jac = [(''v'', eye 1)]\<rparr> =
     (\<lparr>vd_fun = [(''v-Copy1'', [7]), (''v-Copy2'', [7])],
       vd_jac = [(''v-Copy1'', eye 1), (''v-Copy2'', eye 1)]\<rparr>, None) \<and>
   run_stage_fun copy_module \<lparr>vd_fun = [(''v'', [7])], vd_jac = []\<rparr> =
     (\<lparr>vd_fun = [(''v-Copy1'', [7]), (''v-Copy2'', [7])], vd_jac = []\<rparr>, None) \<and>
   (\<exists>vd' vd''. copy_jac [''v'', ''v''] [] 0 \<lparr>vd_fun = [(''v'', [7])], vd_jac = [(''v'', eye 1)]\<rparr> =
                  (vd', None) \<and>
                delete_jac [''v''] vd' = (vd'', None) \<and>
                map_of (vd_fun vd'') ''v'' = None \<and> map_of (vd_jac vd'') ''v'' = None \<and>
                map_of (vd_fun vd'') ''v-Copy1'' = Some [7] \<and>
                map_of (vd_jac vd'') ''v-Copy2'' = Some (eye 1))"
proof -
  let ?vd = "\<lparr>vd_fun = [(''v'', [7])], vd_jac = [(''v'', eye 1)]\<rparr>"
  let ?wd = "\<lparr>vd_fun = [(''v'', [7::real])], vd_jac = []\<rparr>"
  have n1: "copy_name ''v'' 1 = ''v-Copy1''" and n2: "copy_name ''v'' 2 = ''v-Copy2''"
    by (simp_all add: copy_name_def str_nat.simps digit_char_def)
  have hj: "map_of (vd_fun ?vd) ''v'' = Some [7] \<and> map_of (vd_jac ?vd) ''v'' = Some (eye 1) \<and>
    copy_name ''v'' 1 \<notin> set (map fst (vd_fun ?vd) @ map fst (vd_jac ?vd)) \<and>
    copy_name ''v'' 2 \<notin> set (map fst (vd_fun ?vd) @ map fst (vd_jac ?vd))"
    unfolding n1 n2 by simp
  from copy_delete_semantics[of "[]" "''v''" ?vd "[7]" "eye 1",
      THEN conjunct2, THEN conjunct2, THEN conjunct2, THEN conjunct2, THEN conjunct2,
      THEN conjunct1, THEN mp, OF hj]
  have ex: "\<exists>vd' vd''. copy_jac [''v'', ''v''] [] 0 ?vd = (vd', None) \<and>
                delete_jac [''v''] vd' = (vd'', None) \<and>
                map_of (vd_fun vd'') ''v'' = None \<and> map_of (vd_jac vd'') ''v'' = None \<and>
                map_of (vd_fun vd'') ''v-Copy1'' = Some [7] \<and>
                map_of (vd_jac vd'') ''v-Copy2'' = Some (eye 1)"
    unfolding n1 n2 by blast
  have m1: "copy_name ''v'' 1 \<notin> set [''v'', ''v'']" unfolding n1 by simp
  have m2: "copy_name ''v'' 1 \<in> set [''v'', ''v-Copy1'', ''v'', ''v-Copy1'']" unfolding n1 by simp
  have m3: "copy_name ''v'' 2 \<notin> set [''v'', ''v-Copy1'', ''v'', ''v-Copy1'']" unfolding n2 by simp
  have m4: "copy_name ''v'' 1 \<notin> set [''v'']" unfolding n1 by simp
  have m5: "copy_name ''v'' 1 \<in> set [''v'', ''v-Copy1'']" unfolding n1 by simp
  have m6: "copy_name ''v'' 2 \<notin> set [''v'', ''v-Copy1'']" unfolding n2 by simp
  have cs1: "copy_search [''v'', ''v''] ''v'' (Suc 0) = ''v-Copy1''"
    using copy_search_first[OF m1] unfolding n1 .
  have cs2: "copy_search [''v'', ''v-Copy1'', ''v'', ''v-Copy1''] ''v'' (Suc 0) = ''v-Copy2''"
    using copy_search_second[OF m2 m3] unfolding n2 .
  have cf1: "copy_search [''v''] ''v'' (Suc 0) = ''v-Copy1''"
    using copy_search_first[OF m4] unfolding n1 .
  have cf2: "copy_search [''v'', ''v-Copy1''] ''v'' (Suc 0) = ''v-Copy2''"
    using copy_search_second[OF m5 m6] unfolding n2 .
  have rj: "run_stage_jac copy_module ?vd =
     (\<lparr>vd_fun = [(''v-Copy1'', [7]), (''v-Copy2'', [7])],
       vd_jac = [(''v-Copy1'', eye 1), (''v-Copy2'', eye 1)]\<rparr>, None)"
    by (simp add: run_stage_jac_def copy_module_def lookup_def concatenate0_def eye_def
        dot_def dot_row_def Let_def vd_get_pair_def vd_set_def cs1 cs2)
  have rf: "run_stage_fun copy_module ?wd =
     (\<lparr>vd_fun = [(''v-Copy1'', [7]), (''v-Copy2'', [7])], vd_jac = []\<rparr>, None)"
    by (simp add: run_stage_fun_def copy_module_def lookup_def Let_def cf1 cf2)
  from rj rf ex show ?thesis by (intro conjI)
qed

section \<open>Failures of a step\<close>

text \<open>
  C3. Whatever is raised inside a step (choosing the stage, gathering its inputs, of which
  a missing name is one case, calling it, binding the outputs, copying, deleting) leaves
  the loop as the one error of the evaluation that carries the index of the failing step:
  \<^verbatim>\<open>RuntimeError('pipeline fun evaluation failed at step #i.')\<close>, or its \<^verbatim>\<open>fun_and_jac\<close>
  counterpart. The store is returned as the failing part has left it: what was written
  before the failure stays, and that is the state of the caller's \<^verbatim>\<open>VariableDict\<close>.
\<close>

theorem step_errors_wrapped:
  "(i \<le> sp \<and> select_stage self i si us = Inl e \<longrightarrow>
      steps self jm sp i si us vd = (vd, Some (step_failed jm i))) \<and>
   (i \<le> sp \<and> select_stage self i si us = Inr (m, di, si', us') \<and>
    run_stage jm m vd = (vd1, Some e) \<longrightarrow>
      steps self jm sp i si us vd = (vd1, Some (step_failed jm i))) \<and>
   (steps self jm sp i si us vd = (vd2, Some e2) \<longrightarrow> (\<exists>k\<le>sp. e2 = step_failed jm k)) \<and>
   step_failed False i = FunStepFailed i \<and> step_failed True i = FunAndJacStepFailed i \<and>
   (n \<in> set (input_vars m) \<and> map_of (vd_fun vd) n = None \<longrightarrow>
      (\<exists>n'. run_stage jm m vd = (vd, Some (KeyError n')))) \<and>
   (gather (vd_fun vd) (input_vars m) = Inr inp \<and> module_fun m inp = Inl e \<longrightarrow>
      run_stage False m vd = (vd, Some e)) \<and>
   (gather (vd_fun vd) (input_vars m) = Inr inp \<and> module_fun m inp = Inr out \<and>
    bind_outputs_fun (output_vars m) out 0 vd = (vd1, Some e) \<longrightarrow>
      run_stage False m vd = (vd1, Some e)) \<and>
   (gather (vd_fun vd) (input_vars m) = Inr inp \<and> module_fun m inp = Inr out \<and>
    bind_outputs_fun (output_vars m) out 0 vd = (vd3, None) \<and>
    copy_fun (copy_vars m) (paste_vars m) 0 vd3 = (vd1, Some e) \<longrightarrow>
      run_stage False m vd = (vd1, Some e)) \<and>
   (gather (vd_fun vd) (input_vars m) = Inr inp \<and> module_fun m inp = Inr out \<and>
    bind_outputs_fun (output_vars m) out 0 vd = (vd3, None) \<and>
    copy_fun (copy_vars m) (paste_vars m) 0 vd3 = (vd4, None) \<and>
    delete_fun (delete_vars m) vd4 = (vd1, Some e) \<longrightarrow>
      run_stage False m vd = (vd1, Some e)) \<and>
   (gather (vd_fun vd) (input_vars m) = Inr inp \<and> gather (vd_jac vd) (input_vars m) = Inl e \<longrightarrow>
      run_stage True m vd = (vd, Some e)) \<and>
   (gather (vd_fun vd) (input_vars m) = Inr inp \<and> gather (vd_jac vd) (input_vars m) = Inr js \<and>
    concatenate0 js = Inl e \<longrightarrow>
      run_stage True m vd = (vd, Some e)) \<and>
   (gather (vd_fun vd) (input_vars m) = Inr inp \<and> gather (vd_jac vd) (input_vars m) = Inr js \<and>
    concatenate0 js = Inr ijac \<and> module_fun_and_jac m inp = Inl e \<longrightarrow>
      run_stage True m vd = (vd, Some e)) \<and>
   (gather (vd_fun vd) (input_vars m) = Inr inp \<and> gather (vd_jac vd) (input_vars m) = Inr js \<and>
    concatenate0 js = Inr ijac \<and> module_fun_and_jac m inp = Inr (out, ojac) \<and>
    bind_outputs_jac (output_vars m) out ojac ijac 0 vd = (vd1, Some e) \<longrightarrow>
      run_stage True m vd = (vd1, Some e)) \<and>
   (gather (vd_fun vd) (input_vars m) = Inr inp \<and> gather (vd_jac vd) (input_vars m) = Inr js \<and>
    concatenate0 js = Inr ijac \<and> module_fun_and_jac m inp = Inr (out, ojac) \<and>
    bind_outputs_jac (output_vars m) out ojac ijac 0 vd = (vd3, None) \<and>
    copy_jac (copy_vars m) (paste_vars m) 0 vd3 = (vd1, Some e) \<longrightarrow>
      run_stage True m vd = (vd1, Some e)) \<and>
   (gather (vd_fun vd) (input_vars m) = Inr inp \<and> gather (vd_jac vd) (input_vars m) = Inr js \<and>
    concatenate0 js = Inr ijac \<and> module_fun_and_jac m inp = Inr (out, ojac) \<and>
    bind_outputs_jac (output_vars m) out ojac ijac 0 vd = (vd3, None) \<and>
    copy_jac (copy_vars m) (paste_vars m) 0 vd3 = (vd4, None) \<and>
    delete_jac (delete_vars m) vd4 = (vd1, Some e) \<longrightarrow>
      run_stage True m vd = (vd1, Some e)) \<and>
   (options_check self vc (start opts) (stop opts) (extract_vars opts) = Inr c \<and>
    run_steps self False (use_surrogate opts) (fst c) (fst (snd c)) vd = (vd5, Some e) \<longrightarrow>
      fun_dict vc self opts False vd = (vd5, Inl e) \<and>
      pipeline_fun K vc self (InDict vd) opts = Inl e) \<and>
   (options_check self vc (start opts) (stop opts) (extract_vars opts) = Inr c \<and>
    run_steps self True (use_surrogate opts) (fst c) (fst (snd c)) vd = (vd5, Some e) \<longrightarrow>
      fun_and_jac_dict vc self opts False vd = (vd5, Inl e) \<and>
      pipeline_fun_and_jac K vc self (InDict vd) opts = Inl e)"
proof (intro conjI impI)
  assume "i \<le> sp \<and> select_stage self i si us = Inl e"
  then show "steps self jm sp i si us vd = (vd, Some (step_failed jm i))"
    by (simp add: steps.simps[of self jm sp i])
next
  assume "i \<le> sp \<and> select_stage self i si us = Inr (m, di, si', us') \<and>
    run_stage jm m vd = (vd1, Some e)"
  then show "steps self jm sp i si us vd = (vd1, Some (step_failed jm i))"
    by (simp add: steps.simps[of self jm sp i])
next
  assume "steps self jm sp i si us vd = (vd2, Some e2)"
  then show "\<exists>k\<le>sp. e2 = step_failed jm k" by (rule steps_error_is_step_failure)
next
  show "step_failed False i = FunStepFailed i" by (simp add: step_failed_def)
  show "step_failed True i = FunAndJacStepFailed i" by (simp add: step_failed_def)
next
  assume "n \<in> set (input_vars m) \<and> map_of (vd_fun vd) n = None"
  then obtain n' where "gather (vd_fun vd) (input_vars m) = Inl (KeyError n')"
    using gather_missing[of n "input_vars m" "vd_fun vd"] by blast
  then have "run_stage jm m vd = (vd, Some (KeyError n'))"
    by (simp add: run_stage_def run_stage_fun_def run_stage_jac_def)
  then show "\<exists>n'. run_stage jm m vd = (vd, Some (KeyError n'))" by blast
qed (simp_all add: run_stage_def run_stage_fun_def run_stage_jac_def fun_dict_def
       fun_and_jac_dict_def pipeline_fun_def pipeline_fun_and_jac_def eval_dict_def)

theorem step_errors_wrapped_witness:
  "select_stage leaky_pipeline 0 0 False = Inr (leaky_module, 1, 0, False) \<and>
   run_stage False leaky_module \<lparr>vd_fun = [(''x'', [1])], vd_jac = []\<rparr> =
     (\<lparr>vd_fun = [(''x'', [1]), (''y'', [1])], vd_jac = []\<rparr>, Some (KeyError ''ghost'')) \<and>
   steps leaky_pipeline False 0 0 0 False \<lparr>vd_fun = [(''x'', [1])], vd_jac = []\<rparr> =
     (\<lparr>vd_fun = [(''x'', [1]), (''y'', [1])], vd_jac = []\<rparr>, Some (FunStepFailed 0)) \<and>
   fun_dict keep_names leaky_pipeline
       \<lparr>use_surrogate = False, original_space = True, start = None, stop = None,
        extract_vars = ExNone\<rparr> False \<lparr>vd_fun = [(''x'', [1])], vd_jac = []\<rparr> =
     (\<lparr>vd_fun = [(''x'', [1]), (''y'', [1])], vd_jac = []\<rparr>, Inl (FunStepFailed 0))"
proof -
  let ?vd = "\<lparr>vd_fun = [(''x'', [1::real])], vd_jac = []\<rparr>"
  let ?vd1 = "\<lparr>vd_fun = [(''x'', [1::real]), (''y'', [1])], vd_jac = []\<rparr>"
  let ?opts = "\<lparr>use_surrogate = False, original_space = True, start = None, stop = None,
        extract_vars = ExNone\<rparr>"
  have s: "select_stage leaky_pipeline 0 0 False = Inr (leaky_module, 1, 0, False)"
    by (simp add: select_stage_def leaky_pipeline_def py_index_def)
  have r: "run_stage False leaky_module ?vd = (?vd1, Some (KeyError ''ghost''))"
    by (simp add: run_stage_def run_stage_fun_def leaky_module_def lookup_def)
  have h: "(0::int) \<le> 0 \<and> select_stage leaky_pipeline 0 0 False = Inr (leaky_module, 1, 0, False) \<and>
    run_stage False leaky_module ?vd = (?vd1, Some (KeyError ''ghost''))"
    using s r by simp
  from step_errors_wrapped[where i = 0 and sp = 0 and self = leaky_pipeline and si = 0
      and us = False and m = leaky_module and di = 1 and si' = 0 and us' = False and jm = False
      and vd = ?vd and ?vd1.0 = ?vd1 and e = "KeyError ''ghost''",
      THEN conjunct2, THEN conjunct1, THEN mp, OF h]
  have st: "steps leaky_pipeline False 0 0 0 False ?vd = (?vd1, Some (FunStepFailed 0))"
    by (simp add: step_failed_def)
  have oc: "options_check leaky_pipeline keep_names None None ExNone = Inr (0, 0, ExNone)"
    by (simp add: options_check_def step_check_def n_module_def leaky_pipeline_def)
  have rs: "run_steps leaky_pipeline False False 0 0 ?vd = (?vd1, Some (FunStepFailed 0))"
    using st by (simp add: run_steps_def)
  have fd: "fun_dict keep_names leaky_pipeline ?opts False ?vd = (?vd1, Inl (FunStepFailed 0))"
    using oc rs by (simp add: fun_dict_def eval_dict_def)
  from s r st fd show ?thesis by (intro conjI)
qed

section \<open>Batches\<close>

lemma conf_simps:
  "use_surrogate (conf opts c) = use_surrogate opts"
  "original_space (conf opts c) = original_space opts"
  "start (conf opts c) = Some (fst c)"
  "stop (conf opts c) = Some (fst (snd c))"
  "extract_vars (conf opts c) = snd (snd c)"
  "conf (conf opts c) c = conf opts c"
  by (simp_all add: conf_def)

lemma options_check_conf:
  assumes ok: "options_check self vc (start opts) (stop opts) (extract_vars opts) = Inr c"
    and idem: "idempotent_check vc"
  shows "options_check self vc (start (conf opts c)) (stop (conf opts c))
           (extract_vars (conf opts c)) = Inr c"
proof -
  obtain st sp ex where c: "c = (st, sp, ex)" by (cases c) auto
  from ok c have st: "step_check self (start opts) ''start'' = Inr st"
    and sp: "step_check self (stop opts) ''stop'' = Inr sp" and le: "st \<le> sp"
    by (auto simp: options_check_def split: sum.splits if_splits selector.splits)
  have npos: "n_module self \<noteq> 0"
  proof
    assume z: "n_module self = 0"
    with st sp have "st = 0" "sp = -1"
      by (auto simp: step_check_def split: option.splits if_splits)
    with le show False by simp
  qed
  from st npos have st': "st mod int (n_module self) = st"
    by (auto simp: step_check_def split: option.splits if_splits)
  from sp npos have sp': "sp mod int (n_module self) = sp"
    by (auto simp: step_check_def split: option.splits if_splits)
  have s1: "step_check self (Some st) ''start'' = Inr st"
    using npos st' by (simp add: step_check_def)
  have s2: "step_check self (Some sp) ''stop'' = Inr sp"
    using npos sp' by (simp add: step_check_def)
  have ex: "(case ex of ExNames ns \<Rightarrow> (case vc ns of Inl e \<Rightarrow> Inl e | Inr ns' \<Rightarrow> Inr (st, sp, ExNames ns'))
             | _ \<Rightarrow> Inr (st, sp, ex)) = Inr (st, sp, ex)"
  proof (cases ex)
    case (ExNames ns')
    with ok c obtain ns where "extract_vars opts = ExNames ns" "vc ns = Inr ns'"
      by (auto simp: options_check_def split: sum.splits if_splits selector.splits)
    with idem have "vc ns' = Inr ns'" by (auto simp: idempotent_check_def)
    with ExNames show ?thesis by simp
  qed simp_all
  show ?thesis
    using s1 s2 le ex by (simp add: conf_simps c options_check_def)
qed

lemma fun_float_conf:
  assumes "options_check self vc (start opts) (stop opts) (extract_vars opts) = Inr c"
    and "idempotent_check vc"
  shows "fun_float K vc self (conf opts c) a = fun_float K vc self opts a"
  using assms options_check_conf[OF assms]
  by (cases a) (simp_all add: conf_simps cong: sum.case_cong)

lemma fun_dict_conf:
  assumes "options_check self vc (start opts) (stop opts) (extract_vars opts) = Inr c"
    and "idempotent_check vc"
  shows "fun_dict vc self (conf opts c) cx vd = fun_dict vc self opts cx vd"
    and "fun_and_jac_dict vc self (conf opts c) cx vd = fun_and_jac_dict vc self opts cx vd"
  using assms options_check_conf[OF assms]
  by (simp_all add: fun_dict_def fun_and_jac_dict_def conf_simps)

lemma fun_single_conf:
  assumes "options_check self vc (start opts) (stop opts) (extract_vars opts) = Inr c"
    and "idempotent_check vc"
  shows "fun_single K vc self (conf opts c) s = fun_single K vc self opts s"
  using assms options_check_conf[OF assms] fun_float_conf[OF assms] fun_dict_conf[OF assms]
  by (cases s) (simp_all add: fun_single_def conf_simps cong: sum.case_cong)

lemma fun_and_jac_single_conf:
  assumes "options_check self vc (start opts) (stop opts) (extract_vars opts) = Inr c"
    and "idempotent_check vc"
  shows "fun_and_jac_single K vc self (conf opts c) s = fun_and_jac_single K vc self opts s"
  using assms options_check_conf[OF assms] fun_dict_conf[OF assms]
  by (cases s) (simp_all add: fun_and_jac_single_def fun_and_jac_vec_def conf_simps cong: sum.case_cong)

lemma fun_float_check_fails:
  "options_check self vc (start opts) (stop opts) (extract_vars opts) = Inl e \<Longrightarrow>
   fun_float K vc self opts a = Inl e"
  by (cases a) simp_all

lemma pipeline_fun_float: "pipeline_fun K vc self (InFloat a) opts = fun_float K vc self opts a"
  by (cases a) (simp_all add: pipeline_fun_def split: sum.splits)

lemma pipeline_fun_single:
  "pipeline_fun K vc self (single_input s) opts = fun_single K vc self opts s"
  by (cases s)
    (simp_all add: single_input_def fun_single_def pipeline_fun_float,
     simp_all add: pipeline_fun_def fun_dict_def split: sum.splits)

lemma pipeline_fun_and_jac_single:
  "pipeline_fun_and_jac K vc self (single_input s) opts = fun_and_jac_single K vc self opts s"
  by (cases s)
    (simp_all add: single_input_def fun_and_jac_single_def pipeline_fun_and_jac_def
      fun_and_jac_dict_def fun_and_jac_vec_def split: sum.splits)

lemma all_results_iff:
  "all_results qs = Inr rs \<longleftrightarrow> length rs = length qs \<and> (\<forall>k<length qs. qs ! k = Inr (rs ! k))"
proof (induction qs arbitrary: rs)
  case Nil
  then show ?case by auto
next
  case (Cons q qs)
  show ?case
  proof (cases q)
    case (Inl e)
    then show ?thesis by auto
  next
    case (Inr v)
    show ?thesis
    proof (cases "all_results qs")
      case (Inl e)
      have "\<not> (length rs = length (q # qs) \<and> (\<forall>k<length (q # qs). (q # qs) ! k = Inr (rs ! k)))"
      proof
        assume a: "length rs = length (q # qs) \<and> (\<forall>k<length (q # qs). (q # qs) ! k = Inr (rs ! k))"
        then obtain r rs' where rs: "rs = r # rs'" by (cases rs) auto
        with a have "length rs' = length qs \<and> (\<forall>k<length qs. qs ! k = Inr (rs' ! k))" by auto
        with Cons.IH[of rs'] Inl show False by simp
      qed
      with Inl Inr show ?thesis by simp
    next
      case (Inr vs)
      with Cons.IH[of vs] have vs: "length vs = length qs" "\<forall>k<length qs. qs ! k = Inr (vs ! k)"
        by simp_all
      show ?thesis
      proof
        assume "all_results (q # qs) = Inr rs"
        with Inr \<open>q = Inr v\<close> have "rs = v # vs" by simp
        with vs \<open>q = Inr v\<close> show "length rs = length (q # qs) \<and> (\<forall>k<length (q # qs). (q # qs) ! k = Inr (rs ! k))"
          by (auto simp: nth_Cons split: nat.splits)
      next
        assume a: "length rs = length (q # qs) \<and> (\<forall>k<length (q # qs). (q # qs) ! k = Inr (rs ! k))"
        then obtain r rs' where rs: "rs = r # rs'" by (cases rs) auto
        with a have "q = Inr r" by auto
        moreover from a rs have "length rs' = length qs \<and> (\<forall>k<length qs. qs ! k = Inr (rs' ! k))" by auto
        with Cons.IH[of rs'] have "all_results qs = Inr rs'" by simp
        ultimately show "all_results (q # qs) = Inr rs" using rs by simp
      qed
    qed
  qed
qed

lemma assign_same: "length f = n \<Longrightarrow> assign_vec n f = Inr f"
  "length (rows j) = r \<Longrightarrow> ncols j = c \<Longrightarrow> assign_matrix r c j = Inr j"
  by (simp_all add: assign_vec_def assign_matrix_def assign_list_def)

lemma fill_results_same:
  "length fs = length qs \<Longrightarrow> length js = length qs \<Longrightarrow>
   (\<forall>k<length qs. qs ! k = Inr (RPair (fs ! k) (js ! k)) \<and> length (fs ! k) = n \<and>
                  length (rows (js ! k)) = r \<and> ncols (js ! k) = c) \<Longrightarrow>
   fill_results n r c qs = Inr (fs, js)"
proof (induction qs arbitrary: fs js)
  case Nil
  then show ?case by simp
next
  case (Cons q qs)
  from Cons.prems(1,2) obtain f fs' j js' where fs: "fs = f # fs'" and js: "js = j # js'"
    by (cases fs; cases js) auto
  from Cons.prems(3) fs js have q: "q = Inr (RPair f j)" "length f = n" "length (rows j) = r" "ncols j = c"
    by auto
  have "\<forall>k<length qs. qs ! k = Inr (RPair (fs' ! k) (js' ! k)) \<and> length (fs' ! k) = n \<and>
                  length (rows (js' ! k)) = r \<and> ncols (js' ! k) = c"
  proof (intro allI impI)
    fix k assume "k < length qs"
    with Cons.prems(3) fs js show "qs ! k = Inr (RPair (fs' ! k) (js' ! k)) \<and> length (fs' ! k) = n \<and>
                  length (rows (js' ! k)) = r \<and> ncols (js' ! k) = c"
      by (auto dest: spec[of _ "Suc k"])
  qed
  with Cons.IH[of fs' js'] Cons.prems(1,2) fs js have "fill_results n r c qs = Inr (fs', js')" by simp
  with q fs js show ?case by (simp add: assign_same)
qed


lemma idempotent_keep_names: "idempotent_check keep_names"
  by (auto simp: idempotent_check_def keep_names_def)

lemma single_identity_options:
  assumes "module_list self = [identity_module]"
  shows "options_check self vc None None (ExName n) = Inr (0, 0, ExName n)"
    and "options_check self vc (Some 0) (Some 0) (ExName n) = Inr (0, 0, ExName n)"
  using assms by (simp_all add: options_check_def step_check_def n_module_def)

lemma single_identity_fun:
  assumes ml: "module_list self = [identity_module]"
    and iv: "pipeline_input_vars self = [''__var__'']" and ic: "input_cum self = None"
  shows "seed_fun K self True x = Inr \<lparr>vd_fun = [(''__var__'', x)], vd_jac = []\<rparr>"
    and "snd (eval_dict self False False (0, 0, ExName ''__var__'')
                \<lparr>vd_fun = [(''__var__'', x)], vd_jac = []\<rparr>) = Inr (RValue x)"
proof -
  let ?vd = "\<lparr>vd_fun = [(''__var__'', x)], vd_jac = []\<rparr>"
  show "seed_fun K self True x = Inr ?vd"
    using iv ic by (simp add: seed_fun_def)
  have s0: "select_stage self 0 0 False = Inr (identity_module, 1, 0, False)"
    using ml by (simp add: select_stage_def py_index_def)
  have r0: "run_stage False identity_module ?vd = (?vd, None)"
    by (simp add: run_stage_def run_stage_fun_def identity_module_def lookup_def)
  have st1: "steps self False 0 1 0 False ?vd = (?vd, None)"
    by (simp add: steps.simps[of self False 0 1])
  have st0: "steps self False 0 0 0 False ?vd = (?vd, None)"
    using s0 r0 st1 by (simp add: steps.simps[of self False 0 0])
  show "snd (eval_dict self False False (0, 0, ExName ''__var__'') ?vd) = Inr (RValue x)"
    using st0 by (simp add: eval_dict_def run_steps_def extract_fun_def lookup_def)
qed

lemma single_identity_jac:
  assumes ml: "module_list self = [identity_module]"
    and iv: "pipeline_input_vars self = [''__var__'']" and ic: "input_cum self = None"
  shows "seed_jac K self True x =
           Inr \<lparr>vd_fun = [(''__var__'', x)], vd_jac = [(''__var__'', eye (length x))]\<rparr>"
    and "snd (eval_dict self True False (0, 0, ExName ''__var__'')
           \<lparr>vd_fun = [(''__var__'', x)], vd_jac = [(''__var__'', eye (length x))]\<rparr>) =
         Inr (RPair x (eye (length x)))"
proof -
  let ?vd = "\<lparr>vd_fun = [(''__var__'', x)], vd_jac = [(''__var__'', eye (length x))]\<rparr>"
  show "seed_jac K self True x = Inr ?vd"
    using iv ic by (simp add: seed_jac_def)
  have wf: "wf_matrix (eye (length x))" by (simp add: wf_matrix_def eye_def list_all_iff)
  have nc: "ncols (eye (length x)) = length x" by (simp add: eye_def)
  have de: "dot (eye (length x)) (eye (length x)) = Inr (eye (length x))"
    using dot_eye[OF wf] nc by simp
  have cat: "concatenate0 [eye (length x)] = Inr (eye (length x))"
    by (simp add: concatenate0_def eye_def)
  have s0: "select_stage self 0 0 False = Inr (identity_module, 1, 0, False)"
    using ml by (simp add: select_stage_def py_index_def)
  have r0: "run_stage True identity_module ?vd = (?vd, None)"
    by (simp add: run_stage_def run_stage_jac_def identity_module_def lookup_def cat de)
  have st1: "steps self True 0 1 0 False ?vd = (?vd, None)"
    by (simp add: steps.simps[of self True 0 1])
  have st0: "steps self True 0 0 0 False ?vd = (?vd, None)"
    using s0 r0 st1 by (simp add: steps.simps[of self True 0 0])
  show "snd (eval_dict self True False (0, 0, ExName ''__var__'') ?vd) = Inr (RPair x (eye (length x)))"
    using st0 by (simp add: eval_dict_def run_steps_def extract_jac_def vd_get_pair_def lookup_def)
qed

lemma identity_pipeline_1:
  "module_list (identity_pipeline 1) = [identity_module]"
  "pipeline_input_vars (identity_pipeline 1) = [''__var__'']"
  "input_cum (identity_pipeline 1) = None"
  by (simp_all add: identity_pipeline_def)


lemma options_check_selector:
  assumes "options_check self vc (start opts) (stop opts) (extract_vars opts) = Inr c"
  shows "(snd (snd c) = ExName n) = (extract_vars opts = ExName n)"
  using assms
  by (cases "extract_vars opts")
    (auto simp: options_check_def split: sum.splits if_splits)

lemma batch_unnamed:
  assumes ok: "options_check self vc (start opts) (stop opts) (extract_vars opts) = Inr c"
    and idem: "idempotent_check vc"
    and un: "\<forall>n. extract_vars opts \<noteq> ExName n"
  shows "fun_and_jac_batch K vc self (conf opts c) sh es =
           (case all_results (map (fun_and_jac_single K vc self opts) es) of
              Inl e \<Rightarrow> Inl e | Inr rs \<Rightarrow> Inr (RObjects sh rs))"
proof -
  from un options_check_selector[OF ok] have "\<forall>n. snd (snd c) \<noteq> ExName n" by simp
  then have "fun_and_jac_batch K vc self (conf opts c) sh es =
           (case all_results (map (fun_and_jac_single K vc self (conf opts c)) es) of
              Inl e \<Rightarrow> Inl e | Inr rs \<Rightarrow> Inr (RObjects sh rs))"
    by (cases "snd (snd c)") (simp_all add: fun_and_jac_batch_def conf_simps)
  also have "map (fun_and_jac_single K vc self (conf opts c)) es = map (fun_and_jac_single K vc self opts) es"
    by (simp add: fun_and_jac_single_conf[OF ok idem])
  finally show ?thesis .
qed

lemma batch_named:
  assumes ok: "options_check self vc (start opts) (stop opts) (extract_vars opts) = Inr c"
    and idem: "idempotent_check vc"
    and nm: "extract_vars opts = ExName n"
    and ne: "es \<noteq> []" and lf: "length fs = length es" and lj: "length js = length es"
    and el: "\<forall>k<length es. fun_and_jac_single K vc self opts (es ! k) = Inr (RPair (fs ! k) (js ! k)) \<and>
                fits_slot (fs ! 0) (js ! 0) (fs ! k) (js ! k)"
  shows "fun_and_jac_batch K vc self (conf opts c) sh es = Inr (RStacked sh fs js)"
proof -
  from ne lf lj obtain e0 rest f0 fs' j0 js' where
    es: "es = e0 # rest" and fs: "fs = f0 # fs'" and js: "js = j0 # js'"
    by (cases es; cases fs; cases js) auto
  from nm options_check_selector[OF ok] have sel: "snd (snd c) = ExName n" by simp
  from el es fs js have h0: "fun_and_jac_single K vc self opts e0 = Inr (RPair f0 j0)" by auto
  have "\<forall>k<length (map (fun_and_jac_single K vc self opts) rest).
          map (fun_and_jac_single K vc self opts) rest ! k = Inr (RPair (fs' ! k) (js' ! k)) \<and>
          length (fs' ! k) = length f0 \<and> length (rows (js' ! k)) = length (rows j0) \<and>
          ncols (js' ! k) = ncols j0"
  proof (intro allI impI)
    fix k assume "k < length (map (fun_and_jac_single K vc self opts) rest)"
    then have "Suc k < length es" using es by simp
    with el have "fun_and_jac_single K vc self opts (es ! Suc k) = Inr (RPair (fs ! Suc k) (js ! Suc k)) \<and>
                fits_slot (fs ! 0) (js ! 0) (fs ! Suc k) (js ! Suc k)" by blast
    with es fs js \<open>k < length (map (fun_and_jac_single K vc self opts) rest)\<close>
    show "map (fun_and_jac_single K vc self opts) rest ! k = Inr (RPair (fs' ! k) (js' ! k)) \<and>
          length (fs' ! k) = length f0 \<and> length (rows (js' ! k)) = length (rows j0) \<and>
          ncols (js' ! k) = ncols j0"
      by (simp add: fits_slot_def)
  qed
  with lf lj es fs js
  have fr: "fill_results (length f0) (length (rows j0)) (ncols j0)
              (map (fun_and_jac_single K vc self opts) rest) = Inr (fs', js')"
    by (intro fill_results_same) simp_all
  have m: "map (fun_and_jac_single K vc self (conf opts c)) rest = map (fun_and_jac_single K vc self opts) rest"
    by (simp add: fun_and_jac_single_conf[OF ok idem])
  show ?thesis
    unfolding fun_and_jac_batch_def
    by (simp add: conf_simps sel es fs js fun_and_jac_single_conf[OF ok idem] h0 m fr)
qed


text \<open>
  C4 as stated: the stacked result of a batch equals, element for element, the results
  of the independent evaluations. With one name selected, \<^verbatim>\<open>fun_and_jac\<close> allocates
  \<^verbatim>\<open>result_f\<close> and \<^verbatim>\<open>result_j\<close> with the shapes of the first element's value and
  Jacobian and assigns the later ones into them. On the identity pipeline, the object
  array of the vectors \<open>(1, 2)\<close> and \<open>(5)\<close> gives for the second element the value
  \<open>(5, 5)\<close> and a Jacobian of four ones, where its own evaluation gives \<open>(5)\<close> and the
  1 by 1 identity.
\<close>

theorem batch_shapes_counterexample:
  "pipeline_fun_and_jac unit_kernels keep_names (identity_pipeline 1)
       (InObjects [SVec [1, 2], SVec [5]])
       \<lparr>use_surrogate = False, original_space = True, start = None, stop = None,
        extract_vars = ExName ''__var__''\<rparr> =
     Inr (RStacked [2] [[1, 2], [5, 5]]
            [\<lparr>ncols = 2, rows = [[1, 0], [0, 1]]\<rparr>, \<lparr>ncols = 2, rows = [[1, 1], [1, 1]]\<rparr>]) \<and>
   pipeline_fun_and_jac unit_kernels keep_names (identity_pipeline 1) (InFloat (FVec [5]))
       \<lparr>use_surrogate = False, original_space = True, start = None, stop = None,
        extract_vars = ExName ''__var__''\<rparr> =
     Inr (RPair [5] \<lparr>ncols = 1, rows = [[1]]\<rparr>)"
proof -
  define P where "P = identity_pipeline 1"
  have P: "module_list P = [identity_module]" "pipeline_input_vars P = [''__var__'']"
    "input_cum P = None"
    unfolding P_def by (rule identity_pipeline_1)+
  let ?o = "\<lparr>use_surrogate = False, original_space = True, start = None, stop = None,
        extract_vars = ExName ''__var__''\<rparr>"
  let ?oc = "\<lparr>use_surrogate = False, original_space = True, start = Some 0, stop = Some 0,
        extract_vars = ExName ''__var__''\<rparr>"
  have cf: "conf ?o (0, 0, ExName ''__var__'') = ?oc" by (simp add: conf_def)
  have e2: "eye (length [1::real, 2]) = \<lparr>ncols = 2, rows = [[1, 0], [0, 1]]\<rparr>"
    by (simp add: eye_def upt_rec)
  have e1: "eye (length [5::real]) = \<lparr>ncols = 1, rows = [[1]]\<rparr>"
    by (simp add: eye_def)
  have v: "fun_and_jac_vec unit_kernels keep_names P ?oc x = Inr (RPair x (eye (length x)))" for x
    by (simp add: fun_and_jac_vec_def single_identity_options[OF P(1)] single_identity_jac[OF P])
  have v0: "fun_and_jac_vec unit_kernels keep_names P ?o x = Inr (RPair x (eye (length x)))" for x
    by (simp add: fun_and_jac_vec_def single_identity_options[OF P(1)] single_identity_jac[OF P])
  have a1: "assign_vec 2 [5] = Inr [5, 5]"
    by (simp add: assign_vec_def assign_list_def numeral_2_eq_2)
  have a2: "assign_matrix 2 2 \<lparr>ncols = 1, rows = [[1]]\<rparr> = Inr \<lparr>ncols = 2, rows = [[1, 1], [1, 1]]\<rparr>"
    by (simp add: assign_matrix_def assign_list_def numeral_2_eq_2)
  have s1: "fun_and_jac_single unit_kernels keep_names P ?oc (SVec [1, 2]) =
      Inr (RPair [1, 2] \<lparr>ncols = 2, rows = [[1, 0], [0, 1]]\<rparr>)"
    using v[of "[1, 2]"] e2 by (simp add: fun_and_jac_single_def)
  have s2: "fun_and_jac_single unit_kernels keep_names P ?oc (SVec [5]) =
      Inr (RPair [5] \<lparr>ncols = 1, rows = [[1]]\<rparr>)"
    using v[of "[5]"] e1 by (simp add: fun_and_jac_single_def)
  have f: "fill_results 2 2 2 [Inr (RPair [5] \<lparr>ncols = 1, rows = [[1]]\<rparr>)] =
      Inr ([[5, 5]], [\<lparr>ncols = 2, rows = [[1, 1], [1, 1]]\<rparr>])"
    by (simp add: assign_vec_def assign_matrix_def assign_list_def numeral_2_eq_2)
  have b: "fun_and_jac_batch unit_kernels keep_names P ?oc [Suc (Suc 0)] [SVec [1, 2], SVec [5]] =
     Inr (RStacked [2] [[1, 2], [5, 5]]
            [\<lparr>ncols = 2, rows = [[1, 0], [0, 1]]\<rparr>, \<lparr>ncols = 2, rows = [[1, 1], [1, 1]]\<rparr>])"
    unfolding fun_and_jac_batch_def
    by (simp add: s1 s2 assign_vec_def assign_matrix_def assign_list_def numeral_2_eq_2)
  have p1: "pipeline_fun_and_jac unit_kernels keep_names P (InObjects [SVec [1, 2], SVec [5]]) ?o =
     Inr (RStacked [2] [[1, 2], [5, 5]]
            [\<lparr>ncols = 2, rows = [[1, 0], [0, 1]]\<rparr>, \<lparr>ncols = 2, rows = [[1, 1], [1, 1]]\<rparr>])"
    using b by (simp add: pipeline_fun_and_jac_def single_identity_options[OF P(1)] cf)
  have p2: "pipeline_fun_and_jac unit_kernels keep_names P (InFloat (FVec [5])) ?o =
     Inr (RPair [5] \<lparr>ncols = 1, rows = [[1]]\<rparr>)"
    using v0[of "[5]"] e1 by (simp add: pipeline_fun_and_jac_def single_identity_options[OF P(1)])
  from p1 p2 show ?thesis unfolding P_def by (intro conjI)
qed

text \<open>
  C4, amended. \<^verbatim>\<open>fun\<close> and \<^verbatim>\<open>fun_and_jac\<close> evaluate every element of a batch (the
  sub-arrays of a float array of more than one dimension, the elements of a 1-d object
  array) with the options of the call in their checked form, which evaluates as the given
  options do. For \<^verbatim>\<open>fun\<close>, and for \<^verbatim>\<open>fun_and_jac\<close> on a batch that is not empty when
  the selector is not one name, the call fails with the error of the first failing
  element, and otherwise its result holds, element for element, the results of the
  independent single-input evaluations with the same options. For \<^verbatim>\<open>fun_and_jac\<close> with
  one name selected, on a batch that is not empty, the stacked values and Jacobians are
  those of the independent evaluations provided that the value and the Jacobian of every
  element have the shapes of the first element's.
\<close>

theorem batch_elementwise:
  assumes ok: "options_check self vc (start opts) (stop opts) (extract_vars opts) = Inr c"
    and idem: "idempotent_check vc"
  shows
   "pipeline_fun K vc self (InFloat (FStack xs)) opts =
      (case all_results (map (\<lambda>a. pipeline_fun K vc self (InFloat a) opts) xs) of
         Inl e \<Rightarrow> Inl e | Inr rs \<Rightarrow> Inr (RArray rs)) \<and>
    pipeline_fun K vc self (InObjects es) opts =
      (case all_results (map (\<lambda>s. pipeline_fun K vc self (single_input s) opts) es) of
         Inl e \<Rightarrow> Inl e | Inr rs \<Rightarrow> Inr (RArray rs)) \<and>
    ((\<forall>n. extract_vars opts \<noteq> ExName n) \<longrightarrow>
       pipeline_fun_and_jac K vc self (InObjects es) opts =
         (case all_results (map (\<lambda>s. pipeline_fun_and_jac K vc self (single_input s) opts) es) of
            Inl e \<Rightarrow> Inl e | Inr rs \<Rightarrow> Inr (RObjects [length es] rs))) \<and>
    ((\<forall>n. extract_vars opts \<noteq> ExName n) \<and> leaves (FStack xs) \<noteq> [] \<longrightarrow>
       pipeline_fun_and_jac K vc self (InFloat (FStack xs)) opts =
         (case all_results (map (\<lambda>x. pipeline_fun_and_jac K vc self (InFloat (FVec x)) opts)
                                (leaves (FStack xs))) of
            Inl e \<Rightarrow> Inl e | Inr rs \<Rightarrow> Inr (RObjects (lead_shape (FStack xs)) rs))) \<and>
    (extract_vars opts = ExName n \<and> es \<noteq> [] \<and> length fs = length es \<and> length js = length es \<and>
     (\<forall>k<length es. pipeline_fun_and_jac K vc self (single_input (es ! k)) opts =
                       Inr (RPair (fs ! k) (js ! k)) \<and>
                     fits_slot (fs ! 0) (js ! 0) (fs ! k) (js ! k)) \<longrightarrow>
       pipeline_fun_and_jac K vc self (InObjects es) opts = Inr (RStacked [length es] fs js)) \<and>
    (extract_vars opts = ExName n \<and> leaves (FStack xs) \<noteq> [] \<and>
     length fs = length (leaves (FStack xs)) \<and> length js = length (leaves (FStack xs)) \<and>
     (\<forall>k<length (leaves (FStack xs)).
         pipeline_fun_and_jac K vc self (InFloat (FVec (leaves (FStack xs) ! k))) opts =
           Inr (RPair (fs ! k) (js ! k)) \<and>
         fits_slot (fs ! 0) (js ! 0) (fs ! k) (js ! k)) \<longrightarrow>
       pipeline_fun_and_jac K vc self (InFloat (FStack xs)) opts =
         Inr (RStacked (lead_shape (FStack xs)) fs js)) \<and>
    (all_results qs = Inr rs \<longleftrightarrow>
       length rs = length qs \<and> (\<forall>k<length qs. qs ! k = Inr (rs ! k)))"
proof (intro conjI impI)
  show "pipeline_fun K vc self (InFloat (FStack xs)) opts =
      (case all_results (map (\<lambda>a. pipeline_fun K vc self (InFloat a) opts) xs) of
         Inl e \<Rightarrow> Inl e | Inr rs \<Rightarrow> Inr (RArray rs))"
  proof -
    have ff: "fun_float K vc self (conf opts c) = fun_float K vc self opts"
      by (rule ext) (rule fun_float_conf[OF ok idem])
    have pf: "(\<lambda>a. pipeline_fun K vc self (InFloat a) opts) = fun_float K vc self opts"
      by (rule ext) (rule pipeline_fun_float)
    show ?thesis
      using ok by (simp only: pf pipeline_fun_float fun_float.simps ff sum.case)
  qed
  show "pipeline_fun K vc self (InObjects es) opts =
      (case all_results (map (\<lambda>s. pipeline_fun K vc self (single_input s) opts) es) of
         Inl e \<Rightarrow> Inl e | Inr rs \<Rightarrow> Inr (RArray rs))"
  proof -
    have fs: "fun_single K vc self (conf opts c) = fun_single K vc self opts"
      by (rule ext) (rule fun_single_conf[OF ok idem])
    have ps: "(\<lambda>s. pipeline_fun K vc self (single_input s) opts) = fun_single K vc self opts"
      by (rule ext) (rule pipeline_fun_single)
    have "pipeline_fun K vc self (InObjects es) opts =
      (case all_results (map (fun_single K vc self (conf opts c)) es) of
         Inl e \<Rightarrow> Inl e | Inr rs \<Rightarrow> Inr (RArray rs))"
      using ok by (simp add: pipeline_fun_def)
    then show ?thesis by (simp only: ps fs)
  qed
  show "all_results qs = Inr rs \<longleftrightarrow>
       length rs = length qs \<and> (\<forall>k<length qs. qs ! k = Inr (rs ! k))"
    by (rule all_results_iff)
next
  assume un: "\<forall>n. extract_vars opts \<noteq> ExName n"
  show "pipeline_fun_and_jac K vc self (InObjects es) opts =
         (case all_results (map (\<lambda>s. pipeline_fun_and_jac K vc self (single_input s) opts) es) of
            Inl e \<Rightarrow> Inl e | Inr rs \<Rightarrow> Inr (RObjects [length es] rs))"
  proof -
    have pj: "(\<lambda>s. pipeline_fun_and_jac K vc self (single_input s) opts) =
              fun_and_jac_single K vc self opts"
      by (rule ext) (rule pipeline_fun_and_jac_single)
    have "pipeline_fun_and_jac K vc self (InObjects es) opts =
          fun_and_jac_batch K vc self (conf opts c) [length es] es"
      using ok by (simp add: pipeline_fun_and_jac_def)
    also have "\<dots> = (case all_results (map (fun_and_jac_single K vc self opts) es) of
              Inl e \<Rightarrow> Inl e | Inr rs \<Rightarrow> Inr (RObjects [length es] rs))"
      by (rule batch_unnamed[OF ok idem un])
    finally show ?thesis by (simp only: pj)
  qed
next
  assume a: "(\<forall>n. extract_vars opts \<noteq> ExName n) \<and> leaves (FStack xs) \<noteq> []"
  then have un: "\<forall>n. extract_vars opts \<noteq> ExName n" and ne: "leaves (FStack xs) \<noteq> []" by simp_all
  have sv: "fun_and_jac_single K vc self opts (SVec x) =
            pipeline_fun_and_jac K vc self (InFloat (FVec x)) opts" for x
    using pipeline_fun_and_jac_single[of K vc self "SVec x" opts] by (simp add: single_input_def)
  have m: "map (fun_and_jac_single K vc self opts) (map SVec (leaves (FStack xs))) =
           map (\<lambda>x. pipeline_fun_and_jac K vc self (InFloat (FVec x)) opts) (leaves (FStack xs))"
    unfolding map_map comp_def by (simp only: sv)
  from ne have "pipeline_fun_and_jac K vc self (InFloat (FStack xs)) opts =
      fun_and_jac_batch K vc self (conf opts c) (lead_shape (FStack xs)) (map SVec (leaves (FStack xs)))"
    using ok by (simp add: pipeline_fun_and_jac_def del: leaves.simps lead_shape.simps)
  also have "\<dots> = (case all_results (map (fun_and_jac_single K vc self opts) (map SVec (leaves (FStack xs)))) of
              Inl e \<Rightarrow> Inl e | Inr rs \<Rightarrow> Inr (RObjects (lead_shape (FStack xs)) rs))"
    by (rule batch_unnamed[OF ok idem un])
  finally show "pipeline_fun_and_jac K vc self (InFloat (FStack xs)) opts =
         (case all_results (map (\<lambda>x. pipeline_fun_and_jac K vc self (InFloat (FVec x)) opts)
                                (leaves (FStack xs))) of
            Inl e \<Rightarrow> Inl e | Inr rs \<Rightarrow> Inr (RObjects (lead_shape (FStack xs)) rs))"
    by (simp only: m)
next
  assume a: "extract_vars opts = ExName n \<and> es \<noteq> [] \<and> length fs = length es \<and> length js = length es \<and>
     (\<forall>k<length es. pipeline_fun_and_jac K vc self (single_input (es ! k)) opts =
                       Inr (RPair (fs ! k) (js ! k)) \<and>
                     fits_slot (fs ! 0) (js ! 0) (fs ! k) (js ! k))"
  then have el: "\<forall>k<length es. fun_and_jac_single K vc self opts (es ! k) = Inr (RPair (fs ! k) (js ! k)) \<and>
                fits_slot (fs ! 0) (js ! 0) (fs ! k) (js ! k)"
    by (simp add: pipeline_fun_and_jac_single)
  from a have "fun_and_jac_batch K vc self (conf opts c) [length es] es = Inr (RStacked [length es] fs js)"
    by (intro batch_named[OF ok idem _ _ _ _ el]) simp_all
  then show "pipeline_fun_and_jac K vc self (InObjects es) opts = Inr (RStacked [length es] fs js)"
    using ok by (simp add: pipeline_fun_and_jac_def)
next
  let ?ls = "leaves (FStack xs)"
  assume a: "extract_vars opts = ExName n \<and> ?ls \<noteq> [] \<and>
     length fs = length ?ls \<and> length js = length ?ls \<and>
     (\<forall>k<length ?ls.
         pipeline_fun_and_jac K vc self (InFloat (FVec (?ls ! k))) opts =
           Inr (RPair (fs ! k) (js ! k)) \<and>
         fits_slot (fs ! 0) (js ! 0) (fs ! k) (js ! k))"
  have sv: "fun_and_jac_single K vc self opts (SVec x) =
            pipeline_fun_and_jac K vc self (InFloat (FVec x)) opts" for x
    using pipeline_fun_and_jac_single[of K vc self "SVec x" opts] by (simp add: single_input_def)
  from a have el: "\<forall>k<length (map SVec ?ls).
      fun_and_jac_single K vc self opts (map SVec ?ls ! k) = Inr (RPair (fs ! k) (js ! k)) \<and>
      fits_slot (fs ! 0) (js ! 0) (fs ! k) (js ! k)"
    by (simp add: sv del: leaves.simps)
  from a have "fun_and_jac_batch K vc self (conf opts c) (lead_shape (FStack xs)) (map SVec ?ls) =
      Inr (RStacked (lead_shape (FStack xs)) fs js)"
    by (intro batch_named[OF ok idem _ _ _ _ el]) (simp_all del: leaves.simps)
  with a show "pipeline_fun_and_jac K vc self (InFloat (FStack xs)) opts =
         Inr (RStacked (lead_shape (FStack xs)) fs js)"
    using ok by (simp add: pipeline_fun_and_jac_def del: leaves.simps lead_shape.simps)
qed

theorem batch_elementwise_witness:
  "options_check (identity_pipeline 1) keep_names None None (ExName ''__var__'') =
     Inr (0, 0, ExName ''__var__'') \<and>
   idempotent_check keep_names \<and>
   pipeline_fun unit_kernels keep_names (identity_pipeline 1)
       (InFloat (FStack [FVec [1, 2], FVec [3, 4]]))
       \<lparr>use_surrogate = False, original_space = True, start = None, stop = None,
        extract_vars = ExName ''__var__''\<rparr> =
     Inr (RArray [RValue [1, 2], RValue [3, 4]]) \<and>
   pipeline_fun unit_kernels keep_names (identity_pipeline 1) (InFloat (FVec [3, 4]))
       \<lparr>use_surrogate = False, original_space = True, start = None, stop = None,
        extract_vars = ExName ''__var__''\<rparr> =
     Inr (RValue [3, 4])"
proof -
  define P where "P = identity_pipeline 1"
  have P: "module_list P = [identity_module]" "pipeline_input_vars P = [''__var__'']"
    "input_cum P = None"
    unfolding P_def by (rule identity_pipeline_1)+
  let ?o = "\<lparr>use_surrogate = False, original_space = True, start = None, stop = None,
        extract_vars = ExName ''__var__''\<rparr>"
  have oc: "options_check P keep_names (start ?o) (stop ?o) (extract_vars ?o) =
     Inr (0, 0, ExName ''__var__'')"
    by (simp add: single_identity_options[OF P(1)])
  have v: "pipeline_fun unit_kernels keep_names P (InFloat (FVec x)) ?o = Inr (RValue x)" for x
    by (simp add: pipeline_fun_float single_identity_options[OF P(1)] single_identity_fun[OF P])
  from batch_elementwise[OF oc idempotent_keep_names, of unit_kernels "[FVec [1, 2], FVec [3, 4]]",
      THEN conjunct1]
  have b: "pipeline_fun unit_kernels keep_names P (InFloat (FStack [FVec [1, 2], FVec [3, 4]])) ?o =
     Inr (RArray [RValue [1, 2], RValue [3, 4]])"
    by (simp add: v)
  from oc idempotent_keep_names b v[of "[3, 4]"] show ?thesis
    unfolding P_def by simp
qed

section \<open>The decay penalty of the density\<close>

lemma bix_id: "i < a \<Longrightarrow> bix a i = i"
  by (simp add: bix_def)

lemma sub_vec_same:
  assumes "length x = length m"
  shows "sub_vec x m = Inr (map2 (-) x m)"
proof -
  have "map (\<lambda>i. x ! bix (length x) i - m ! bix (length m) i) [0..<length m] = map2 (-) x m"
    using assms by (intro nth_equalityI) (simp_all add: bix_id)
  then show ?thesis using assms by (simp add: sub_vec_def bdim_def)
qed

lemma mahalanobis_square:
  assumes "length (rows H) = length d" "ncols H = length d"
  shows "mahalanobis d H = Inr (quad_form H d)"
proof -
  let ?n = "length d"
  have inner: "\<And>i. i < ?n \<Longrightarrow>
      (\<Sum>j\<leftarrow>[0..<?n]. d ! bix ?n i * (rows H ! bix ?n i) ! bix ?n j * d ! bix ?n j) =
      (\<Sum>j\<leftarrow>[0..<?n]. d ! i * (rows H ! i) ! j * d ! j)"
    by (rule arg_cong[where f = sum_list]) (simp add: bix_id)
  have "(\<Sum>i\<leftarrow>[0..<?n]. \<Sum>j\<leftarrow>[0..<?n]. d ! bix ?n i * (rows H ! bix ?n i) ! bix ?n j * d ! bix ?n j) =
        quad_form H d"
    unfolding quad_form_def
    by (rule arg_cong[where f = sum_list]) (simp add: inner)
  then show ?thesis using assms by (simp add: mahalanobis_def bdim_def)
qed

lemma decay_terms_eq:
  assumes "(if orig then Inr x else returned (to_original K self (as_1d x) OutTrue)) = Inr x_o"
    and "mu self = Some m" and "hess self = Some H"
    and "length x_o = length m" and "length (rows H) = length m" and "ncols H = length m"
  shows "decay_terms K self x orig = Inr (map2 (-) x_o m, quad_form H (map2 (-) x_o m))"
proof -
  have l: "length (map2 (-) x_o m) = length m" using assms(4) by simp
  have s: "sub_vec x_o m = Inr (map2 (-) x_o m)" by (rule sub_vec_same[OF assms(4)])
  have q: "mahalanobis (map2 (-) x_o m) H = Inr (quad_form H (map2 (-) x_o m))"
    by (rule mahalanobis_square) (simp_all only: l assms(5,6))
  show ?thesis
    unfolding decay_terms_def assms(1) by (simp only: assms(2,3) s q sum.case option.case)
qed

lemma inplace_same: "length b = length a \<Longrightarrow> inplace f a b = Inr (map2 f a b)"
  by (simp add: inplace_def assign_list_def)

lemma logp_decay_eq:
  assumes "decay_terms K self x orig = Inr (d, b2)" and "gamma self = Some g" and "alpha2 self = Some a2"
  shows "logp_decay K self x orig l = Inr (l - decay_penalty g b2 a2)"
  using assms by (simp add: logp_decay_def)

lemma grad_decay_eq:
  assumes "decay_terms K self x orig = Inr (d, b2)" and "gamma self = Some g" and "alpha2 self = Some a2"
    and "hess self = Some H" and "length d = length (rows H)" and "length gr = ncols H"
  shows "grad_decay K self x orig gr = Inr (map2 (-) gr (decay_grad_term g (dot_row d H) b2 a2))"
proof -
  have "length (decay_grad_term g (dot_row d H) b2 a2) = length gr"
    using assms(6) by (simp add: decay_grad_term_def dot_row_def)
  then show ?thesis
    using assms by (simp add: grad_decay_def vec_dot_def inplace_same)
qed

lemma decay_penalty_zero: "b2 \<le> a2 \<Longrightarrow> decay_penalty g b2 a2 = 0"
  by (simp add: decay_penalty_def max_def)

lemma decay_penalty_within: 
  assumes "0 \<le> a" "sqrt b2 \<le> a"
  shows "decay_penalty g b2 (a ^ 2) = 0"
proof -
  have "b2 \<le> a ^ 2" using assms
    by (metis real_sqrt_le_iff real_sqrt_abs abs_of_nonneg)
  then show ?thesis by (rule decay_penalty_zero)
qed

lemma decay_penalty_pos: "0 < g \<Longrightarrow> a2 < b2 \<Longrightarrow> 0 < decay_penalty g b2 a2"
  by (simp add: decay_penalty_def max_def)

lemma decay_penalty_strict: "0 < g \<Longrightarrow> a2 < b2 \<Longrightarrow> b2 < b2' \<Longrightarrow> decay_penalty g b2 a2 < decay_penalty g b2' a2"
  by (simp add: decay_penalty_def max_def)

lemma decay_penalty_mono: "0 \<le> g \<Longrightarrow> b2 \<le> b2' \<Longrightarrow> decay_penalty g b2 a2 \<le> decay_penalty g b2' a2"
  by (auto simp add: decay_penalty_def max_def intro: mult_left_mono)

lemma dot_row_symmetric:
  assumes "symmetric H" and "length (rows H) = length d" and "ncols H = length d"
  shows "dot_row d H = mat_vec H d"
proof -
  let ?n = "length d"
  have e: "\<And>i. i < ?n \<Longrightarrow>
     (\<Sum>l\<leftarrow>[0..<?n]. d ! l * (rows H ! l) ! i) = (\<Sum>j\<leftarrow>[0..<?n]. (rows H ! i) ! j * d ! j)"
  proof -
    fix i assume i: "i < ?n"
    show "(\<Sum>l\<leftarrow>[0..<?n]. d ! l * (rows H ! l) ! i) = (\<Sum>j\<leftarrow>[0..<?n]. (rows H ! i) ! j * d ! j)"
      using assms(1) i unfolding symmetric_def assms(2)
      by (intro arg_cong[where f = sum_list]) (simp add: mult.commute)
  qed
  have "mat_vec H d = map (\<lambda>i. \<Sum>j\<leftarrow>[0..<?n]. (rows H ! i) ! j * d ! j) [0..<?n]"
    unfolding mat_vec_def using assms(2)
    by (intro nth_equalityI) simp_all
  moreover have "dot_row d H = map (\<lambda>i. \<Sum>l\<leftarrow>[0..<?n]. d ! l * (rows H ! l) ! i) [0..<?n]"
    by (simp add: dot_row_def assms)
  ultimately show ?thesis using e by simp
qed

lemma decay_density_fields:
  "module_list decay_density = [identity_module]"
  "surrogate_list decay_density = [identity_surrogate 0 1]"
  "surrogate_recipe decay_density = [(0, 0, 1)]"
  "pipeline_input_vars decay_density = [''__var__'']"
  "input_cum decay_density = None"
  "density_name decay_density = ''__var__''"
  "use_decay decay_density = True"
  "mu decay_density = Some [0, 0]"
  "hess decay_density = Some \<lparr>ncols = 2, rows = [[2, 1], [1, 2]]\<rparr>"
  "alpha2 decay_density = Some 1"
  "gamma decay_density = Some (1 / 10)"
  by (simp_all add: decay_density_def)

lemma surrogate_step_fun:
  assumes ml: "module_list self = [identity_module]"
    and sl: "surrogate_list self = [identity_surrogate 0 1]"
    and rc: "surrogate_recipe self = [(0, 0, 1)]"
    and iv: "pipeline_input_vars self = [''__var__'']" and ic: "input_cum self = None"
  shows "pipeline_fun K vc self (InFloat (FVec x))
           \<lparr>use_surrogate = True, original_space = True, start = None, stop = None,
            extract_vars = ExName ''__var__''\<rparr> = Inr (RValue x)"
proof -
  let ?vd = "\<lparr>vd_fun = [(''__var__'', x)], vd_jac = []\<rparr>"
  have oc: "options_check self vc None None (ExName ''__var__'') = Inr (0, 0, ExName ''__var__'')"
    using ml by (simp add: options_check_def step_check_def n_module_def)
  have seed: "seed_fun K self True x = Inr ?vd"
    using iv ic by (simp add: seed_fun_def)
  have hs: "has_surrogate self" using sl by (simp add: has_surrogate_def n_surrogate_def)
  have ss: "searchsorted (map (\<lambda>r. fst (snd r)) (surrogate_recipe self)) 0 = 0"
    unfolding rc by (simp add: searchsorted_def searchsorted_from.simps[of _ _ 0])
  have s0: "select_stage self 0 0 True = Inr (identity_module, 1, 0, False)"
    using hs sl rc by (simp add: select_stage_def py_index_def n_surrogate_def identity_surrogate_def)
  have r0: "run_stage False identity_module ?vd = (?vd, None)"
    by (simp add: run_stage_def run_stage_fun_def identity_module_def lookup_def)
  have st1: "steps self False 0 1 0 False ?vd = (?vd, None)"
    by (simp add: steps.simps[of self False 0 1])
  have st0: "steps self False 0 0 0 True ?vd = (?vd, None)"
    using s0 r0 st1 by (simp add: steps.simps[of self False 0 0])
  have rs: "run_steps self False True 0 0 ?vd = (?vd, None)"
    using hs ss st0 sl by (simp add: run_steps_def n_surrogate_def)
  have ev: "snd (eval_dict self False True (0, 0, ExName ''__var__'') ?vd) = Inr (RValue x)"
    using rs by (simp add: eval_dict_def extract_fun_def lookup_def)
  show ?thesis
    using oc seed ev by (simp add: pipeline_fun_float)
qed

lemma surrogate_step_jac:
  assumes ml: "module_list self = [identity_module]"
    and sl: "surrogate_list self = [identity_surrogate 0 1]"
    and rc: "surrogate_recipe self = [(0, 0, 1)]"
    and iv: "pipeline_input_vars self = [''__var__'']" and ic: "input_cum self = None"
  shows "pipeline_fun_and_jac K vc self (InFloat (FVec x))
           \<lparr>use_surrogate = True, original_space = True, start = None, stop = None,
            extract_vars = ExName ''__var__''\<rparr> = Inr (RPair x (eye (length x)))"
proof -
  let ?vd = "\<lparr>vd_fun = [(''__var__'', x)], vd_jac = [(''__var__'', eye (length x))]\<rparr>"
  have oc: "options_check self vc None None (ExName ''__var__'') = Inr (0, 0, ExName ''__var__'')"
    using ml by (simp add: options_check_def step_check_def n_module_def)
  have seed: "seed_jac K self True x = Inr ?vd"
    using iv ic by (simp add: seed_jac_def)
  have wf: "wf_matrix (eye (length x))" by (simp add: wf_matrix_def eye_def list_all_iff)
  have nc: "ncols (eye (length x)) = length x" by (simp add: eye_def)
  have de: "dot (eye (length x)) (eye (length x)) = Inr (eye (length x))"
    using dot_eye[OF wf] nc by simp
  have cat: "concatenate0 [eye (length x)] = Inr (eye (length x))"
    by (simp add: concatenate0_def eye_def)
  have hs: "has_surrogate self" using sl by (simp add: has_surrogate_def n_surrogate_def)
  have ss: "searchsorted (map (\<lambda>r. fst (snd r)) (surrogate_recipe self)) 0 = 0"
    unfolding rc by (simp add: searchsorted_def searchsorted_from.simps[of _ _ 0])
  have s0: "select_stage self 0 0 True = Inr (identity_module, 1, 0, False)"
    using hs sl rc by (simp add: select_stage_def py_index_def n_surrogate_def identity_surrogate_def)
  have r0: "run_stage True identity_module ?vd = (?vd, None)"
    by (simp add: run_stage_def run_stage_jac_def identity_module_def lookup_def cat de)
  have st1: "steps self True 0 1 0 False ?vd = (?vd, None)"
    by (simp add: steps.simps[of self True 0 1])
  have st0: "steps self True 0 0 0 True ?vd = (?vd, None)"
    using s0 r0 st1 by (simp add: steps.simps[of self True 0 0])
  have rs: "run_steps self True True 0 0 ?vd = (?vd, None)"
    using hs ss st0 sl by (simp add: run_steps_def n_surrogate_def)
  have ev: "snd (eval_dict self True True (0, 0, ExName ''__var__'') ?vd) = Inr (RPair x (eye (length x)))"
    using rs by (simp add: eval_dict_def extract_jac_def vd_get_pair_def lookup_def)
  show ?thesis
    using oc seed ev by (simp add: pipeline_fun_and_jac_def fun_and_jac_vec_def)
qed

text \<open>
  C7. With \<^verbatim>\<open>use_decay\<close> set and \<^verbatim>\<open>use_surrogate\<close> passed as true, \<^verbatim>\<open>Density.logp\<close> and
  the first component of \<^verbatim>\<open>logp_and_grad\<close> return the raw value of the pipeline minus
  \<open>gamma * max 0 (beta2 - alpha2)\<close>, where \<open>beta2\<close> is the quadratic form of \<open>hess\<close> at
  \<open>x_o - mu\<close> and \<open>x_o\<close> is the coordinate in the original space (followed, in the
  transformed space, by the correction of the transform). \<^verbatim>\<open>Density.grad\<close> subtracts
  \<open>2 * gamma * (x_o - mu) hess\<close> when \<open>beta2 > alpha2\<close> and nothing otherwise; for a
  symmetric \<open>hess\<close> this is \<open>2 * gamma * hess (x_o - mu)\<close>. The penalty is zero when
  \<open>beta2 \<le> alpha2\<close>, hence for every point whose distance \<open>sqrt beta2\<close> is at most
  \<open>alpha\<close>; for a positive \<open>gamma\<close>, which is all the setter and the default allow, it
  is positive and strictly increasing in \<open>beta2\<close> beyond \<open>alpha2\<close>. Numbers are reals.
\<close>

theorem decay_penalty_applied:
  fixes self :: "'a density_scheme"
  assumes dec: "use_decay self"
    and xo: "(if orig then Inr x else returned (to_original K self (as_1d x) OutTrue)) = Inr x_o"
    and m: "mu self = Some m" and H: "hess self = Some H"
    and g: "gamma self = Some g" and a2: "alpha2 self = Some a2"
    and dims: "length x_o = length m" "length (rows H) = length m" "ncols H = length m"
  defines "d \<equiv> map2 (-) x_o m"
  defines "beta2 \<equiv> quad_form H d"
  defines "pen \<equiv> (\<lambda>b. g * max 0 (b - a2))"
  defines "term \<equiv> map (\<lambda>t. 2 * g * t * (if beta2 > a2 then 1 else 0)) (dot_row d H)"
  shows
    "(\<forall>r l. pipeline_fun K vc self (InFloat (FVec x)) (density_options self True orig st sp) = Inr r \<and>
            raw r = Inr l \<longrightarrow>
            density_logp K vc self x True orig st sp =
              (if orig then Inr (l - pen beta2) else logp_transformed K self x (l - pen beta2))) \<and>
     (\<forall>r gr. pipeline_jac K vc self (InFloat (FVec x)) (density_options self True orig st sp) = Inr r \<and>
             raw_row r = Inr gr \<and> length gr = length m \<longrightarrow>
             density_grad K vc self x True orig st sp =
               (if orig then Inr (map2 (-) gr term) else grad_transformed K self x (map2 (-) gr term))) \<and>
     (\<forall>r l gr. pipeline_fun_and_jac K vc self (InFloat (FVec x)) (density_options self True orig st sp) = Inr r \<and>
             raw r = Inr l \<and> raw_row r = Inr gr \<and> length gr = length m \<longrightarrow>
             density_logp_and_grad K vc self x True orig st sp =
               (if orig then Inr (l - pen beta2, map2 (-) gr term)
                else (case logp_transformed K self x (l - pen beta2) of
                        Inl e \<Rightarrow> Inl e
                      | Inr l' \<Rightarrow>
                          (case grad_transformed K self x (map2 (-) gr term) of
                             Inl e \<Rightarrow> Inl e
                           | Inr gr' \<Rightarrow> Inr (l', gr'))))) \<and>
     (symmetric H \<longrightarrow> dot_row d H = mat_vec H d) \<and>
     (\<forall>b. b \<le> a2 \<longrightarrow> pen b = 0) \<and>
     (\<forall>a b. 0 \<le> a \<and> a2 = a ^ 2 \<and> sqrt b \<le> a \<longrightarrow> pen b = 0) \<and>
     (0 < g \<longrightarrow> (\<forall>b. a2 < b \<longrightarrow> 0 < pen b) \<and> (\<forall>b b'. a2 < b \<and> b < b' \<longrightarrow> pen b < pen b'))"
proof -
  have ld: "length d = length m" using dims(1) by (simp add: d_def)
  have dt: "decay_terms K self x orig = Inr (d, beta2)"
    unfolding d_def beta2_def by (rule decay_terms_eq[OF xo m H dims])
  have lp: "logp_decay K self x orig l = Inr (l - pen beta2)" for l
    using logp_decay_eq[OF dt g a2] by (simp add: pen_def decay_penalty_def)
  have gd: "grad_decay K self x orig gr = Inr (map2 (-) gr term)" if "length gr = length m" for gr
    using grad_decay_eq[OF dt g a2 H, of gr] that ld dims
    by (simp add: term_def decay_grad_term_def)
  have c1: "\<forall>r l. pipeline_fun K vc self (InFloat (FVec x)) (density_options self True orig st sp) = Inr r \<and>
            raw r = Inr l \<longrightarrow>
            density_logp K vc self x True orig st sp =
              (if orig then Inr (l - pen beta2) else logp_transformed K self x (l - pen beta2))"
    using dec by (simp add: density_logp_def lp)
  have c2: "\<forall>r gr. pipeline_jac K vc self (InFloat (FVec x)) (density_options self True orig st sp) = Inr r \<and>
             raw_row r = Inr gr \<and> length gr = length m \<longrightarrow>
             density_grad K vc self x True orig st sp =
               (if orig then Inr (map2 (-) gr term) else grad_transformed K self x (map2 (-) gr term))"
    using dec by (simp add: density_grad_def gd)
  have c3: "\<forall>r l gr. pipeline_fun_and_jac K vc self (InFloat (FVec x)) (density_options self True orig st sp) = Inr r \<and>
             raw r = Inr l \<and> raw_row r = Inr gr \<and> length gr = length m \<longrightarrow>
             density_logp_and_grad K vc self x True orig st sp =
               (if orig then Inr (l - pen beta2, map2 (-) gr term)
                else (case logp_transformed K self x (l - pen beta2) of
                        Inl e \<Rightarrow> Inl e
                      | Inr l' \<Rightarrow>
                          (case grad_transformed K self x (map2 (-) gr term) of
                             Inl e \<Rightarrow> Inl e
                           | Inr gr' \<Rightarrow> Inr (l', gr'))))"
    using dec by (simp add: density_logp_and_grad_def lp gd)
  have c4: "symmetric H \<longrightarrow> dot_row d H = mat_vec H d"
    using dot_row_symmetric[of H d] ld dims by simp
  have c5: "\<forall>b. b \<le> a2 \<longrightarrow> pen b = 0"
    using decay_penalty_zero[of _ a2 g] by (simp add: pen_def decay_penalty_def)
  have c6: "\<forall>a b. 0 \<le> a \<and> a2 = a ^ 2 \<and> sqrt b \<le> a \<longrightarrow> pen b = 0"
    using decay_penalty_within[of _ _ g] by (simp add: pen_def decay_penalty_def)
  have c7: "0 < g \<longrightarrow> (\<forall>b. a2 < b \<longrightarrow> 0 < pen b) \<and> (\<forall>b b'. a2 < b \<and> b < b' \<longrightarrow> pen b < pen b')"
    using decay_penalty_pos[of g a2] decay_penalty_strict[of g a2]
    by (simp add: pen_def decay_penalty_def)
  from c1 c2 c3 c4 c5 c6 c7 show ?thesis by blast
qed

theorem decay_penalty_applied_witness:
  "use_decay decay_density \<and>
   mu decay_density = Some [0, 0] \<and>
   hess decay_density = Some \<lparr>ncols = 2, rows = [[2, 1], [1, 2]]\<rparr> \<and>
   gamma decay_density = Some (1 / 10) \<and> alpha2 decay_density = Some 1 \<and>
   symmetric \<lparr>ncols = 2, rows = [[2, 1], [1, 2]]\<rparr> \<and>
   quad_form \<lparr>ncols = 2, rows = [[2, 1], [1, 2]]\<rparr> [3, 4] = 74 \<and>
   density_logp unit_kernels keep_names decay_density [3, 4] True True None None = Inr (- 43 / 10) \<and>
   density_grad unit_kernels keep_names decay_density [3, 4] True True None None =
     Inr [- 1, - 11 / 5] \<and>
   density_logp_and_grad unit_kernels keep_names decay_density [3, 4] True True None None =
     Inr (- 43 / 10, [- 1, - 11 / 5]) \<and>
   dot_row [3, 4] \<lparr>ncols = 2, rows = [[2, 1], [1, 2]]\<rparr> =
     mat_vec \<lparr>ncols = 2, rows = [[2, 1], [1, 2]]\<rparr> [3, 4]"
proof -
  define D where "D = decay_density"
  define H :: matrix where "H = \<lparr>ncols = 2, rows = [[2, 1], [1, 2]]\<rparr>"
  have F: "module_list D = [identity_module]"
    "surrogate_list D = [identity_surrogate 0 1]"
    "surrogate_recipe D = [(0, 0, 1)]"
    "pipeline_input_vars D = [''__var__'']"
    "input_cum D = None"
    unfolding D_def by (rule decay_density_fields)+
  have A: "use_decay D" "mu D = Some [0, 0]" "hess D = Some H" "gamma D = Some (1 / 10)"
    "alpha2 D = Some 1" "density_name D = ''__var__''"
    unfolding D_def H_def by (simp_all add: decay_density_fields)
  have up: "[0..<2] = [0, 1]" by (simp add: upt_rec)
  have sy: "symmetric H"
    by (simp add: symmetric_def H_def less_Suc_eq numeral_2_eq_2)
  have q: "quad_form H [3, 4] = 74"
    by (simp add: quad_form_def H_def up)
  have dr: "dot_row [3, 4] H = [10, 11]"
    by (simp add: dot_row_def H_def up)
  have o: "density_options D True True None None =
        \<lparr>use_surrogate = True, original_space = True, start = None, stop = None,
            extract_vars = ExName ''__var__''\<rparr>"
    by (simp add: density_options_def A)
  have f: "pipeline_fun unit_kernels keep_names D (InFloat (FVec [3, 4]))
             (density_options D True True None None) = Inr (RValue [3, 4])"
    unfolding o by (rule surrogate_step_fun[OF F])
  have fj: "pipeline_fun_and_jac unit_kernels keep_names D (InFloat (FVec [3, 4]))
             (density_options D True True None None) = Inr (RPair [3, 4] (eye 2))"
    unfolding o using surrogate_step_jac[OF F, of unit_kernels keep_names "[3, 4]"]
    by (simp add: numeral_2_eq_2)
  have j: "pipeline_jac unit_kernels keep_names D (InFloat (FVec [3, 4]))
             (density_options D True True None None) = Inr (RJac (eye 2))"
    using fj by (simp add: pipeline_jac_def density_options_def)
  have e2: "rows (eye 2) = [[1, 0], [0, 1]]" by (simp add: eye_def up)
  have xo: "(if True then Inr [3, 4] else returned (to_original unit_kernels D (as_1d [3, 4]) OutTrue)) =
        Inr [3, 4::real]" by simp
  note inst = decay_penalty_applied[OF A(1) xo A(2) A(3) A(4) A(5), of keep_names None None]
  have hyp: "length [3, 4::real] = length [0, 0::real]" "length (rows H) = length [0, 0::real]"
    "ncols H = length [0, 0::real]" by (simp_all add: H_def)
  note inst' = inst[OF hyp]
  have r1: "density_logp unit_kernels keep_names D [3, 4] True True None None = Inr (- 43 / 10)"
    using inst'[THEN conjunct1, rule_format, of "RValue [3, 4]" 3] f
    by (simp add: raw_def q)
  have r2: "density_grad unit_kernels keep_names D [3, 4] True True None None = Inr [- 1, - 11 / 5]"
    using inst'[THEN conjunct2, THEN conjunct1, rule_format, of "RJac (eye 2)" "[1, 0]"] j
    by (simp add: raw_row_def e2 q dr)
  have r3: "density_logp_and_grad unit_kernels keep_names D [3, 4] True True None None =
     Inr (- 43 / 10, [- 1, - 11 / 5])"
    using inst'[THEN conjunct2, THEN conjunct2, THEN conjunct1, rule_format,
        of "RPair [3, 4] (eye 2)" 3 "[1, 0]"] fj
    by (simp add: raw_def raw_row_def e2 q dr)
  have r4: "dot_row [3, 4] H = mat_vec H [3, 4]"
    using inst'[THEN conjunct2, THEN conjunct2, THEN conjunct2, THEN conjunct1] sy by simp
  from A sy q r1 r2 r3 r4 show ?thesis unfolding D_def H_def by simp
qed

section \<open>Switching the decay on and off\<close>

lemma set_alpha_cases:
  assumes "set_alpha a self = (self', r)"
  shows "use_decay self' = use_decay self \<and> gamma self' = gamma self \<and>
         mu self' = mu self \<and> hess self' = hess self \<and>
         (r = None \<longrightarrow> (\<exists>v. a = PyFloat v \<and> 0 < v \<and> alpha self' = Some v \<and> alpha2 self' = Some (v ^ 2)))"
  using assms by (auto simp: set_alpha_def split: pyarg.splits if_splits)

lemma set_gamma_cases:
  assumes "set_gamma g self = (self', r)"
  shows "use_decay self' = use_decay self \<and> alpha self' = alpha self \<and> alpha2 self' = alpha2 self \<and>
         mu self' = mu self \<and> hess self' = hess self \<and>
         (r = None \<longrightarrow> (\<exists>v. g = PyFloat v \<and> 0 < v \<and> gamma self' = Some v))"
  using assms by (auto simp: set_gamma_def split: pyarg.splits if_splits)

lemma alpha_from_samples_cases:
  assumes "alpha_from_samples NP p m H xs self = (self', r)"
  shows "use_decay self' = use_decay self \<and> gamma self' = gamma self \<and>
         mu self' = mu self \<and> hess self' = hess self \<and>
         (r = None \<longrightarrow> (\<exists>v. 0 < v \<and> alpha self' = Some v \<and> alpha2 self' = Some (v ^ 2)))"
  using assms
  by (auto simp: alpha_from_samples_def split: pyarg.splits if_splits sum.splits list.splits
      dest!: set_alpha_cases)

lemma decay_alpha_cases:
  assumes "decay_alpha NP a p m H xs self = (self', r)"
  shows "use_decay self' = use_decay self \<and> gamma self' = gamma self \<and>
         mu self' = mu self \<and> hess self' = hess self \<and>
         (r = None \<longrightarrow> alpha self' \<noteq> None \<and>
            (\<forall>v. a = PyFloat v \<longrightarrow> alpha self' = Some v \<and> alpha2 self' = Some (v ^ 2)) \<and>
            (a = PyNone \<and> p = PyNone \<and> alpha self \<noteq> None \<longrightarrow>
               alpha self' = alpha self \<and> alpha2 self' = alpha2 self))"
  using assms
  by (auto simp: decay_alpha_def split: if_splits
      dest!: set_alpha_cases alpha_from_samples_cases)

lemma decay_gamma_cases:
  assumes "decay_gamma g self = (self', r)"
  shows "use_decay self' = use_decay self \<and> alpha self' = alpha self \<and> alpha2 self' = alpha2 self \<and>
         mu self' = mu self \<and> hess self' = hess self \<and>
         (r = None \<longrightarrow> gamma self' \<noteq> None \<and>
            (\<forall>v. g = PyFloat v \<longrightarrow> gamma self' = Some v) \<and>
            (g = PyNone \<and> gamma self = None \<longrightarrow> gamma self' = Some (1 / 10)) \<and>
            (g = PyNone \<and> gamma self \<noteq> None \<longrightarrow> gamma self' = gamma self))"
proof (cases "g = PyNone")
  case True
  with assms show ?thesis
    by (cases "gamma self") (auto simp: decay_gamma_def intro!: exI[of _ "1 / 10 :: real"])
next
  case False
  with assms have "set_gamma g self = (self', r)" by (simp add: decay_gamma_def)
  from set_gamma_cases[OF this] False show ?thesis by auto
qed

lemma set_decay_success:
  assumes "set_decay NP K self x orig a p g = (self', None)"
  shows "use_decay self' \<and> mu self' \<noteq> None \<and> hess self' \<noteq> None \<and>
         alpha self' \<noteq> None \<and> gamma self' \<noteq> None \<and>
         (\<forall>v. a = PyFloat v \<longrightarrow> alpha self' = Some v \<and> alpha2 self' = Some (v ^ 2)) \<and>
         (a = PyNone \<and> p = PyNone \<and> alpha self \<noteq> None \<longrightarrow>
            alpha self' = alpha self \<and> alpha2 self' = alpha2 self) \<and>
         (\<forall>v. g = PyFloat v \<longrightarrow> gamma self' = Some v) \<and>
         (g = PyNone \<and> gamma self = None \<longrightarrow> gamma self' = Some (1 / 10)) \<and>
         (g = PyNone \<and> gamma self \<noteq> None \<longrightarrow> gamma self' = gamma self)"
proof -
  from assms obtain x_o H self3 self4 where
    inv: "np_inv NP (np_cov NP (rows_of x_o)) = Inr H"
    and al: "decay_alpha NP a p (mean0 (last (shape x_o)) (rows_of x_o)) H (rows_of x_o)
               (self\<lparr>mu := Some (mean0 (last (shape x_o)) (rows_of x_o)), hess := Some H\<rparr>) = (self3, None)"
    and ga: "decay_gamma g self3 = (self4, None)"
    and res: "self' = self4\<lparr>use_decay := True\<rparr>"
    by (auto simp: set_decay_def Let_def split: sum.splits option.splits if_splits prod.splits)
  from decay_alpha_cases[OF al] decay_gamma_cases[OF ga] res
  show ?thesis by auto
qed

lemma set_decay_failure:
  assumes "set_decay NP K self x orig a p g = (self', Some e)"
  shows "use_decay self' = use_decay self"
  using assms
  by (auto simp: set_decay_def Let_def split: sum.splits option.splits if_splits prod.splits
      dest!: decay_alpha_cases decay_gamma_cases)

lemma fit_without_decay:
  assumes "var_dicts = Some vds" and "dopts = Some d" and "fopts \<noteq> FitOther"
  shows "density_fit NP K SF self var_dicts False dopts fopts =
           (self\<lparr>use_decay := False\<rparr>,
            fit_surrogates SF vds (density_name self) (surrogate_list self))"
  using assms by (simp add: density_fit_def)

lemma fit_returns:
  assumes "density_fit NP K SF self var_dicts decay dopts fopts = (self', None)"
  shows "var_dicts \<noteq> None \<and> dopts \<noteq> None \<and> fopts \<noteq> FitOther"
  using assms by (auto simp: density_fit_def split: option.splits if_splits)

lemma set_decay_moments:
  assumes "set_decay NP K self x orig a p g = (self', None)"
  shows "\<exists>x2 x_o H. reshape_rows x = Inr x2 \<and>
           (if orig then Inr (Some x2) else to_original K self x2 OutTrue) = Inr (Some x_o) \<and>
           mu self' = Some (mean0 (last (shape x_o)) (rows_of x_o)) \<and>
           np_inv NP (np_cov NP (rows_of x_o)) = Inr H \<and> hess self' = Some H"
proof -
  from assms obtain x2 x_o H self3 self4 where
    rr: "reshape_rows x = Inr x2"
    and xo: "(if orig then Inr (Some x2) else to_original K self x2 OutTrue) = Inr (Some x_o)"
    and inv: "np_inv NP (np_cov NP (rows_of x_o)) = Inr H"
    and al: "decay_alpha NP a p (mean0 (last (shape x_o)) (rows_of x_o)) H (rows_of x_o)
               (self\<lparr>mu := Some (mean0 (last (shape x_o)) (rows_of x_o)), hess := Some H\<rparr>) = (self3, None)"
    and ga: "decay_gamma g self3 = (self4, None)"
    and res: "self' = self4\<lparr>use_decay := True\<rparr>"
    by (auto simp: set_decay_def Let_def split: sum.splits option.splits if_splits prod.splits)
  from decay_alpha_cases[OF al] decay_gamma_cases[OF ga] res
  have "mu self' = Some (mean0 (last (shape x_o)) (rows_of x_o))" "hess self' = Some H" by auto
  with rr xo inv show ?thesis by blast
qed

text \<open>
  C10. Every call of \<^verbatim>\<open>set_decay\<close> that returns leaves \<^verbatim>\<open>use_decay\<close> true, with \<open>mu\<close>
  the mean of the sample rows and \<open>hess\<close> the inverse of their covariance, and with
  \<open>alpha\<close> and \<open>gamma\<close> set: to the arguments when they are given, else computed or, when
  the object has them already, kept as the source prescribes. A call that raises leaves
  the flag as it was. \<^verbatim>\<open>fit\<close> with a false \<^verbatim>\<open>use_decay\<close>, once its arguments have passed the
  checks, sets the flag to false before it fits the surrogates, so the flag is false
  whether or not a surrogate's fit raises afterwards, and in particular whenever the
  call returns.
\<close>

theorem decay_switch:
  "(set_decay NP K self x orig a p g = (self', None) \<longrightarrow>
      use_decay self' \<and> alpha self' \<noteq> None \<and> gamma self' \<noteq> None \<and>
      (\<exists>x2 x_o H. reshape_rows x = Inr x2 \<and>
           (if orig then Inr (Some x2) else to_original K self x2 OutTrue) = Inr (Some x_o) \<and>
           mu self' = Some (mean0 (last (shape x_o)) (rows_of x_o)) \<and>
           np_inv NP (np_cov NP (rows_of x_o)) = Inr H \<and> hess self' = Some H) \<and>
      (\<forall>v. a = PyFloat v \<longrightarrow> alpha self' = Some v \<and> alpha2 self' = Some (v ^ 2)) \<and>
      (a = PyNone \<and> p = PyNone \<and> alpha self \<noteq> None \<longrightarrow>
         alpha self' = alpha self \<and> alpha2 self' = alpha2 self) \<and>
      (\<forall>v. g = PyFloat v \<longrightarrow> gamma self' = Some v) \<and>
      (g = PyNone \<and> gamma self = None \<longrightarrow> gamma self' = Some (1 / 10)) \<and>
      (g = PyNone \<and> gamma self \<noteq> None \<longrightarrow> gamma self' = gamma self)) \<and>
   (set_decay NP K self x orig a p g = (self', Some e) \<longrightarrow> use_decay self' = use_decay self) \<and>
   (var_dicts = Some vds \<and> dopts = Some d \<and> fopts \<noteq> FitOther \<longrightarrow>
      density_fit NP K SF self var_dicts False dopts fopts =
        (self\<lparr>use_decay := False\<rparr>,
         fit_surrogates SF vds (density_name self) (surrogate_list self))) \<and>
   (density_fit NP K SF self var_dicts False dopts fopts = (self'', None) \<longrightarrow> \<not> use_decay self'')"
proof (intro conjI impI)
  assume s: "set_decay NP K self x orig a p g = (self', None)"
  note r = set_decay_success[OF s]
  from r show "use_decay self'" by simp
  from r show "alpha self' \<noteq> None" by simp
  from r show "gamma self' \<noteq> None" by simp
  from r show "\<forall>v. a = PyFloat v \<longrightarrow> alpha self' = Some v \<and> alpha2 self' = Some (v ^ 2)" by simp
  from r show "\<forall>v. g = PyFloat v \<longrightarrow> gamma self' = Some v" by simp
  show "\<exists>x2 x_o H. reshape_rows x = Inr x2 \<and>
           (if orig then Inr (Some x2) else to_original K self x2 OutTrue) = Inr (Some x_o) \<and>
           mu self' = Some (mean0 (last (shape x_o)) (rows_of x_o)) \<and>
           np_inv NP (np_cov NP (rows_of x_o)) = Inr H \<and> hess self' = Some H"
    by (rule set_decay_moments[OF s])
  { assume "a = PyNone \<and> p = PyNone \<and> alpha self \<noteq> None"
    with r show "alpha self' = alpha self" "alpha2 self' = alpha2 self" by simp_all }
  { assume "g = PyNone \<and> gamma self = None"
    with r show "gamma self' = Some (1 / 10)" by simp }
  { assume "g = PyNone \<and> gamma self \<noteq> None"
    with r show "gamma self' = gamma self" by simp }
next
  assume "set_decay NP K self x orig a p g = (self', Some e)"
  then show "use_decay self' = use_decay self" by (rule set_decay_failure)
next
  assume "var_dicts = Some vds \<and> dopts = Some d \<and> fopts \<noteq> FitOther"
  then show "density_fit NP K SF self var_dicts False dopts fopts =
        (self\<lparr>use_decay := False\<rparr>,
         fit_surrogates SF vds (density_name self) (surrogate_list self))"
    by (intro fit_without_decay) simp_all
next
  assume f: "density_fit NP K SF self var_dicts False dopts fopts = (self'', None)"
  from fit_returns[OF f] obtain vds' d' where
    "var_dicts = Some vds'" "dopts = Some d'" "fopts \<noteq> FitOther" by auto
  from fit_without_decay[OF this, of NP K SF self] f
  show "\<not> use_decay self''" by auto
qed

theorem decay_switch_witness:
  "set_decay unit_numpy unit_kernels (decay_density\<lparr>use_decay := False\<rparr>)
       \<lparr>shape = [2, 2], elems = [1, 2, 3, 4]\<rparr> True (PyFloat 2) (PyFloat 150) PyNone =
     (decay_density\<lparr>mu := Some [2, 3], hess := Some (eye 2), alpha := Some 2, alpha2 := Some 4\<rparr>, None) \<and>
   use_decay (decay_density\<lparr>mu := Some [2, 3], hess := Some (eye 2), alpha := Some 2, alpha2 := Some 4\<rparr>) \<and>
   set_decay unit_numpy unit_kernels (decay_density\<lparr>use_decay := False\<rparr>)
       \<lparr>shape = [2, 0], elems = []\<rparr> True (PyFloat 2) (PyFloat 150) PyNone =
     (decay_density\<lparr>use_decay := False\<rparr>, Some (ValueError ''cannot reshape array of size 0'')) \<and>
   density_fit unit_numpy unit_kernels failing_su_fit decay_density
       (Some [\<lparr>vd_fun = [(''__var__'', [1, 2])], vd_jac = []\<rparr>]) False
       (Some \<lparr>do_original_space = True, do_alpha = PyNone, do_alpha_p = PyFloat 150,
              do_gamma = PyNone, do_other_keys = False\<rparr>) FitDict =
     (decay_density\<lparr>use_decay := False\<rparr>, Some (ValueError ''fit failed'')) \<and>
   density_fit unit_numpy unit_kernels no_su_fit decay_density
       (Some [\<lparr>vd_fun = [(''__var__'', [1, 2])], vd_jac = []\<rparr>]) False
       (Some \<lparr>do_original_space = True, do_alpha = PyNone, do_alpha_p = PyFloat 150,
              do_gamma = PyNone, do_other_keys = False\<rparr>) FitDict =
     (decay_density\<lparr>use_decay := False\<rparr>, None) \<and>
   \<not> use_decay (decay_density\<lparr>use_decay := False\<rparr>)"
proof -
  let ?D = "decay_density\<lparr>use_decay := False\<rparr>"
  let ?D' = "decay_density\<lparr>mu := Some [2, 3], hess := Some (eye 2), alpha := Some 2, alpha2 := Some 4\<rparr>"
  let ?vds = "[\<lparr>vd_fun = [(''__var__'', [1, 2::real])], vd_jac = []\<rparr>]"
  let ?do = "\<lparr>do_original_space = True, do_alpha = PyNone, do_alpha_p = PyFloat 150,
              do_gamma = PyNone, do_other_keys = False\<rparr>"
  have up: "[0..<2] = [0, 1]" by (simp add: upt_rec)
  have e: "eye (Suc (Suc 0)) = eye 2" by (simp add: numeral_2_eq_2)
  have rr: "reshape_rows \<lparr>shape = [2, 2], elems = [1, 2, 3, 4]\<rparr> =
              Inr \<lparr>shape = [2, 2], elems = [1, 2, 3, 4]\<rparr>"
    by (simp add: reshape_rows_def)
  have ro: "rows_of \<lparr>shape = [2, 2], elems = [1, 2, 3, 4]\<rparr> = [[1, 2], [3, 4]]"
    by (simp add: rows_of_def block_def up)
  have me: "mean0 2 [[1, 2], [3, 4]] = [2, 3]"
    by (simp add: mean0_def up)
  have s1: "set_decay unit_numpy unit_kernels ?D \<lparr>shape = [2, 2], elems = [1, 2, 3, 4]\<rparr> True
              (PyFloat 2) (PyFloat 150) PyNone = (?D', None)"
    by (simp add: set_decay_def rr ro me unit_numpy_def decay_alpha_def set_alpha_def
        decay_gamma_def decay_density_def e)
  have s2: "set_decay unit_numpy unit_kernels ?D \<lparr>shape = [2, 0], elems = []\<rparr> True
              (PyFloat 2) (PyFloat 150) PyNone =
            (?D, Some (ValueError ''cannot reshape array of size 0''))"
    by (simp add: set_decay_def reshape_rows_def)
  have fs1: "fit_surrogates failing_su_fit ?vds (density_name decay_density)
               (surrogate_list decay_density) = Some (ValueError ''fit failed'')"
    by (simp add: decay_density_def identity_surrogate_def identity_module_def lookup_def failing_su_fit_def)
  have fs2: "fit_surrogates no_su_fit ?vds (density_name decay_density)
               (surrogate_list decay_density) = None"
    by (simp add: decay_density_def identity_surrogate_def identity_module_def lookup_def no_su_fit_def)
  have hyp: "Some ?vds = Some ?vds \<and> Some ?do = Some ?do \<and> FitDict \<noteq> FitOther" by simp
  note sw1 = decay_switch[of unit_numpy unit_kernels ?D "\<lparr>shape = [2, 2], elems = [1, 2, 3, 4]\<rparr>"
      True "PyFloat 2" "PyFloat 150" PyNone ?D']
  note sw2 = decay_switch[of unit_numpy unit_kernels decay_density _ _ _ _ _ _ _ "Some ?vds" ?vds
      "Some ?do" ?do FitDict failing_su_fit]
  note sw3 = decay_switch[of unit_numpy unit_kernels decay_density _ _ _ _ _ _ _ "Some ?vds" ?vds
      "Some ?do" ?do FitDict no_su_fit]
  from sw1[THEN conjunct1, rule_format, OF s1] have u: "use_decay ?D'" by simp
  from sw2[THEN conjunct2, THEN conjunct2, THEN conjunct1, rule_format, OF hyp] fs1
  have f1: "density_fit unit_numpy unit_kernels failing_su_fit decay_density (Some ?vds) False
              (Some ?do) FitDict = (?D, Some (ValueError ''fit failed''))" by simp
  from sw3[THEN conjunct2, THEN conjunct2, THEN conjunct1, rule_format, OF hyp] fs2
  have f2: "density_fit unit_numpy unit_kernels no_su_fit decay_density (Some ?vds) False
              (Some ?do) FitDict = (?D, None)" by simp
  from sw3[THEN conjunct2, THEN conjunct2, THEN conjunct2, rule_format, OF f2]
  have n: "\<not> use_decay ?D" .
  from s1 u s2 f1 f2 n show ?thesis by (intro conjI)
qed

end
